theory Spec2Isabelle
  imports Main
begin

section \<open>Python string and integer primitives used by the program\<close>

text \<open>
  Strings are ASCII character lists. The functions below restate the behaviour of the
  built-ins the source calls (\<open>str.strip\<close>, \<open>str.split\<close>, \<open>int\<close>, \<open>in\<close>,
  \<open>str.lower\<close>, the format \<open>{n:02d}\<close>) on ASCII input.
\<close>

definition is_space :: "char \<Rightarrow> bool" where
  "is_space c = (c \<in> set [CHR 0x09, CHR 0x0A, CHR 0x0B, CHR 0x0C, CHR 0x0D,
                           CHR 0x1C, CHR 0x1D, CHR 0x1E, CHR 0x1F, CHR '' ''])"

definition strip :: "string \<Rightarrow> string" where
  "strip s = rev (dropWhile is_space (rev (dropWhile is_space s)))"

text \<open>\<open>s.split(sep)\<close> for a one-character separator: always at least one part.\<close>

fun split_char :: "char \<Rightarrow> string \<Rightarrow> string list" where
  "split_char sep [] = [[]]"
| "split_char sep (c # cs) =
     (if c = sep then [] # split_char sep cs
      else (case split_char sep cs of [] \<Rightarrow> [[c]] | p # ps \<Rightarrow> (c # p) # ps))"

text \<open>\<open>part.split("-", 1)\<close> when \<open>"-" in part\<close>: the text before and after the first dash.\<close>

definition split_dash_once :: "string \<Rightarrow> string \<times> string" where
  "split_dash_once part =
     (takeWhile (\<lambda>c. c \<noteq> CHR ''-'') part, tl (dropWhile (\<lambda>c. c \<noteq> CHR ''-'') part))"

definition is_digit :: "char \<Rightarrow> bool" where
  "is_digit c = (48 \<le> (of_char c :: nat) \<and> (of_char c :: nat) \<le> 57)"

definition digit_val :: "char \<Rightarrow> int" where
  "digit_val c = int (of_char c) - 48"

text \<open>Digits of an \<open>int\<close> literal: non-empty, single underscores only between digits.\<close>

fun py_digits :: "string \<Rightarrow> bool" where
  "py_digits [] = False"
| "py_digits [c] = is_digit c"
| "py_digits (c # d # cs) =
     (is_digit c \<and> (if d = CHR ''_'' then py_digits cs else py_digits (d # cs)))"

definition digits_value :: "string \<Rightarrow> int" where
  "digits_value s =
     foldl (\<lambda>acc c. 10 * acc + digit_val c) 0 (filter (\<lambda>c. c \<noteq> CHR ''_'') s)"

text \<open>
  \<open>int(s)\<close>: \<open>None\<close> stands for the \<open>ValueError\<close> it raises. \<open>int\<close> skips
  blanks, tabs and line ends around the number (not the separators 0x1C-0x1F that
  \<open>str.strip\<close> also removes) and refuses a number of more than 4300 digits.
\<close>

definition int_space :: "char \<Rightarrow> bool" where
  "int_space c = (c \<in> set [CHR 0x09, CHR 0x0A, CHR 0x0B, CHR 0x0C, CHR 0x0D, CHR '' ''])"

definition int_strip :: "string \<Rightarrow> string" where
  "int_strip s = rev (dropWhile int_space (rev (dropWhile int_space s)))"

definition max_str_digits :: nat where
  "max_str_digits = 4300"

definition int_literal :: "string \<Rightarrow> bool" where
  "int_literal cs =
     (py_digits cs \<and> length (filter (\<lambda>c. c \<noteq> CHR ''_'') cs) \<le> max_str_digits)"

definition py_int :: "string \<Rightarrow> int option" where
  "py_int s =
     (case int_strip s of
        [] \<Rightarrow> None
      | c # cs \<Rightarrow>
          if c = CHR ''-'' then (if int_literal cs then Some (- digits_value cs) else None)
          else if c = CHR ''+'' then (if int_literal cs then Some (digits_value cs) else None)
          else if int_literal (c # cs) then Some (digits_value (c # cs)) else None)"

fun startswith :: "string \<Rightarrow> string \<Rightarrow> bool" where
  "startswith s [] = True"
| "startswith [] (p # ps) = False"
| "startswith (c # cs) (p # ps) = (c = p \<and> startswith cs ps)"

text \<open>\<open>sub in s\<close> for strings.\<close>

fun py_in :: "string \<Rightarrow> string \<Rightarrow> bool" where
  "py_in sub [] = (sub = [])"
| "py_in sub (c # cs) = (startswith (c # cs) sub \<or> py_in sub cs)"

definition lower_char :: "char \<Rightarrow> char" where
  "lower_char c =
     (if 65 \<le> (of_char c :: nat) \<and> (of_char c :: nat) \<le> 90
      then char_of ((of_char c :: nat) + 32) else c)"

definition lower :: "string \<Rightarrow> string" where
  "lower s = map lower_char s"

definition digit_char :: "nat \<Rightarrow> char" where
  "digit_char n = ''0123456789'' ! n"

fun decimal :: "nat \<Rightarrow> string" where
  "decimal n = (if n < 10 then [digit_char n]
                else decimal (n div 10) @ [digit_char (n mod 10)])"

text \<open>The format \<open>{n:02d}\<close> for a non-negative \<open>n\<close> (days and months).\<close>

definition fmt02 :: "int \<Rightarrow> string" where
  "fmt02 n = (if n < 10 then CHR ''0'' # decimal (nat n) else decimal (nat n))"

section \<open>Dates (\<open>datetime.date\<close>)\<close>

record date =
  year :: int
  month :: int
  day :: int

definition is_leap :: "int \<Rightarrow> bool" where
  "is_leap y = (y mod 4 = 0 \<and> (y mod 100 \<noteq> 0 \<or> y mod 400 = 0))"

definition days_in_month :: "int \<Rightarrow> int \<Rightarrow> int" where
  "days_in_month y m =
     (if m = 2 then (if is_leap y then 29 else 28)
      else if m \<in> {4, 6, 9, 11} then 30 else 31)"

definition days_before_year :: "int \<Rightarrow> int" where
  "days_before_year y = (y - 1) * 365 + (y - 1) div 4 - (y - 1) div 100 + (y - 1) div 400"

fun days_before_month_nat :: "int \<Rightarrow> nat \<Rightarrow> int" where
  "days_before_month_nat y 0 = 0"
| "days_before_month_nat y (Suc k) =
     (if k = 0 then 0 else days_before_month_nat y k + days_in_month y (int k))"

definition days_before_month :: "int \<Rightarrow> int \<Rightarrow> int" where
  "days_before_month y m = days_before_month_nat y (nat m)"

definition toordinal :: "date \<Rightarrow> int" where
  "toordinal d = days_before_year (year d) + days_before_month (year d) (month d) + day d"

text \<open>\<open>date.weekday()\<close>: Monday is 0, Sunday is 6.\<close>

definition weekday :: "date \<Rightarrow> int" where
  "weekday d = (toordinal d + 6) mod 7"

text \<open>The constructor \<open>date(y, m, d)\<close>; \<open>None\<close> stands for its \<open>ValueError\<close>.\<close>

definition mk_date :: "int \<Rightarrow> int \<Rightarrow> int \<Rightarrow> date option" where
  "mk_date y m d =
     (if 1 \<le> y \<and> y \<le> 9999 \<and> 1 \<le> m \<and> m \<le> 12 \<and> 1 \<le> d \<and> d \<le> days_in_month y m
      then Some \<lparr>year = y, month = m, day = d\<rparr> else None)"

text \<open>Comparison of dates (\<open>a > b\<close>).\<close>

definition date_gt :: "date \<Rightarrow> date \<Rightarrow> bool" where
  "date_gt a b =
     (year a > year b \<or> (year a = year b \<and> (month a > month b \<or>
        (month a = month b \<and> day a > day b))))"

section \<open>Day ranges (\<open>parse_day_ranges\<close> and the loops of \<open>parse_args\<close>)\<close>

text \<open>
  The loop \<open>for part in value.split(",")\<close>, written out four times in the source
  (\<open>parse_day_ranges\<close> of the interactive shell, and the \<open>--present-dates\<close>,
  \<open>--sick-days\<close> and \<open>--vacation\<close> blocks of \<open>parse_args\<close>) with the same body.
  \<open>None\<close> stands for the \<open>ValueError\<close> raised by \<open>int\<close>.
\<close>

fun day_range_loop :: "string list \<Rightarrow> int set \<Rightarrow> int set option" where
  "day_range_loop [] days = Some days"
| "day_range_loop (part # rest) days =
     (let part = strip part in
      if part = [] then day_range_loop rest days
      else if CHR ''-'' \<in> set part then
        (case split_dash_once part of (start, end) \<Rightarrow>
           (case py_int (strip start) of
              None \<Rightarrow> None
            | Some a \<Rightarrow>
                (case py_int (strip end) of
                   None \<Rightarrow> None
                 | Some b \<Rightarrow> day_range_loop rest (days \<union> {a..b}))))
      else
        (case py_int part of
           None \<Rightarrow> None
         | Some d \<Rightarrow> day_range_loop rest (insert d days)))"

definition parse_day_ranges :: "string \<Rightarrow> int set option" where
  "parse_day_ranges v = day_range_loop (split_char CHR '','' v) {}"

section \<open>Command line (\<open>parse_args\<close>)\<close>

text \<open>The namespace \<open>parser.parse_args()\<close> returns, before the checks that follow it.\<close>

record namespace =
  raw_user :: string
  raw_password :: string
  raw_start_time :: string
  raw_end_time :: string
  raw_project :: string
  raw_present_days :: "string option"
  raw_present_dates :: "string option"
  raw_vacation :: "string option"
  raw_sick_days :: "string option"
  raw_sick_file :: "string option"
  raw_month :: "int option"
  raw_year :: "int option"
  raw_headless :: bool
  raw_dry_run :: bool
  raw_verbose :: bool
  raw_slow_mo :: int

text \<open>The namespace \<open>parse_args\<close> returns.\<close>

record args =
  user :: string
  password :: string
  start_time :: string
  end_time :: string
  project :: string
  present_weekdays :: "int set"
  present_dates :: "int set"
  vacation_days :: "int set"
  sick_days_set :: "int set"
  sick_file :: "string option"
  arg_month :: int
  arg_year :: int
  headless :: bool
  dry_run :: bool
  verbose :: bool
  slow_mo :: int

text \<open>
  Every way the command line is refused. \<open>parser.error\<close> prints the message and leaves
  with status 2; \<open>--help\<close> prints the help and leaves with status 0.
\<close>

datatype parser_error =
    TimeFormat string
  | MonthRange
  | YearRange
  | PresentDaysInvalid int
  | PresentDaysFormat
  | PresentDatesFormat
  | SickDaysFormat
  | SickFileRequired
  | SickFileNotFound string
  | VacationFormat
  | VacationSickOverlap "int list"
  | PresentVacationOverlap "int list"
  | PresentSickOverlap "int list"
  | Unrecognized "string list"
  | MissingRequired "string list"
  | ExpectedOneArgument string
  | AmbiguousOption string
  | UnexpectedValue string
  | InvalidIntValue string string
  | HelpRequested

text \<open>Truth value of an optional string (\<open>None\<close> and \<open>""\<close> are false).\<close>

definition truthy :: "string option \<Rightarrow> bool" where
  "truthy v = (case v of None \<Rightarrow> False | Some s \<Rightarrow> s \<noteq> [])"

text \<open>
  \<open>h, m = int(parts[0]), int(parts[1])\<close> with the range check; False where the source
  reaches \<open>parser.error\<close> through \<open>ValueError\<close> or \<open>IndexError\<close>.
\<close>

definition valid_time :: "string \<Rightarrow> bool" where
  "valid_time time_arg =
     (case split_char CHR '':'' time_arg of
        p0 # p1 # _ \<Rightarrow>
          (case py_int p0 of
             None \<Rightarrow> False
           | Some h \<Rightarrow>
               (case py_int p1 of
                  None \<Rightarrow> False
                | Some m \<Rightarrow> 0 \<le> h \<and> h \<le> 23 \<and> 0 \<le> m \<and> m \<le> 59))
      | _ \<Rightarrow> False)"

definition user_to_python_weekday :: "int \<Rightarrow> int option" where
  "user_to_python_weekday = map_of [(1, 6), (2, 0), (3, 1), (4, 2), (5, 3)]"

fun present_days_loop :: "string list \<Rightarrow> int set \<Rightarrow> parser_error + int set" where
  "present_days_loop [] acc = Inr acc"
| "present_days_loop (d # rest) acc =
     (let d = strip d in
      if d = [] then present_days_loop rest acc
      else
        (case py_int d of
           None \<Rightarrow> Inl PresentDaysFormat
         | Some day_num \<Rightarrow>
             (case user_to_python_weekday day_num of
                None \<Rightarrow> Inl (PresentDaysInvalid day_num)
              | Some w \<Rightarrow> present_days_loop rest (insert w acc))))"

definition parse_present_days :: "string option \<Rightarrow> parser_error + int set" where
  "parse_present_days v =
     (case v of
        None \<Rightarrow> Inr {}
      | Some s \<Rightarrow> if s = [] then Inr {} else present_days_loop (split_char CHR '','' s) {})"

text \<open>One of the three day options: the empty set when the option is absent or empty.\<close>

definition parse_day_option :: "string option \<Rightarrow> int set option" where
  "parse_day_option v =
     (case v of
        None \<Rightarrow> Some {}
      | Some s \<Rightarrow> if s = [] then Some {} else day_range_loop (split_char CHR '','' s) {})"

text \<open>
  The body of \<open>parse_args\<close> after \<open>parser.parse_args()\<close>. \<open>today\<close> is
  \<open>date.today()\<close> and \<open>exists\<close> is \<open>Path(...).exists()\<close>.
\<close>

definition parse_args_checks ::
  "date \<Rightarrow> (string \<Rightarrow> bool) \<Rightarrow> namespace \<Rightarrow> parser_error + args" where
  "parse_args_checks today exists ns =
     (if \<not> valid_time (raw_start_time ns) then Inl (TimeFormat ''--start-time'')
      else if \<not> valid_time (raw_end_time ns) then Inl (TimeFormat ''--end-time'')
      else
        let m = (case raw_month ns of None \<Rightarrow> month today | Some m \<Rightarrow> m);
            y = (case raw_year ns of None \<Rightarrow> year today | Some y \<Rightarrow> y)
        in
        if \<not> (1 \<le> m \<and> m \<le> 12) then Inl MonthRange
        else if y < 2020 \<or> y > 2030 then Inl YearRange
        else
          (case parse_present_days (raw_present_days ns) of
             Inl e \<Rightarrow> Inl e
           | Inr pw \<Rightarrow>
          (case parse_day_option (raw_present_dates ns) of
             None \<Rightarrow> Inl PresentDatesFormat
           | Some pd \<Rightarrow>
          (case parse_day_option (raw_sick_days ns) of
             None \<Rightarrow> Inl SickDaysFormat
           | Some sd \<Rightarrow>
          if card sd > 2 \<and> \<not> truthy (raw_sick_file ns) then Inl SickFileRequired
          else if truthy (raw_sick_file ns) \<and> \<not> exists (the (raw_sick_file ns))
            then Inl (SickFileNotFound (the (raw_sick_file ns)))
          else
          (case parse_day_option (raw_vacation ns) of
             None \<Rightarrow> Inl VacationFormat
           | Some vd \<Rightarrow>
          if vd \<noteq> {} \<and> sd \<noteq> {} \<and> vd \<inter> sd \<noteq> {}
            then Inl (VacationSickOverlap (sorted_list_of_set (vd \<inter> sd)))
          else if pd \<noteq> {} \<and> vd \<noteq> {} \<and> pd \<inter> vd \<noteq> {}
            then Inl (PresentVacationOverlap (sorted_list_of_set (pd \<inter> vd)))
          else if pd \<noteq> {} \<and> sd \<noteq> {} \<and> pd \<inter> sd \<noteq> {}
            then Inl (PresentSickOverlap (sorted_list_of_set (pd \<inter> sd)))
          else
            Inr \<lparr>user = raw_user ns, password = raw_password ns,
                 start_time = raw_start_time ns, end_time = raw_end_time ns,
                 project = raw_project ns, present_weekdays = pw, present_dates = pd,
                 vacation_days = vd, sick_days_set = sd, sick_file = raw_sick_file ns,
                 arg_month = m, arg_year = y, headless = raw_headless ns,
                 dry_run = raw_dry_run ns, verbose = raw_verbose ns,
                 slow_mo = raw_slow_mo ns\<rparr>)))))"

section \<open>The attendance page as the program sees it\<close>

text \<open>One entry of the list \<open>get_grid_rows_info\<close> returns.\<close>

record row =
  rowIndex :: nat
  dateText :: string
  hasEntryInput :: bool
  hasExitInput :: bool
  entryInputId :: "string option"
  exitInputId :: "string option"
  currentEntry :: string
  currentExit :: string
  hasProjectInput :: bool
  projectInputName :: "string option"
  projectHiddenId :: "string option"
  currentProject :: string
  currentProjectText :: string
  hasSymbolSelect :: bool
  symbolSelectId :: "string option"
  currentSymbol :: string

datatype exc =
    RuntimeError
  | PlaywrightTimeoutError
  | ValueError
  | IllegalMonthError
  | OtherException

text \<open>The scripts the program runs inside the page with \<open>page.evaluate\<close>.\<close>

datatype script =
    ReadGrid
  | DismissScript
  | DeleteClick nat
  | ClearHoursAndProject string string nat
  | ClearHours string string
  | SetHours "string option" "string option" string string
  | PostSaveCheck

text \<open>What the program asks of the browser, one constructor per Playwright call.\<close>

datatype action =
    Goto string
  | Fill string string
  | Click string
  | SelectOption string string
  | QuerySelector string
  | WaitForSelector string
  | WaitForLoadState
  | Evaluate script
  | ChooseFile string string
  | Screenshot string
  | PageContent
  | ProjectAutocomplete nat string string
  | LaunchBrowser
  | SelectMonthInCalendar int int
  | SelectWorkdaysInCalendar
  | CloseBrowser

datatype level = INFO | WARNING | ERROR

text \<open>
  The run is observed through its trace: every browser call, in order, and every message
  logged at level INFO or above by \<open>fill_all_hours\<close> and \<open>main\<close> (the message is the
  source's format string, placeholders not expanded).
\<close>

datatype event = Act action | Log level string

text \<open>
  The browser and the portal are not part of the program. \<open>perform\<close> gives, for a call
  on a page state, the exception it raises (if any) and the page state after it; the
  other fields are what the read-only calls return.
\<close>

record 'p world =
  perform :: "action \<Rightarrow> 'p \<Rightarrow> exc option \<times> 'p"
  grid :: "'p \<Rightarrow> row list"
  found :: "string \<Rightarrow> 'p \<Rightarrow> bool"
  is_closed :: "'p \<Rightarrow> bool"
  current_url :: "'p \<Rightarrow> string"
  autocomplete_ok :: "'p \<Rightarrow> bool"
  post_save_messages :: "'p \<Rightarrow> bool"

record 'p fill_state =
  page :: 'p
  trace :: "event list"
  success_count :: nat
  failure_count :: nat
  skipped_count :: nat
  rows_needing_project_retry :: "row list"

type_synonym 'p step = "'p fill_state \<Rightarrow> exc option \<times> 'p fill_state"

definition act :: "'p world \<Rightarrow> action \<Rightarrow> 'p step" where
  "act w a st =
     (case perform w a (page st) of
        (r, p') \<Rightarrow> (r, st\<lparr>page := p', trace := trace st @ [Act a]\<rparr>))"

definition log :: "level \<Rightarrow> string \<Rightarrow> 'p fill_state \<Rightarrow> 'p fill_state" where
  "log l m st = st\<lparr>trace := trace st @ [Log l m]\<rparr>"

definition say :: "level \<Rightarrow> string \<Rightarrow> 'p step" where
  "say l m st = (None, log l m st)"

text \<open>\<open>try: page.wait_for_load_state(...) except PlaywrightTimeoutError: pass\<close>\<close>

definition wait_idle :: "'p world \<Rightarrow> 'p step" where
  "wait_idle w st =
     (case act w WaitForLoadState st of
        (Some PlaywrightTimeoutError, st') \<Rightarrow> (None, st')
      | other \<Rightarrow> other)"

text \<open>\<open>dismiss_modal\<close> catches every exception of its script.\<close>

definition dismiss_modal :: "'p world \<Rightarrow> 'p fill_state \<Rightarrow> 'p fill_state" where
  "dismiss_modal w st = snd (act w (Evaluate DismissScript) st)"

definition dismiss :: "'p world \<Rightarrow> 'p step" where
  "dismiss w st = (None, dismiss_modal w st)"

text \<open>\<open>try: take_screenshot(...) except Exception: pass\<close>\<close>

definition try_screenshot :: "'p world \<Rightarrow> string \<Rightarrow> 'p step" where
  "try_screenshot w name st = (None, snd (act w (Screenshot name) st))"

text \<open>Statements in sequence: the first exception ends the sequence.\<close>

fun run_steps :: "'p step list \<Rightarrow> 'p step" where
  "run_steps [] st = (None, st)"
| "run_steps (f # fs) st =
     (case f st of
        (None, st') \<Rightarrow> run_steps fs st'
      | (Some e, st') \<Rightarrow> (Some e, st'))"

text \<open>How the body of a \<open>for row in rows_info\<close> loop ends for one row.\<close>

datatype ctl = Next | Break | Raise exc

fun for_rows ::
  "(row \<Rightarrow> 'p fill_state \<Rightarrow> ctl \<times> 'p fill_state) \<Rightarrow> row list \<Rightarrow> 'p fill_state
     \<Rightarrow> ctl \<times> 'p fill_state" where
  "for_rows body [] st = (Next, st)"
| "for_rows body (r # rs) st =
     (case body r st of
        (Next, st') \<Rightarrow> for_rows body rs st'
      | other \<Rightarrow> other)"

text \<open>The parameters of \<open>fill_all_hours\<close>, and \<open>date.today()\<close>.\<close>

record fill_args =
  workdays :: "date list"
  entry_time :: string
  exit_time :: string
  fill_project :: "string option"
  fill_present_weekdays :: "int set"
  fill_present_dates :: "int set"
  fill_vacation_days :: "int set"
  sick_days :: "int set"
  fill_sick_file :: "string option"
  today :: date

definition ddmm :: "date \<Rightarrow> string" where
  "ddmm wd = fmt02 (day wd) @ ''/'' @ fmt02 (month wd)"

definition workday_dates :: "fill_args \<Rightarrow> string set" where
  "workday_dates a = set (map ddmm (workdays a))"

definition date_parts :: "row \<Rightarrow> string list" where
  "date_parts r = split_char CHR '' '' (dateText r)"

definition day_name :: "row \<Rightarrow> string" where
  "day_name r = (case date_parts r of _ # n # _ \<Rightarrow> n | _ \<Rightarrow> [])"

definition is_fri_sat :: "row \<Rightarrow> bool" where
  "is_fri_sat r = (day_name r = ''Fri'' \<or> day_name r = ''Sat'')"

definition has_hours :: "row \<Rightarrow> bool" where
  "has_hours r = (strip (currentEntry r) \<noteq> [] \<or> strip (currentExit r) \<noteq> [])"

text \<open>An optional value inside an f-string, and \<open>x or ""\<close>.\<close>

definition fstr :: "string option \<Rightarrow> string" where
  "fstr v = (case v of None \<Rightarrow> ''None'' | Some s \<Rightarrow> s)"

definition or_empty :: "string option \<Rightarrow> string" where
  "or_empty v = (case v of None \<Rightarrow> [] | Some s \<Rightarrow> s)"

definition select_selector :: "row \<Rightarrow> string" where
  "select_selector r = ''select[id='' @ [CHR 0x27] @ fstr (symbolSelectId r) @ [CHR 0x27] @ '']''"

definition upload_selector :: "nat \<Rightarrow> string" where
  "upload_selector row_index =
     ''span[id*='' @ [CHR 0x27] @ ''File_EmployeeReports_row_'' @ decimal row_index @ ''_''
       @ [CHR 0x27] @ ''][id*='' @ [CHR 0x27] @ ''Attach'' @ [CHR 0x27] @ '']''"

definition sick_symbol :: "int set \<Rightarrow> string" where
  "sick_symbol sd = (if card sd \<le> 2 then ''5'' else ''6'')"

definition absence_symbols :: "string set" where
  "absence_symbols = {''2'', ''5'', ''6''}"

definition is_present_day :: "fill_args \<Rightarrow> date \<Rightarrow> bool" where
  "is_present_day a wd =
     (weekday wd \<in> fill_present_weekdays a \<or> day wd \<in> fill_present_dates a)"

definition expected_symbol :: "fill_args \<Rightarrow> date \<Rightarrow> string" where
  "expected_symbol a wd = (if is_present_day a wd then ''0'' else ''15'')"

definition matching_wd :: "fill_args \<Rightarrow> string \<Rightarrow> date option" where
  "matching_wd a date_ddmm = find (\<lambda>wd. ddmm wd = date_ddmm) (workdays a)"

text \<open>The delete click, the confirmation dialog and the wait that follow it.\<close>

definition ok_button :: string where
  "ok_button = ''#ctl00_theBasePanel iframe: OK/Yes button''"

definition delete_steps :: "'p world \<Rightarrow> row \<Rightarrow> 'p step list \<Rightarrow> 'p step list" where
  "delete_steps w r confirmed =
     [act w (Evaluate (DeleteClick (rowIndex r))),
      act w (QuerySelector ok_button),
      (\<lambda>st. if found w ok_button (page st)
             then run_steps (act w (Click ok_button) # confirmed) st else (None, st)),
      wait_idle w,
      dismiss w]"

text \<open>\<open>success_count += 1\<close>, \<open>failure_count += 1\<close>, \<open>skipped_count += 1\<close>.\<close>

definition succeeded :: "'p fill_state \<Rightarrow> 'p fill_state" where
  "succeeded st = st\<lparr>success_count := success_count st + 1\<rparr>"

definition failed :: "'p fill_state \<Rightarrow> 'p fill_state" where
  "failed st = st\<lparr>failure_count := failure_count st + 1\<rparr>"

definition skipped :: "'p fill_state \<Rightarrow> 'p fill_state" where
  "skipped st = st\<lparr>skipped_count := skipped_count st + 1\<rparr>"

section \<open>Pass 1 of \<open>fill_all_hours\<close>: the first scan\<close>

text \<open>\<open>int(date_ddmm.split("/")[0])\<close>; \<open>None\<close> stands for its \<open>ValueError\<close>.\<close>

definition day_num_of :: "string \<Rightarrow> int option" where
  "day_num_of date_ddmm =
     (case split_char CHR ''/'' date_ddmm of [] \<Rightarrow> None | p # _ \<Rightarrow> py_int p)"

definition first_scan_fri_sat :: "'p world \<Rightarrow> row \<Rightarrow> 'p fill_state \<Rightarrow> ctl \<times> 'p fill_state" where
  "first_scan_fri_sat w r st =
     (let current_sym = currentSymbol r in
      if current_sym \<noteq> [] \<and> (has_hours r \<or> current_sym \<notin> {[], ''15''}) then
        (case run_steps
                (delete_steps w r [say INFO ''  {date_text}: Confirmed delete in dialog'']
                 @ [say INFO ''  {date_text}: Deleted incorrect Fri/Sat row (was {current_sym})''])
                st of
           (None, st') \<Rightarrow> (Break, succeeded st')
         | (Some e, st') \<Rightarrow>
             (Next, dismiss_modal w
                      (log WARNING ''  {date_text}: Error deleting Fri/Sat row: {e}'' st')))
      else (Next, st))"

definition first_scan_vacation :: "'p world \<Rightarrow> row \<Rightarrow> 'p fill_state \<Rightarrow> ctl \<times> 'p fill_state" where
  "first_scan_vacation w r st =
     (if currentSymbol r = ''2'' \<and> \<not> has_hours r then
        (Next, skipped (log INFO ''  {date_text}: Already set to vacation, skipping'' st))
      else if hasSymbolSelect r \<and> truthy (symbolSelectId r) then
        (case run_steps
                [dismiss w,
                 act w (Evaluate (ClearHoursAndProject (or_empty (entryInputId r))
                                    (or_empty (exitInputId r)) (rowIndex r))),
                 act w (SelectOption (select_selector r) ''2''),
                 say INFO ''  {date_text}: Set to VACATION (hours cleared)'',
                 wait_idle w,
                 dismiss w]
                st of
           (None, st') \<Rightarrow> (Break, succeeded st')
         | (Some e, st') \<Rightarrow>
             (Next, failed (log ERROR ''  {date_text}: Error setting vacation: {e}'' st')))
      else
        (Next, failed (log WARNING ''  {date_text}: No symbol dropdown for vacation'' st)))"

text \<open>
  The upload of the sick certificate, inside its own \<open>try\<close>: it looks the upload link
  up by the row index read before the symbol was selected.
\<close>

definition upload_sick_file :: "'p world \<Rightarrow> nat \<Rightarrow> string \<Rightarrow> 'p step" where
  "upload_sick_file w row_index file st =
     (case act w (QuerySelector (upload_selector row_index)) st of
        (Some e, st1) \<Rightarrow> (None, log WARNING ''    Error uploading sick file: {e}'' st1)
      | (None, st1) \<Rightarrow>
          if found w (upload_selector row_index) (page st1) then
            (case run_steps
                    [act w (ChooseFile (upload_selector row_index) file),
                     wait_idle w,
                     dismiss w,
                     say INFO ''    Sick certificate uploaded: {sick_file}'']
                    st1 of
               (None, st2) \<Rightarrow> (None, st2)
             | (Some e, st2) \<Rightarrow>
                 (None, log WARNING ''    Error uploading sick file: {e}'' st2))
          else (None, log WARNING ''    Upload link not found for row {row_index}'' st1))"

definition first_scan_sick ::
  "'p world \<Rightarrow> fill_args \<Rightarrow> row \<Rightarrow> 'p fill_state \<Rightarrow> ctl \<times> 'p fill_state" where
  "first_scan_sick w a r st =
     (let sick_symbol = sick_symbol (sick_days a) in
      if currentSymbol r = sick_symbol \<and> \<not> has_hours r then
        (Next, skipped (log INFO ''  {date_text}: Already set to {sick_label}, skipping'' st))
      else if hasSymbolSelect r \<and> truthy (symbolSelectId r) then
        (case run_steps
                ([dismiss w,
                  act w (Evaluate (ClearHoursAndProject (or_empty (entryInputId r))
                                     (or_empty (exitInputId r)) (rowIndex r))),
                  act w (SelectOption (select_selector r) sick_symbol),
                  say INFO ''  {date_text}: Set to {sick_label.upper()}'',
                  wait_idle w,
                  dismiss w]
                 @ (if sick_symbol = ''6'' \<and> truthy (fill_sick_file a)
                    then [upload_sick_file w (rowIndex r) (or_empty (fill_sick_file a))]
                    else []))
                st of
           (None, st') \<Rightarrow> (Break, succeeded st')
         | (Some e, st') \<Rightarrow>
             (Next, failed (log ERROR ''  {date_text}: Error setting sick: {e}'' st')))
      else
        (Next, failed (log WARNING ''  {date_text}: No symbol dropdown for sick'' st)))"

text \<open>The \<open>try\<close> that changes the symbol between presence and w.home.\<close>

definition change_symbol ::
  "'p world \<Rightarrow> row \<Rightarrow> string \<Rightarrow> string \<Rightarrow> string \<Rightarrow> 'p fill_state \<Rightarrow> ctl \<times> 'p fill_state" where
  "change_symbol w r expected done_msg error_msg st =
     (case run_steps
             [dismiss w,
              act w (SelectOption (select_selector r) expected),
              say INFO done_msg,
              wait_idle w,
              dismiss w]
             st of
        (None, st') \<Rightarrow> (Break, succeeded st')
      | (Some e, st') \<Rightarrow> (Next, dismiss_modal w (log WARNING error_msg st')))"

text \<open>The \<open>try\<close> that deletes a row whose symbol is an absence.\<close>

definition delete_absence ::
  "'p world \<Rightarrow> row \<Rightarrow> string \<Rightarrow> string \<Rightarrow> 'p fill_state \<Rightarrow> ctl \<times> 'p fill_state" where
  "delete_absence w r done_msg error_msg st =
     (case run_steps (delete_steps w r [] @ [say INFO done_msg]) st of
        (None, st') \<Rightarrow> (Break, succeeded st')
      | (Some e, st') \<Rightarrow> (Next, dismiss_modal w (log WARNING error_msg st')))"

definition first_scan_symbol ::
  "'p world \<Rightarrow> fill_args \<Rightarrow> string \<Rightarrow> row \<Rightarrow> 'p fill_state \<Rightarrow> ctl \<times> 'p fill_state" where
  "first_scan_symbol w a date_ddmm r st =
     (let current_symbol = currentSymbol r in
      case matching_wd a date_ddmm of
        None \<Rightarrow> (Next, st)
      | Some wd \<Rightarrow>
          let expected = expected_symbol a wd in
          if current_symbol \<in> absence_symbols then
            delete_absence w r ''  {date_text}: Deleted absence row (was {current_symbol})''
              ''  {date_text}: Error deleting absence row: {e}'' st
          else if current_symbol \<noteq> [] \<and> current_symbol \<noteq> expected then
            change_symbol w r expected ''  {date_text}: Reporting Type set to: {symbol_label}''
              ''  {date_text}: Error changing symbol: {e}'' st
          else (Next, st))"

definition first_scan_row ::
  "'p world \<Rightarrow> fill_args \<Rightarrow> row \<Rightarrow> 'p fill_state \<Rightarrow> ctl \<times> 'p fill_state" where
  "first_scan_row w a r st =
     (case date_parts r of
        [] \<Rightarrow> (Next, st)
      | date_ddmm # _ \<Rightarrow>
          if is_fri_sat r then first_scan_fri_sat w r st
          else if date_ddmm \<notin> workday_dates a then (Next, st)
          else
            (case day_num_of date_ddmm of
               None \<Rightarrow> (Raise ValueError, st)
             | Some day_num \<Rightarrow>
                 if day_num \<in> fill_vacation_days a then first_scan_vacation w r st
                 else if day_num \<in> sick_days a then first_scan_sick w a r st
                 else if hasSymbolSelect r then first_scan_symbol w a date_ddmm r st
                 else (Next, st)))"

section \<open>Pass 1 of \<open>fill_all_hours\<close>: the rescans\<close>

definition rescan_absence ::
  "'p world \<Rightarrow> row \<Rightarrow> string \<Rightarrow> string \<Rightarrow> string \<Rightarrow> 'p fill_state \<Rightarrow> ctl \<times> 'p fill_state" where
  "rescan_absence w r symbol done_msg error_msg st =
     (if currentSymbol r = symbol \<and> \<not> has_hours r then (Next, st)
      else if hasSymbolSelect r \<and> truthy (symbolSelectId r) then
        (case run_steps
                [dismiss w,
                 act w (Evaluate (ClearHours (or_empty (entryInputId r))
                                    (or_empty (exitInputId r)))),
                 act w (SelectOption (select_selector r) symbol),
                 say INFO done_msg,
                 wait_idle w,
                 dismiss w]
                st of
           (None, st') \<Rightarrow> (Break, succeeded st')
         | (Some e, st') \<Rightarrow> (Next, log ERROR error_msg st'))
      else (Next, st))"

definition rescan_symbol ::
  "'p world \<Rightarrow> fill_args \<Rightarrow> string \<Rightarrow> row \<Rightarrow> 'p fill_state \<Rightarrow> ctl \<times> 'p fill_state" where
  "rescan_symbol w a date_ddmm r st =
     (let current_symbol = currentSymbol r in
      case (if current_symbol \<in> absence_symbols
            then delete_absence w r
                   ''  {date_text}: Deleted absence row (rescan, was {current_symbol})''
                   ''  {date_text}: Error deleting absence (rescan): {e}'' st
            else (Next, st)) of
        (Next, st1) \<Rightarrow>
          (case matching_wd a date_ddmm of
             None \<Rightarrow> (Next, st1)
           | Some wd \<Rightarrow>
               let expected = expected_symbol a wd in
               if current_symbol \<noteq> [] \<and> current_symbol \<noteq> expected then
                 change_symbol w r expected
                   ''  {date_text}: Reporting Type set to: {symbol_label} (rescan)''
                   ''  {date_text}: Error changing symbol (rescan): {e}'' st1
               else (Next, st1))
      | other \<Rightarrow> other)"

definition rescan_row ::
  "'p world \<Rightarrow> fill_args \<Rightarrow> row \<Rightarrow> 'p fill_state \<Rightarrow> ctl \<times> 'p fill_state" where
  "rescan_row w a r st =
     (case date_parts r of
        [] \<Rightarrow> (Next, st)
      | date_ddmm # _ \<Rightarrow>
          if is_fri_sat r then (Next, st)
          else if date_ddmm \<notin> workday_dates a then (Next, st)
          else
            (case day_num_of date_ddmm of
               None \<Rightarrow> (Raise ValueError, st)
             | Some day_num \<Rightarrow>
                 if day_num \<in> fill_vacation_days a then
                   rescan_absence w r ''2'' ''  {date_text}: Set to VACATION (rescan)''
                     ''  {date_text}: Error setting vacation (rescan): {e}'' st
                 else if day_num \<in> sick_days a then
                   rescan_absence w r (sick_symbol (sick_days a))
                     ''  {date_text}: Set to SICK (rescan)''
                     ''  {date_text}: Error setting sick (rescan): {e}'' st
                 else if hasSymbolSelect r then rescan_symbol w a date_ddmm r st
                 else (Next, st)))"

text \<open>How a part of \<open>fill_all_hours\<close> ends: it goes on, it returns, or it raises.\<close>

datatype 'p outcome =
    Proceed "'p fill_state"
  | Returned "'p fill_state"
  | Raised exc "'p fill_state"

text \<open>
  \<open>while postback_occurred and _rescan_count < 50\<close>, entered with
  \<open>postback_occurred\<close> true; \<open>rescan_count\<close> is the number of rescans done so far.
\<close>

function rescan_loop ::
  "'p world \<Rightarrow> fill_args \<Rightarrow> nat \<Rightarrow> 'p fill_state \<Rightarrow> 'p outcome" where
  "rescan_loop w a rescan_count st =
     (if rescan_count < 50 then
        (case run_steps
                [say INFO [],
                 say INFO ''--- Re-reading grid after postback operations (rescan {_rescan_count}) ---'',
                 act w (Evaluate ReadGrid)]
                st of
           (Some e, st1) \<Rightarrow> Raised e st1
         | (None, st1) \<Rightarrow>
             if grid w (page st1) = [] then
               (case run_steps
                       [say ERROR ''No rows found after re-read!'',
                        act w (Screenshot ''error_no_rows_after_reread'')]
                       st1 of
                  (Some e, st2) \<Rightarrow> Raised e st2
                | (None, st2) \<Rightarrow> Returned st2)
             else
               (case for_rows (rescan_row w a) (grid w (page st1)) st1 of
                  (Break, st2) \<Rightarrow> rescan_loop w a (rescan_count + 1) st2
                | (Next, st2) \<Rightarrow> Proceed st2
                | (Raise e, st2) \<Rightarrow> Raised e st2))
      else Proceed st)"
  by pat_completeness auto
termination
  by (relation "measure (\<lambda>(w, a, rescan_count, st). 50 - rescan_count)") auto

section \<open>Pass 2 of \<open>fill_all_hours\<close>: hours and projects\<close>

text \<open>
  The \<open>try\<close> that computes \<open>is_future_day\<close>: False where it ends in \<open>ValueError\<close>
  or \<open>IndexError\<close>.
\<close>

definition is_future_day :: "fill_args \<Rightarrow> string \<Rightarrow> bool" where
  "is_future_day a date_ddmm =
     (case split_char CHR ''/'' date_ddmm of
        p0 # p1 # _ \<Rightarrow>
          (case py_int p0 of
             None \<Rightarrow> False
           | Some dd \<Rightarrow>
               (case py_int p1 of
                  None \<Rightarrow> False
                | Some mm \<Rightarrow>
                    (let yr = (case workdays a of [] \<Rightarrow> year (today a) | wd # _ \<Rightarrow> year wd)
                     in case mk_date yr mm dd of
                          None \<Rightarrow> False
                        | Some d \<Rightarrow> date_gt d (today a))))
      | _ \<Rightarrow> False)"

text \<open>\<open>s.split(sep)[0]\<close>: the text before the first occurrence of \<open>sep\<close>.\<close>

fun before_sep :: "string \<Rightarrow> string \<Rightarrow> string" where
  "before_sep sep [] = []"
| "before_sep sep (c # cs) = (if startswith (c # cs) sep then [] else c # before_sep sep cs)"

definition project_code :: "string option \<Rightarrow> string" where
  "project_code proj =
     (case proj of
        None \<Rightarrow> []
      | Some p \<Rightarrow> if p \<noteq> [] \<and> py_in '' - '' p then strip (before_sep '' - '' p) else p)"

definition project_already_set :: "fill_args \<Rightarrow> row \<Rightarrow> bool" where
  "project_already_set a r =
     (strip (currentProject r) \<noteq> [] \<and>
      (py_in (project_code (fill_project a)) (strip (currentProject r)) \<or>
       py_in (lower (project_code (fill_project a))) (lower (strip (currentProjectText r)))))"

definition project_needs_fill :: "fill_args \<Rightarrow> row \<Rightarrow> bool" where
  "project_needs_fill a r = (truthy (fill_project a) \<and> \<not> project_already_set a r)"

definition hours_correct :: "fill_args \<Rightarrow> row \<Rightarrow> bool" where
  "hours_correct a r =
     (strip (currentEntry r) = entry_time a \<and> strip (currentExit r) = exit_time a)"

definition hours_need_fill :: "fill_args \<Rightarrow> string \<Rightarrow> row \<Rightarrow> bool" where
  "hours_need_fill a date_ddmm r = (\<not> hours_correct a r \<and> \<not> is_future_day a date_ddmm)"

definition has_hours_now :: "fill_args \<Rightarrow> string \<Rightarrow> row \<Rightarrow> bool" where
  "has_hours_now a date_ddmm r = (strip (currentEntry r) \<noteq> [] \<or> hours_need_fill a date_ddmm r)"

text \<open>
  \<open>fill_project_field\<close>: its guard, then the dialogue with the autocomplete widget, which
  is the browser's; it returns True when an entry of the list was clicked and False on
  the fallback and on every exception.
\<close>

definition fill_project_field ::
  "'p world \<Rightarrow> row \<Rightarrow> string \<Rightarrow> 'p fill_state \<Rightarrow> bool \<times> 'p fill_state" where
  "fill_project_field w r proj st =
     (if \<not> hasProjectInput r \<or> \<not> truthy (projectInputName r) then
        (False, log WARNING ''    Project input not found for row {row[rowIndex]}'' st)
      else
        (case act w (ProjectAutocomplete (rowIndex r) (or_empty (projectInputName r)) proj) st of
           (None, st') \<Rightarrow> (autocomplete_ok w (page st'), st')
         | (Some e, st') \<Rightarrow> (False, st')))"

definition project_step :: "'p world \<Rightarrow> row \<Rightarrow> string \<Rightarrow> 'p step" where
  "project_step w r proj st =
     (case fill_project_field w r proj st of
        (True, st') \<Rightarrow> (None, st')
      | (False, st') \<Rightarrow>
          (None, st'\<lparr>rows_needing_project_retry := rows_needing_project_retry st' @ [r]\<rparr>))"

definition fill_row ::
  "'p world \<Rightarrow> fill_args \<Rightarrow> string \<Rightarrow> row \<Rightarrow> 'p fill_state \<Rightarrow> ctl \<times> 'p fill_state" where
  "fill_row w a date_ddmm r st =
     (if \<not> hours_need_fill a date_ddmm r \<and> \<not> project_needs_fill a r then
        (Next, skipped (log INFO ''  {date_text}: Already correct ({row[currentEntry]}-{row[currentExit]}), skipping'' st))
      else
        (case run_steps
                ([dismiss w]
                 @ (if hours_need_fill a date_ddmm r
                    then [act w (Evaluate (SetHours (entryInputId r) (exitInputId r)
                                             (entry_time a) (exit_time a))),
                          say INFO ''  {date_text}: Hours set: entry={...}, exit={...}'',
                          wait_idle w,
                          dismiss w]
                    else [say INFO ''  {date_text}: Hours already correct ({row[currentEntry]}-{row[currentExit]})''])
                 @ (if truthy (fill_project a) \<and> project_needs_fill a r
                       \<and> has_hours_now a date_ddmm r
                    then [dismiss w, project_step w r (or_empty (fill_project a))]
                    else [])
                 @ [dismiss w,
                    say INFO ''  {date_text}: Filled {entry_time} - {exit_time}{project_info}''])
                st of
           (None, st') \<Rightarrow> (Next, succeeded st')
         | (Some e, st') \<Rightarrow>
             (let st2 = failed (dismiss_modal w
                          (log ERROR ''  {date_text}: Error filling hours: {e}'' st'))
              in if is_closed w (page st2)
                 then (Break, log ERROR ''  Page closed during row {date_text}! Breaking fill loop.'' st2)
                 else (Next, st2))))"

definition pass2_row ::
  "'p world \<Rightarrow> fill_args \<Rightarrow> row \<Rightarrow> 'p fill_state \<Rightarrow> ctl \<times> 'p fill_state" where
  "pass2_row w a r st =
     (case date_parts r of
        [] \<Rightarrow> (Next, st)
      | date_ddmm # _ \<Rightarrow>
          if is_fri_sat r then (Next, st)
          else if date_ddmm \<notin> workday_dates a then (Next, st)
          else
            (case day_num_of date_ddmm of
               None \<Rightarrow> (Raise ValueError, st)
             | Some day_num \<Rightarrow>
                 if day_num \<in> fill_vacation_days a \<or> day_num \<in> sick_days a then (Next, st)
                 else if is_closed w (page st) then
                   (Break, log ERROR ''  Page is closed! Stopping fill loop at row {date_text}.'' st)
                 else if \<not> hasEntryInput r \<or> \<not> hasExitInput r then
                   (Next, skipped (log WARNING ''  {date_text}: No entry/exit inputs (may be holiday/weekend row)'' st))
                 else fill_row w a date_ddmm r st))"

text \<open>The retry of the project field for the rows whose autocomplete failed.\<close>

fun retry_rows :: "'p world \<Rightarrow> string \<Rightarrow> row list \<Rightarrow> 'p fill_state \<Rightarrow> 'p fill_state" where
  "retry_rows w proj [] st = st"
| "retry_rows w proj (r # rs) st =
     (case fill_project_field w r proj (dismiss_modal w st) of
        (True, st') \<Rightarrow>
          retry_rows w proj rs (log INFO ''  {date_text}: Project retry successful'' st')
      | (False, st') \<Rightarrow>
          retry_rows w proj rs (log WARNING ''  {date_text}: Project retry still failed'' st'))"

definition retry_projects :: "'p world \<Rightarrow> fill_args \<Rightarrow> 'p fill_state \<Rightarrow> 'p fill_state" where
  "retry_projects w a st =
     (if rows_needing_project_retry st \<noteq> [] \<and> truthy (fill_project a) then
        retry_rows w (or_empty (fill_project a)) (rows_needing_project_retry st)
          (log INFO ''Retrying project fill for {len(rows_needing_project_retry)} row(s)...'' st)
      else st)"

section \<open>Saving\<close>

definition sel_save_button :: string where
  "sel_save_button = ''input[id$='' @ [CHR 0x27] @ ''btnSave'' @ [CHR 0x27] @ ''][value=''
     @ [CHR 0x27] @ ''Save'' @ [CHR 0x27] @ '']''"

definition alt_save_button :: string where
  "alt_save_button = ''input[value='' @ [CHR 0x27] @ ''Save'' @ [CHR 0x27] @ '']''"

text \<open>The \<open>try\<close> around the save button; the save is attempted once.\<close>

definition click_save :: "'p world \<Rightarrow> 'p step" where
  "click_save w st =
     (case act w (QuerySelector sel_save_button) st of
        (Some e, st1) \<Rightarrow> (Some e, st1)
      | (None, st1) \<Rightarrow>
          if found w sel_save_button (page st1) then
            run_steps
              [act w (Click sel_save_button),
               wait_idle w,
               try_screenshot w ''09_after_save'',
               act w (Evaluate PostSaveCheck),
               (\<lambda>st. if post_save_messages w (page st)
                      then (None, dismiss_modal w
                                    (log WARNING ''Post-save messages: {post_save_check}'' st))
                      else (None, st)),
               say INFO ''Save completed!'']
              st1
          else
            (case run_steps
                    [say WARNING ''Save button not found! Trying alternative selector...'',
                     act w (QuerySelector alt_save_button)]
                    st1 of
               (Some e, st2) \<Rightarrow> (Some e, st2)
             | (None, st2) \<Rightarrow>
                 if found w alt_save_button (page st2) then
                   run_steps
                     [act w (Click alt_save_button),
                      act w WaitForLoadState,
                      try_screenshot w ''09_after_save'',
                      say INFO ''Save completed (alt selector)!'']
                     st2
                 else
                   run_steps
                     [say ERROR ''Could not find Save button! Changes may be lost.'',
                      try_screenshot w ''error_no_save_button'']
                     st2))"

text \<open>
  \<open>if success_count > 0: ...\<close>: \<open>Returned\<close> is the early return when the page is
  already closed.
\<close>

definition save_all :: "'p world \<Rightarrow> 'p fill_state \<Rightarrow> 'p outcome" where
  "save_all w st =
     (if success_count st > 0 then
        (let st1 = log INFO ''Saving all entries...'' (log INFO [] st) in
         if is_closed w (page st1) then
           Returned (log ERROR ''  {success_count} rows were filled in-memory but NOT saved.''
                      (log ERROR ''Cannot save - page/browser is already closed!'' st1))
         else
           (case click_save w (snd (try_screenshot w ''08_before_save'' st1)) of
              (None, st2) \<Rightarrow> Proceed st2
            | (Some e, st2) \<Rightarrow>
                Proceed (log ERROR ''  Page may have closed. {success_count} rows were filled but save may have failed.''
                          (log ERROR ''Error during save: {save_err}'' st2))))
      else Proceed st)"

section \<open>\<open>fill_all_hours\<close>\<close>

definition result_of :: "'p fill_state \<Rightarrow> (exc + nat \<times> nat) \<times> 'p fill_state" where
  "result_of st = (Inr (success_count st, failure_count st), st)"

text \<open>Pass 2, the retry, the save and the return, on the rows read last.\<close>

definition pass2_and_save ::
  "'p world \<Rightarrow> fill_args \<Rightarrow> row list \<Rightarrow> 'p fill_state \<Rightarrow> (exc + nat \<times> nat) \<times> 'p fill_state" where
  "pass2_and_save w a rows_info st =
     (case for_rows (pass2_row w a) rows_info
             (log INFO ''--- Pass 2: Fill hours and projects ---'' (log INFO [] st)) of
        (Raise e, st1) \<Rightarrow> (Inl e, st1)
      | (_, st1) \<Rightarrow>
          (case save_all w (retry_projects w a st1) of
             Raised e st2 \<Rightarrow> (Inl e, st2)
           | Returned st2 \<Rightarrow> result_of st2
           | Proceed st2 \<Rightarrow>
               result_of
                 (if skipped_count st2 > 0
                  then log INFO ''  ({skipped_count} rows skipped - already filled or no inputs)'' st2
                  else st2)))"

text \<open>The messages logged before Pass 1.\<close>

definition announce :: "fill_args \<Rightarrow> 'p step list" where
  "announce a =
     [say INFO ''Filling hours for workdays...'']
     @ (if truthy (fill_project a) then [say INFO ''Project: {project}''] else [])
     @ (if fill_present_dates a \<noteq> {}
        then [say INFO ''Present dates (specific): {sorted(present_dates)}''] else [])
     @ (if fill_vacation_days a \<noteq> {}
        then [say INFO ''Vacation days: {sorted(vacation_days)}''] else [])
     @ (if sick_days a \<noteq> {}
        then [say INFO ''Sick days: {sorted(sick_days)} ({sick_type})''] else [])
     @ [say INFO ''Looking for dates: {workday_dates}'',
        say INFO ''------------------------------------------------------------'',
        say INFO ''--- Pass 1: Postback operations (vacation, sick, delete, symbol changes) ---'']"

text \<open>After a first scan that ended in a postback: the rescans and the final re-read.\<close>

definition after_postback ::
  "'p world \<Rightarrow> fill_args \<Rightarrow> 'p fill_state \<Rightarrow> (exc + nat \<times> nat) \<times> 'p fill_state" where
  "after_postback w a st =
     (case rescan_loop w a 0 st of
        Raised e st1 \<Rightarrow> (Inl e, st1)
      | Returned st1 \<Rightarrow> result_of st1
      | Proceed st1 \<Rightarrow>
          (case run_steps
                  [say INFO [],
                   say INFO ''--- Final grid re-read for Pass 2 ---'',
                   act w (Evaluate ReadGrid)]
                  st1 of
             (Some e, st2) \<Rightarrow> (Inl e, st2)
           | (None, st2) \<Rightarrow>
               if grid w (page st2) = [] then
                 (case run_steps
                         [say ERROR ''No rows found after final re-read!'',
                          act w (Screenshot ''error_no_rows_final'')]
                         st2 of
                    (Some e, st3) \<Rightarrow> (Inl e, st3)
                  | (None, st3) \<Rightarrow> result_of st3)
               else pass2_and_save w a (grid w (page st2)) st2))"

definition initial_state :: "'p \<Rightarrow> 'p fill_state" where
  "initial_state p =
     \<lparr>page = p, trace = [], success_count = 0, failure_count = 0, skipped_count = 0,
      rows_needing_project_retry = []\<rparr>"

definition fill_all_hours ::
  "'p world \<Rightarrow> fill_args \<Rightarrow> 'p fill_state \<Rightarrow> (exc + nat \<times> nat) \<times> 'p fill_state" where
  "fill_all_hours w a st0 =
     (case act w (Evaluate ReadGrid) st0 of
        (Some e, st1) \<Rightarrow> (Inl e, st1)
      | (None, st1) \<Rightarrow>
          if grid w (page st1) = [] then
            (case run_steps
                    [say ERROR ''No rows found in the reports grid!'',
                     say ERROR ''The page might not have loaded correctly, or selectors need updating.'',
                     act w (Screenshot ''error_no_rows''),
                     act w PageContent,
                     say INFO ''Page HTML saved to: {html_path}'']
                    st1 of
               (Some e, st2) \<Rightarrow> (Inl e, st2)
             | (None, st2) \<Rightarrow> (Inr (0, length (workdays a)), st2))
          else
            (case run_steps (act w (Screenshot ''07_grid_before_fill'') # announce a) st1 of
               (Some e, st2) \<Rightarrow> (Inl e, st2)
             | (None, st2) \<Rightarrow>
                 (case for_rows (first_scan_row w a) (grid w (page st1)) st2 of
                    (Raise e, st3) \<Rightarrow> (Inl e, st3)
                  | (Break, st3) \<Rightarrow> after_postback w a st3
                  | (Next, st3) \<Rightarrow> pass2_and_save w a (grid w (page st1)) st3)))"

section \<open>Workdays (\<open>get_workdays\<close>)\<close>

definition is_workday :: "date \<Rightarrow> bool" where
  "is_workday d = (weekday d \<in> {6, 0, 1, 2, 3})"

text \<open>
  The loop \<open>for day_num in range(1, num_days + 1)\<close>; \<open>None\<close> stands for the
  \<open>ValueError\<close> of \<open>date(year, month, day_num)\<close>.
\<close>

fun workdays_loop :: "date set \<Rightarrow> int \<Rightarrow> int \<Rightarrow> int list \<Rightarrow> date list \<Rightarrow> date list option" where
  "workdays_loop holiday_dates y m [] acc = Some acc"
| "workdays_loop holiday_dates y m (day_num # rest) acc =
     (case mk_date y m day_num of
        None \<Rightarrow> None
      | Some d \<Rightarrow>
          if \<not> is_workday d then workdays_loop holiday_dates y m rest acc
          else if d \<in> holiday_dates then workdays_loop holiday_dates y m rest acc
          else workdays_loop holiday_dates y m rest (acc @ [d]))"

text \<open>
  \<open>get_israeli_holidays\<close> comes from the \<open>holidays\<close> package: the set of holiday dates
  of a year is a parameter. \<open>calendar.monthrange\<close> raises for a month outside 1..12.
\<close>

definition get_workdays :: "(int \<Rightarrow> date set) \<Rightarrow> int \<Rightarrow> int \<Rightarrow> exc + date list" where
  "get_workdays get_israeli_holidays y m =
     (if \<not> (1 \<le> m \<and> m \<le> 12) then Inl IllegalMonthError
      else
        (case workdays_loop (get_israeli_holidays y) y m [1..days_in_month y m] [] of
           None \<Rightarrow> Inl ValueError
         | Some wds \<Rightarrow> Inr wds))"

section \<open>The command line as \<open>argparse\<close> reads it\<close>

datatype opt =
    OptHelp | OptUser | OptPassword | OptStartTime | OptEndTime | OptProject
  | OptPresentDays | OptPresentDates | OptVacation | OptSickDays | OptSickFile
  | OptMonth | OptYear | OptHeadless | OptDryRun | OptVerbose | OptSlowMo

text \<open>The option strings of the \<open>add_argument\<close> calls, and \<open>-h/--help\<close>.\<close>

definition option_strings :: "(string \<times> opt) list" where
  "option_strings =
     [(''-h'', OptHelp), (''--help'', OptHelp),
      (''-u'', OptUser), (''--user'', OptUser),
      (''-p'', OptPassword), (''--password'', OptPassword),
      (''--start-time'', OptStartTime),
      (''--end-time'', OptEndTime),
      (''--project'', OptProject),
      (''--present-days'', OptPresentDays),
      (''--present-dates'', OptPresentDates),
      (''--vacation'', OptVacation),
      (''--sick-days'', OptSickDays),
      (''--sick-file'', OptSickFile),
      (''--month'', OptMonth),
      (''--year'', OptYear),
      (''--headless'', OptHeadless),
      (''--dry-run'', OptDryRun),
      (''--verbose'', OptVerbose),
      (''--slow-mo'', OptSlowMo)]"

definition takes_value :: "opt \<Rightarrow> bool" where
  "takes_value op = (op \<notin> {OptHelp, OptHeadless, OptDryRun, OptVerbose})"

definition required_options :: "(opt \<times> string) list" where
  "required_options = [(OptUser, ''-u/--user''), (OptPassword, ''-p/--password''),
                       (OptProject, ''--project'')]"

definition defaults :: namespace where
  "defaults =
     \<lparr>raw_user = [], raw_password = [], raw_start_time = ''09:00'',
      raw_end_time = ''18:00'', raw_project = [], raw_present_days = None,
      raw_present_dates = None, raw_vacation = None, raw_sick_days = None,
      raw_sick_file = None, raw_month = None, raw_year = None, raw_headless = False,
      raw_dry_run = False, raw_verbose = False, raw_slow_mo = 500\<rparr>"

text \<open>Storing the value of an option (\<open>type=int\<close> converts with \<open>int\<close>).\<close>

definition store_int ::
  "string \<Rightarrow> string \<Rightarrow> (int \<Rightarrow> namespace) \<Rightarrow> parser_error + namespace" where
  "store_int name v f =
     (case py_int v of None \<Rightarrow> Inl (InvalidIntValue name v) | Some n \<Rightarrow> Inr (f n))"

fun store :: "opt \<Rightarrow> string \<Rightarrow> namespace \<Rightarrow> parser_error + namespace" where
  "store OptUser v ns = Inr (ns\<lparr>raw_user := v\<rparr>)"
| "store OptPassword v ns = Inr (ns\<lparr>raw_password := v\<rparr>)"
| "store OptStartTime v ns = Inr (ns\<lparr>raw_start_time := v\<rparr>)"
| "store OptEndTime v ns = Inr (ns\<lparr>raw_end_time := v\<rparr>)"
| "store OptProject v ns = Inr (ns\<lparr>raw_project := v\<rparr>)"
| "store OptPresentDays v ns = Inr (ns\<lparr>raw_present_days := Some v\<rparr>)"
| "store OptPresentDates v ns = Inr (ns\<lparr>raw_present_dates := Some v\<rparr>)"
| "store OptVacation v ns = Inr (ns\<lparr>raw_vacation := Some v\<rparr>)"
| "store OptSickDays v ns = Inr (ns\<lparr>raw_sick_days := Some v\<rparr>)"
| "store OptSickFile v ns = Inr (ns\<lparr>raw_sick_file := Some v\<rparr>)"
| "store OptMonth v ns = store_int ''--month'' v (\<lambda>n. ns\<lparr>raw_month := Some n\<rparr>)"
| "store OptYear v ns = store_int ''--year'' v (\<lambda>n. ns\<lparr>raw_year := Some n\<rparr>)"
| "store OptSlowMo v ns = store_int ''--slow-mo'' v (\<lambda>n. ns\<lparr>raw_slow_mo := n\<rparr>)"
| "store OptHeadless v ns = Inr (ns\<lparr>raw_headless := True\<rparr>)"
| "store OptDryRun v ns = Inr (ns\<lparr>raw_dry_run := True\<rparr>)"
| "store OptVerbose v ns = Inr (ns\<lparr>raw_verbose := True\<rparr>)"
| "store OptHelp v ns = Inl HelpRequested"

text \<open>
  How \<open>argparse\<close> classifies one token: a value, a known option (with the value written
  after \<open>=\<close> or attached to a short option, if any), an ambiguous abbreviation, an
  option it does not know, or the separator \<open>--\<close> after which nothing is an option.
\<close>

datatype tok_class =
  Positional | Known opt "string option" | Ambiguous | Unknown | DoubleDash

text \<open>
  The pattern \<open>^-\d+$|^-\d*\.\d+$\<close> by which \<open>argparse\<close> recognises a negative number
  (\<open>$\<close> also matches before a final line feed).
\<close>

definition negative_number :: "string \<Rightarrow> bool" where
  "negative_number t =
     (case t of
        c # r0 \<Rightarrow>
          (let r = (if r0 \<noteq> [] \<and> last r0 = CHR 0x0A then butlast r0 else r0) in
           c = CHR ''-'' \<and>
           ((r \<noteq> [] \<and> list_all is_digit r) \<or>
            (let a = takeWhile (\<lambda>c. c \<noteq> CHR ''.'') r;
                 b = dropWhile (\<lambda>c. c \<noteq> CHR ''.'') r
             in list_all is_digit a \<and> b \<noteq> [] \<and> tl b \<noteq> [] \<and> list_all is_digit (tl b))))
      | [] \<Rightarrow> False)"

definition abbreviations :: "string \<Rightarrow> (opt \<times> string option) list" where
  "abbreviations t =
     (if startswith t ''--'' then
        (let name = takeWhile (\<lambda>c. c \<noteq> CHR ''='') t;
             v = (if CHR ''='' \<in> set t
                  then Some (tl (dropWhile (\<lambda>c. c \<noteq> CHR ''='') t)) else None)
         in map (\<lambda>(s, op). (op, v)) (filter (\<lambda>(s, op). startswith s name) option_strings))
      else
        map (\<lambda>(s, op). if s = take 2 t then (op, Some (drop 2 t)) else (op, None))
          (filter (\<lambda>(s, op). s = take 2 t \<or> startswith s t) option_strings))"

definition classify :: "string \<Rightarrow> tok_class" where
  "classify t =
     (if \<not> startswith t ''-'' then Positional
      else if t = ''--'' then DoubleDash
      else
        (case map_of option_strings t of
           Some op \<Rightarrow> Known op None
         | None \<Rightarrow>
             if length t = 1 then Positional
             else
               (case (if CHR ''='' \<in> set t
                      then map_of option_strings (takeWhile (\<lambda>c. c \<noteq> CHR ''='') t)
                      else None) of
                  Some op \<Rightarrow> Known op (Some (tl (dropWhile (\<lambda>c. c \<noteq> CHR ''='') t)))
                | None \<Rightarrow>
                    (case abbreviations t of
                       [(op, v)] \<Rightarrow> Known op v
                     | _ # _ # _ \<Rightarrow> Ambiguous
                     | [] \<Rightarrow>
                         if negative_number t then Positional
                         else if CHR '' '' \<in> set t then Positional
                         else Unknown))))"

text \<open>
  The scan of the command line: options are stored as they are met, tokens that belong
  to nothing are collected and reported at the end, after the required options.
\<close>

fun scan ::
  "string list \<Rightarrow> namespace \<Rightarrow> opt list \<Rightarrow> string list
     \<Rightarrow> parser_error + namespace \<times> opt list \<times> string list" where
  "scan [] ns seen extras = Inr (ns, seen, extras)"
| "scan (t # rest) ns seen extras =
     (case classify t of
        Positional \<Rightarrow> scan rest ns seen (extras @ [t])
      | Unknown \<Rightarrow> scan rest ns seen (extras @ [t])
      | DoubleDash \<Rightarrow> Inr (ns, seen, extras @ t # rest)
      | Ambiguous \<Rightarrow> Inl (AmbiguousOption t)
      | Known op explicit \<Rightarrow>
          if op = OptHelp then Inl HelpRequested
          else if \<not> takes_value op then
            (case explicit of
               Some v \<Rightarrow> Inl (UnexpectedValue t)
             | None \<Rightarrow>
                 (case store op [] ns of
                    Inl e \<Rightarrow> Inl e
                  | Inr ns' \<Rightarrow> scan rest ns' (op # seen) extras))
          else
            (case explicit of
               Some v \<Rightarrow>
                 (case store op v ns of
                    Inl e \<Rightarrow> Inl e
                  | Inr ns' \<Rightarrow> scan rest ns' (op # seen) extras)
             | None \<Rightarrow>
                 (case rest of
                    [] \<Rightarrow> Inl (ExpectedOneArgument t)
                  | v # rest' \<Rightarrow>
                      if classify v \<noteq> Positional then Inl (ExpectedOneArgument t)
                      else
                        (case store op v ns of
                           Inl e \<Rightarrow> Inl e
                         | Inr ns' \<Rightarrow> scan rest' ns' (op # seen) extras))))"

text \<open>
  \<open>parser.parse_args()\<close> on \<open>sys.argv[1:]\<close>. Every token before a \<open>--\<close> is
  classified before anything is stored, so an ambiguous abbreviation is reported first.
\<close>

definition argparse :: "string list \<Rightarrow> parser_error + namespace" where
  "argparse argv =
     (case find (\<lambda>t. classify t = Ambiguous) (takeWhile (\<lambda>t. t \<noteq> ''--'') argv) of
        Some t \<Rightarrow> Inl (AmbiguousOption t)
      | None \<Rightarrow>
          (case scan argv defaults [] [] of
             Inl e \<Rightarrow> Inl e
           | Inr (ns, seen, extras) \<Rightarrow>
               (case filter (\<lambda>(op, name). op \<notin> set seen) required_options of
                  _ # _ \<Rightarrow>
                    Inl (MissingRequired
                           (map snd (filter (\<lambda>(op, name). op \<notin> set seen) required_options)))
                | [] \<Rightarrow> if extras \<noteq> [] then Inl (Unrecognized extras) else Inr ns)))"

definition parse_args ::
  "date \<Rightarrow> (string \<Rightarrow> bool) \<Rightarrow> string list \<Rightarrow> parser_error + args" where
  "parse_args now exists argv =
     (case argparse argv of
        Inl e \<Rightarrow> Inl e
      | Inr ns \<Rightarrow> parse_args_checks now exists ns)"

text \<open>The exit status of a refused command line.\<close>

definition exit_status :: "parser_error \<Rightarrow> int" where
  "exit_status e = (if e = HelpRequested then 0 else 2)"

section \<open>The interactive shell's hand-over (\<open>build_command\<close>)\<close>

text \<open>The entries of the \<open>params\<close> dictionary that \<open>build_command\<close> reads.\<close>

record params =
  p_user :: string
  p_password :: string
  p_project :: string
  p_month :: int
  p_year :: int
  p_start_time :: string
  p_end_time :: string
  p_present_days :: "string option"
  p_present_dates :: "string option"
  p_vacation :: "string option"
  p_sick_days :: "string option"
  p_sick_file :: "string option"
  p_rd_days :: "string option"
  p_rd_file :: "string option"
  p_headless :: bool
  p_dry_run :: bool

text \<open>\<open>str(n)\<close> for an integer.\<close>

definition str_int :: "int \<Rightarrow> string" where
  "str_int n = (if n < 0 then CHR ''-'' # decimal (nat (- n)) else decimal (nat n))"

definition opt_arg :: "string \<Rightarrow> string option \<Rightarrow> string list" where
  "opt_arg name v = (if truthy v then [name, or_empty v] else [])"

definition build_command :: "string \<Rightarrow> string \<Rightarrow> params \<Rightarrow> string list" where
  "build_command executable script_path ps =
     [executable, script_path]
     @ [''-u'', p_user ps]
     @ [''-p'', p_password ps]
     @ [''--project'', p_project ps]
     @ [''--month'', str_int (p_month ps)]
     @ [''--year'', str_int (p_year ps)]
     @ [''--start-time'', p_start_time ps]
     @ [''--end-time'', p_end_time ps]
     @ opt_arg ''--present-days'' (p_present_days ps)
     @ opt_arg ''--present-dates'' (p_present_dates ps)
     @ opt_arg ''--vacation'' (p_vacation ps)
     @ opt_arg ''--sick-days'' (p_sick_days ps)
     @ opt_arg ''--sick-file'' (p_sick_file ps)
     @ opt_arg ''--rd-days'' (p_rd_days ps)
     @ opt_arg ''--rd-file'' (p_rd_file ps)
     @ (if p_headless ps then [''--headless''] else [])
     @ (if p_dry_run ps then [''--dry-run''] else [])"

text \<open>\<open>sys.argv[1:]\<close> of the process that \<open>subprocess.run(cmd)\<close> starts.\<close>

definition argv_of :: "string list \<Rightarrow> string list" where
  "argv_of cmd = drop 2 cmd"

section \<open>\<open>main\<close>\<close>

definition login_url :: string where
  "login_url = ''https://nvidia.net.hilan.co.il/login''"

definition attendance_url :: string where
  "attendance_url = ''https://nvidia.net.hilan.co.il/Hilannetv2/Attendance/calendarpage.aspx''"

text \<open>\<open>wait_and_retry\<close> with its \<open>retries\<close> attempts left.\<close>

fun wait_and_retry ::
  "'p world \<Rightarrow> string \<Rightarrow> nat \<Rightarrow> 'p fill_state \<Rightarrow> (exc + bool) \<times> 'p fill_state" where
  "wait_and_retry w sel 0 st = (Inr False, st)"
| "wait_and_retry w sel (Suc n) st =
     (case act w (WaitForSelector sel) st of
        (None, st') \<Rightarrow> (Inr True, st')
      | (Some PlaywrightTimeoutError, st') \<Rightarrow>
          wait_and_retry w sel n
            (log WARNING ''Selector {selector} not found (attempt {attempt}/{retries})'' st')
      | (Some e, st') \<Rightarrow> (Inl e, st'))"

definition wait_after_login :: "'p world \<Rightarrow> 'p step" where
  "wait_after_login w st =
     (case act w WaitForLoadState st of
        (Some PlaywrightTimeoutError, st') \<Rightarrow>
          (None, log WARNING ''Timeout waiting for post-login navigation'' st')
      | other \<Rightarrow> other)"

text \<open>\<open>raise RuntimeError(...)\<close> as a step.\<close>

definition raise_error :: "exc \<Rightarrow> 'p step" where
  "raise_error e st = (Some e, st)"

definition login :: "'p world \<Rightarrow> string \<Rightarrow> string \<Rightarrow> 'p step" where
  "login w username pw st =
     (case run_steps
             [say INFO ''Navigating to login page...'',
              act w (Goto login_url),
              act w (Screenshot ''01_login_page''),
              say INFO ''Waiting for login form...'']
             st of
        (Some e, st1) \<Rightarrow> (Some e, st1)
      | (None, st1) \<Rightarrow>
          (case wait_and_retry w ''#user_nm'' 3 st1 of
             (Inl e, st2) \<Rightarrow> (Some e, st2)
           | (Inr False, st2) \<Rightarrow>
               run_steps [act w (Screenshot ''01_login_form_not_found''),
                          raise_error RuntimeError] st2
           | (Inr True, st2) \<Rightarrow>
               (case run_steps
                       [say INFO ''Filling in username: {username}'',
                        act w (Fill ''#user_nm'' username),
                        say INFO ''Filling in password: ****'',
                        act w (Fill ''#password_nm'' pw),
                        act w (Screenshot ''02_credentials_filled''),
                        say INFO ''Clicking login button...'',
                        act w (Click ''button[type=submit]''),
                        say INFO ''Waiting for login to complete...'',
                        wait_after_login w,
                        act w (Screenshot ''03_after_login''),
                        say INFO ''Current URL after login: {current_url}'']
                       st2 of
                  (Some e, st3) \<Rightarrow> (Some e, st3)
                | (None, st3) \<Rightarrow>
                    if py_in ''login'' (lower (current_url w (page st3))) then
                      run_steps [act w (QuerySelector ''.error, .h-centered-field.error, [role=alert]''),
                                 act w (Screenshot ''03_login_failed''),
                                 raise_error RuntimeError] st3
                    else (None, log INFO ''Login successful!'' st3))))"

definition navigate_to_attendance :: "'p world \<Rightarrow> 'p step" where
  "navigate_to_attendance w =
     run_steps
       [say INFO ''Navigating to attendance page...'',
        act w (Goto attendance_url),
        act w (Screenshot ''04_attendance_page''),
        say INFO ''Attendance page URL: {page.url}'']"

definition fill_args_of :: "args \<Rightarrow> date list \<Rightarrow> date \<Rightarrow> fill_args" where
  "fill_args_of a wds now =
     \<lparr>workdays = wds, entry_time = start_time a, exit_time = end_time a,
      fill_project = Some (project a), fill_present_weekdays = present_weekdays a,
      fill_present_dates = present_dates a, fill_vacation_days = vacation_days a,
      sick_days = sick_days_set a, fill_sick_file = sick_file a, today = now\<rparr>"

text \<open>The summary logged after \<open>fill_all_hours\<close> has returned.\<close>

definition summary :: "'p world \<Rightarrow> args \<Rightarrow> nat \<Rightarrow> 'p step list" where
  "summary w a failure =
     [say INFO [],
      say INFO ''============================================================'',
      say INFO ''  SUMMARY'',
      say INFO ''============================================================'',
      say INFO ''  Successfully filled: {success} days'',
      say INFO ''  Failed:              {failure} days'',
      say INFO ''  Total workdays:      {len(workdays)} days'',
      say INFO ''============================================================'']
     @ (if failure > 0
        then [say WARNING ''{failure} days failed. Check screenshots for details.'']
        else [])
     @ [act w (Screenshot ''99_final_state'')]
     @ (if \<not> headless a
        then [say INFO ''Browser will close in 10 seconds...'',
              say INFO ''(Press Ctrl+C to keep it open)'']
        else [])"

text \<open>
  The body of the \<open>try\<close> of \<open>main\<close>. The two calendar functions
  (\<open>select_month_in_calendar\<close>, \<open>select_workdays_in_calendar\<close>) are dialogues with the
  browser on which no decision of the program depends: each is one action here.
\<close>

definition run_browser ::
  "'p world \<Rightarrow> args \<Rightarrow> date list \<Rightarrow> date \<Rightarrow> 'p \<Rightarrow> (exc + nat \<times> nat) \<times> 'p fill_state" where
  "run_browser w a wds now p0 =
     (case run_steps
             [act w LaunchBrowser,
              login w (user a) (password a),
              navigate_to_attendance w,
              act w (SelectMonthInCalendar (arg_year a) (arg_month a)),
              act w SelectWorkdaysInCalendar]
             (initial_state p0) of
        (Some e, st1) \<Rightarrow> (Inl e, st1)
      | (None, st1) \<Rightarrow>
          (case fill_all_hours w (fill_args_of a wds now) st1 of
             (Inl e, st2) \<Rightarrow> (Inl e, st2)
           | (Inr (success, failure), st2) \<Rightarrow>
               (case run_steps (summary w a failure) st2 of
                  (Some e, st3) \<Rightarrow> (Inl e, st3)
                | (None, st3) \<Rightarrow> (Inr (success, failure), st3))))"

text \<open>
  The three handlers of \<open>main\<close>. Every exception class of the model is caught by one of
  them, and each ends in \<open>sys.exit(1)\<close>.
\<close>

definition handle :: "'p world \<Rightarrow> exc \<Rightarrow> 'p fill_state \<Rightarrow> int \<times> event list" where
  "handle w e st =
     (if e = RuntimeError then (1, trace (log ERROR ''Error: {e}'' st))
      else if e = PlaywrightTimeoutError then
        (1, trace (snd (try_screenshot w ''error_timeout''
                     (log ERROR ''The page may be slow or the selectors may need updating.''
                        (log ERROR ''Timeout error: {e}'' st)))))
      else
        (1, trace (snd (try_screenshot w ''error_unexpected''
                     (log ERROR ''Unexpected error: {e}'' st)))))"

text \<open>
  \<open>main\<close>: the exit status of the process and the trace of the run. \<open>now\<close> is
  \<open>date.today()\<close>. An exception of \<open>get_workdays\<close> is not caught: the interpreter
  ends with status 1.
\<close>

definition main ::
  "'p world \<Rightarrow> (int \<Rightarrow> date set) \<Rightarrow> date \<Rightarrow> (string \<Rightarrow> bool) \<Rightarrow> string list \<Rightarrow> 'p
     \<Rightarrow> int \<times> event list" where
  "main w get_israeli_holidays now exists argv p0 =
     (case parse_args now exists argv of
        Inl e \<Rightarrow> (exit_status e, [])
      | Inr a \<Rightarrow>
          (case get_workdays get_israeli_holidays (arg_year a) (arg_month a) of
             Inl e \<Rightarrow> (1, [])
           | Inr wds \<Rightarrow>
               if wds = [] then (0, [Log WARNING ''No workdays found for {args.month}/{args.year}!''])
               else if dry_run a then
                 (0, [Log INFO ''[DRY RUN] No changes were made. Remove --dry-run to fill hours.''])
               else
                 (case run_browser w a wds now p0 of
                    (Inl e, st) \<Rightarrow> handle w e st
                  | (Inr (success, failure), st) \<Rightarrow> (0, trace st))))"

section \<open>Observing a run\<close>

text \<open>The values given to the status selectors in a trace, in order.\<close>

fun selected_symbols :: "event list \<Rightarrow> string list" where
  "selected_symbols [] = []"
| "selected_symbols (Act (SelectOption sel v) # es) = v # selected_symbols es"
| "selected_symbols (e # es) = selected_symbols es"



text \<open>The events that show the user a problem: messages at level WARNING or ERROR.\<close>

fun alarm :: "event \<Rightarrow> bool" where
  "alarm (Log WARNING m) = True"
| "alarm (Log ERROR m) = True"
| "alarm ev = False"

text \<open>The reads of the grid.\<close>

fun reads_grid :: "event \<Rightarrow> bool" where
  "reads_grid (Act (Evaluate ReadGrid)) = True"
| "reads_grid ev = False"

text \<open>
  The discipline of the status-changing pass, in the words of the specification: a call
  that triggers a postback (a selection in a status selector, the click on a delete icon)
  makes every row identifier read before it stale, until the grid is read again; a call
  that addresses a row through such an identifier must not come in between.
\<close>

definition is_upload_selector :: "string \<Rightarrow> bool" where
  "is_upload_selector s =
     startswith s (''span[id*='' @ [CHR 0x27] @ ''File_EmployeeReports_row_'')"

fun triggers_postback :: "action \<Rightarrow> bool" where
  "triggers_postback (SelectOption sel v) = True"
| "triggers_postback (Evaluate (DeleteClick i)) = True"
| "triggers_postback a = False"

fun addresses_row :: "action \<Rightarrow> bool" where
  "addresses_row (SelectOption sel v) = True"
| "addresses_row (Evaluate (DeleteClick i)) = True"
| "addresses_row (Evaluate (ClearHoursAndProject e x i)) = True"
| "addresses_row (Evaluate (ClearHours e x)) = True"
| "addresses_row (Evaluate (SetHours e x t1 t2)) = True"
| "addresses_row (QuerySelector s) = is_upload_selector s"
| "addresses_row (ChooseFile s f) = True"
| "addresses_row (ProjectAutocomplete i n p) = True"
| "addresses_row a = False"

fun stale_free :: "bool \<Rightarrow> event list \<Rightarrow> bool" where
  "stale_free stale [] = True"
| "stale_free stale (Log l m # es) = stale_free stale es"
| "stale_free stale (Act a # es) =
     (if a = Evaluate ReadGrid then stale_free False es
      else if stale \<and> addresses_row a then False
      else stale_free (stale \<or> triggers_postback a) es)"

section \<open>Inputs used to exercise the program\<close>

text \<open>A command line with the required options, for February 2026.\<close>

definition base_namespace :: namespace where
  "base_namespace = defaults\<lparr>raw_user := ''12345'', raw_password := ''secret'',
     raw_project := ''12086'', raw_month := Some 2, raw_year := Some 2026\<rparr>"

definition base_argv :: "string list" where
  "base_argv = [''-u'', ''12345'', ''-p'', ''secret'', ''--project'', ''12086'',
                ''--month'', ''2'', ''--year'', ''2026'']"

text \<open>A disk on which no file exists, a day of the month, a year without holidays.\<close>

definition no_file :: "string \<Rightarrow> bool" where
  "no_file f = False"

definition feb10 :: date where
  "feb10 = \<lparr>year = 2026, month = 2, day = 10\<rparr>"

definition no_holidays :: "int \<Rightarrow> date set" where
  "no_holidays y = {}"

text \<open>
  A page that accepts every call and never changes: it always shows the same rows, its
  save button is there, the login has left the login page.
\<close>

definition still_world :: "row list \<Rightarrow> unit world" where
  "still_world rows =
     \<lparr>perform = (\<lambda>a p. (None, p)),
      grid = (\<lambda>p. rows),
      found = (\<lambda>s p. s = sel_save_button),
      is_closed = (\<lambda>p. False),
      current_url = (\<lambda>p. ''https://nvidia.net.hilan.co.il/Hilannetv2/ng/management/home''),
      autocomplete_ok = (\<lambda>p. True),
      post_save_messages = (\<lambda>p. False)\<rparr>"

text \<open>
  Sick days 1-2 with vacation on day 2, month and year left to their defaults; sick days
  1-3, no certificate, vacation on day 2.
\<close>

definition overlap_argv :: "string list" where
  "overlap_argv = [''-u'', ''12345'', ''-p'', ''secret'', ''--project'', ''12086'',
                   ''--sick-days'', ''1-2'', ''--vacation'', ''2'']"

definition overlap_namespace :: namespace where
  "overlap_namespace = defaults\<lparr>raw_user := ''12345'', raw_password := ''secret'',
     raw_project := ''12086'', raw_sick_days := Some ''1-2'', raw_vacation := Some ''2''\<rparr>"

definition long_sick_namespace :: namespace where
  "long_sick_namespace = base_namespace\<lparr>raw_sick_days := Some ''1-3'', raw_vacation := Some ''2''\<rparr>"

text \<open>Reserve duty and vacation on day 5, as the interactive shell would pass them.\<close>

definition reserve_argv :: "string list" where
  "reserve_argv = base_argv @ [''--rd-days'', ''5'', ''--rd-file'', ''order.pdf'', ''--vacation'', ''5'']"

text \<open>Sick days 8-9 without a certificate; sick days 8-10 without a certificate.\<close>

definition two_sick_argv :: "string list" where
  "two_sick_argv = base_argv @ [''--sick-days'', ''8,9'']"

definition two_sick_namespace :: namespace where
  "two_sick_namespace = base_namespace\<lparr>raw_sick_days := Some ''8,9''\<rparr>"

definition three_sick_argv :: "string list" where
  "three_sick_argv = base_argv @ [''--sick-days'', ''8-10'']"

definition three_sick_namespace :: namespace where
  "three_sick_namespace = base_namespace\<lparr>raw_sick_days := Some ''8-10''\<rparr>"

text \<open>What the interactive shell hands over when reserve duty was entered.\<close>

definition reserve_params :: params where
  "reserve_params =
     \<lparr>p_user = ''12345'', p_password = ''secret'', p_project = ''12086'',
      p_month = 2, p_year = 2026, p_start_time = ''09:00'', p_end_time = ''18:00'',
      p_present_days = Some ''2,4'', p_present_dates = Some [], p_vacation = Some [],
      p_sick_days = Some [], p_sick_file = Some [], p_rd_days = Some ''5-7'',
      p_rd_file = Some ''order.pdf'', p_headless = False, p_dry_run = False\<rparr>"

text \<open>The workdays of February 2026 and the arguments of a plain run on the 10th.\<close>

definition feb_workdays :: "date list" where
  "feb_workdays = projr (get_workdays no_holidays 2026 2)"

definition plain_args :: fill_args where
  "plain_args =
     \<lparr>workdays = feb_workdays, entry_time = ''09:00'', exit_time = ''18:00'',
      fill_project = Some ''12086'', fill_present_weekdays = {}, fill_present_dates = {},
      fill_vacation_days = {}, sick_days = {}, fill_sick_file = None, today = feb10\<rparr>"

text \<open>A row of the grid with all its controls: index, date label, hours, project, symbol.\<close>

definition grid_row :: "nat \<Rightarrow> string \<Rightarrow> string \<Rightarrow> string \<Rightarrow> string \<Rightarrow> string \<Rightarrow> row" where
  "grid_row i label entry exit proj symbol =
     \<lparr>rowIndex = i, dateText = label, hasEntryInput = True, hasExitInput = True,
      entryInputId = Some (''entry_'' @ decimal i), exitInputId = Some (''exit_'' @ decimal i),
      currentEntry = entry, currentExit = exit, hasProjectInput = True,
      projectInputName = Some (''project_'' @ decimal i),
      projectHiddenId = Some (''hidden_'' @ decimal i),
      currentProject = proj, currentProjectText = proj, hasSymbolSelect = True,
      symbolSelectId = Some (''symbol_'' @ decimal i), currentSymbol = symbol\<rparr>"

text \<open>Tuesday the 3rd with no symbol selected yet.\<close>

definition unset_row :: row where
  "unset_row = grid_row 0 ''03/02 Tue'' ''09:00'' ''18:00'' ''12086'' []"




text \<open>
  Sunday the 1st, complete, shown as office presence although the run asks for remote
  work; on the page that never changes it stays so whatever is selected.
\<close>

definition stubborn_row :: row where
  "stubborn_row = grid_row 0 ''01/02 Sun'' ''09:00'' ''18:00'' ''12086'' ''0''"

text \<open>
  Sick days 8-10 with a certificate; Sunday the 8th still shown as remote work; a page
  on which every element asked for is found.
\<close>

definition sick_args :: fill_args where
  "sick_args = plain_args\<lparr>sick_days := {8, 9, 10}, fill_sick_file := Some ''cert.pdf''\<rparr>"

definition sick_row :: row where
  "sick_row = grid_row 0 ''08/02 Sun'' ''09:00'' ''18:00'' ''12086'' ''15''"

definition helpful_world :: "row list \<Rightarrow> unit world" where
  "helpful_world rows = (still_world rows)\<lparr>found := (\<lambda>s p. True)\<rparr>"

text \<open>
  A page that reloads: once a status has been selected, the row of Sunday the 8th is shown
  as sick, without hours and without project.
\<close>

definition filed_row :: row where
  "filed_row = grid_row 0 ''08/02 Sun'' [] [] [] ''6''"

definition reloading_world :: "bool world" where
  "reloading_world =
     \<lparr>perform = (\<lambda>a p. (None, case a of SelectOption sel v \<Rightarrow> True | _ \<Rightarrow> p)),
      grid = (\<lambda>p. if p then [filed_row] else [sick_row]),
      found = (\<lambda>s p. True),
      is_closed = (\<lambda>p. False),
      current_url = (\<lambda>p. ''https://nvidia.net.hilan.co.il/Hilannetv2/ng/management/home''),
      autocomplete_ok = (\<lambda>p. True),
      post_save_messages = (\<lambda>p. False)\<rparr>"











text \<open>
  Sick on Friday the 6th: the row of that day, with its selector and nothing selected.
  And the three sick days without a certificate on a command line that asks for month 13.
\<close>

definition friday_sick_args :: fill_args where
  "friday_sick_args = plain_args\<lparr>sick_days := {6}\<rparr>"

definition friday_row :: row where
  "friday_row = grid_row 0 ''06/02 Fri'' [] [] [] []"

definition month13_namespace :: namespace where
  "month13_namespace = three_sick_namespace\<lparr>raw_month := Some 13\<rparr>"

text \<open>The arguments \<open>parse_args\<close> returns for sick days 8-9, and those for sick days 8-10
  with an existing certificate; Monday the 9th shown as remote work.\<close>

definition two_sick_args :: args where
  "two_sick_args = projr (parse_args_checks feb10 no_file two_sick_namespace)"

definition any_file :: "string \<Rightarrow> bool" where
  "any_file f = True"

definition certified_namespace :: namespace where
  "certified_namespace = three_sick_namespace\<lparr>raw_sick_file := Some ''cert.pdf''\<rparr>"

definition certified_argv :: "string list" where
  "certified_argv = base_argv @ [''--sick-days'', ''8-10'', ''--sick-file'', ''cert.pdf'']"

definition three_sick_args :: args where
  "three_sick_args = projr (parse_args_checks feb10 any_file certified_namespace)"

definition monday_row :: row where
  "monday_row = grid_row 1 ''09/02 Mon'' ''09:00'' ''18:00'' ''12086'' ''15''"

text \<open>A year in which Sunday the 8th of February 2026 is a holiday, and its workdays.\<close>

definition sunday_holiday :: "int \<Rightarrow> date set" where
  "sunday_holiday y = {\<lparr>year = 2026, month = 2, day = 8\<rparr>}"

definition holiday_workdays :: "date list" where
  "holiday_workdays = projr (get_workdays sunday_holiday 2026 2)"

section \<open>Facts about the string primitives\<close>

declare decimal.simps [simp del]

declare run_steps.simps [simp del]

declare rescan_loop.simps [simp del]

lemma split_char_no_sep: "sep \<notin> set s \<Longrightarrow> split_char sep s = [s]"
  by (induction s) auto

lemma digit_char_is_digit: "n < 10 \<Longrightarrow> is_digit (digit_char n)"
proof -
  assume "n < 10"
  then have "n \<in> {0,1,2,3,4,5,6,7,8,9}" by auto
  then show ?thesis by (auto simp: is_digit_def digit_char_def)
qed

lemma digit_val_digit_char: "n < 10 \<Longrightarrow> digit_val (digit_char n) = int n"
proof -
  assume "n < 10"
  then have "n \<in> {0,1,2,3,4,5,6,7,8,9}" by auto
  then show ?thesis by (auto simp: digit_val_def digit_char_def)
qed

lemma decimal_nonempty: "decimal n \<noteq> []"
  by (subst decimal.simps) simp

lemma decimal_digits: "c \<in> set (decimal n) \<Longrightarrow> is_digit c"
proof (induction n arbitrary: c rule: decimal.induct)
  case (1 n)
  show ?case
  proof (cases "n < 10")
    case True
    with "1.prems" show ?thesis
      by (subst (asm) decimal.simps) (simp add: digit_char_is_digit)
  next
    case False
    with "1.prems" "1.IH" show ?thesis
      by (subst (asm) decimal.simps) (auto simp: digit_char_is_digit)
  qed
qed

lemma is_digit_not_special:
  "is_digit c \<Longrightarrow>
     c \<noteq> CHR ''_'' \<and> c \<noteq> CHR ''-'' \<and> c \<noteq> CHR ''+'' \<and> c \<noteq> CHR '','' \<and> c \<noteq> CHR ''/''
       \<and> \<not> is_space c"
  by (auto simp: is_digit_def is_space_def)

lemma py_digits_all: "s \<noteq> [] \<Longrightarrow> \<forall>c\<in>set s. is_digit c \<Longrightarrow> py_digits s"
  by (induction s rule: py_digits.induct) (auto dest: is_digit_not_special)

lemma digits_value_snoc:
  "c \<noteq> CHR ''_'' \<Longrightarrow> digits_value (s @ [c]) = 10 * digits_value s + digit_val c"
  by (simp add: digits_value_def)

lemma digits_value_decimal: "digits_value (decimal n) = int n"
proof (induction n rule: decimal.induct)
  case (1 n)
  show ?case
  proof (cases "n < 10")
    case True
    then have "decimal n = [digit_char n]" by (simp add: decimal.simps)
    moreover have "digit_char n \<noteq> CHR ''_''"
      using is_digit_not_special [OF digit_char_is_digit [OF True]] by simp
    ultimately show ?thesis
      using True by (simp add: digits_value_def digit_val_digit_char)
  next
    case False
    have nu: "digit_char (n mod 10) \<noteq> CHR ''_''"
      using is_digit_not_special [OF digit_char_is_digit [of "n mod 10"]] by simp
    from False have "decimal n = decimal (n div 10) @ [digit_char (n mod 10)]"
      by (simp add: decimal.simps)
    moreover have "10 * int (n div 10) + int (n mod 10) = int n"
      by presburger
    ultimately show ?thesis
      using False "1.IH" by (simp add: digits_value_snoc [OF nu] digit_val_digit_char)
  qed
qed

lemma strip_no_space: "\<forall>c\<in>set s. \<not> is_space c \<Longrightarrow> strip s = s"
proof -
  assume a: "\<forall>c\<in>set s. \<not> is_space c"
  have 1: "dropWhile is_space s = s" using a by (cases s) auto
  have "\<forall>c\<in>set (rev s). \<not> is_space c" using a by simp
  then have 2: "dropWhile is_space (rev s) = rev s" by (cases "rev s") auto
  show ?thesis by (simp add: strip_def 1 2)
qed

lemma int_strip_no_space: "\<forall>c\<in>set s. \<not> int_space c \<Longrightarrow> int_strip s = s"
proof -
  assume a: "\<forall>c\<in>set s. \<not> int_space c"
  have 1: "dropWhile int_space s = s" using a by (cases s) auto
  have "\<forall>c\<in>set (rev s). \<not> int_space c" using a by simp
  then have 2: "dropWhile int_space (rev s) = rev s" by (cases "rev s") auto
  show ?thesis by (simp add: int_strip_def 1 2)
qed

lemma is_digit_not_int_space: "is_digit c \<Longrightarrow> \<not> int_space c"
  by (auto simp: is_digit_def int_space_def)

lemma py_int_digits:
  assumes "s \<noteq> []" and "\<forall>c\<in>set s. is_digit c" and "length s \<le> 4300"
  shows "py_int s = Some (digits_value s)"
proof -
  have st: "int_strip s = s"
    using assms(2) by (intro int_strip_no_space) (auto dest: is_digit_not_int_space)
  obtain c cs where e: "s = c # cs" using assms(1) by (cases s) auto
  have "is_digit c" using assms(2) e by simp
  then have "c \<noteq> CHR ''-''" "c \<noteq> CHR ''+''" using is_digit_not_special by blast+
  moreover have "py_digits (c # cs)" using py_digits_all [of s] assms e by simp
  moreover have "length (filter (\<lambda>c. c \<noteq> CHR ''_'') (c # cs)) \<le> 4300"
    using assms(3) e length_filter_le [of "\<lambda>c. c \<noteq> CHR ''_''" "c # cs"] by simp
  ultimately show ?thesis
    using st unfolding e by (simp add: py_int_def int_literal_def max_str_digits_def)
qed

lemma py_int_decimal: "length (decimal n) \<le> 4300 \<Longrightarrow> py_int (decimal n) = Some (int n)"
  using py_int_digits [of "decimal n"] decimal_nonempty decimal_digits digits_value_decimal
  by auto

lemma dash_not_space: "\<not> is_space CHR ''-''"
  by (simp add: is_space_def)

text \<open>A token written as two decimal numbers around a dash, as in \<open>12-8\<close>.\<close>

lemma range_token_parts:
  fixes a b :: nat
  defines "tok \<equiv> decimal a @ ''-'' @ decimal b"
  shows "strip tok = tok" "CHR ''-'' \<in> set tok" "split_dash_once tok = (decimal a, decimal b)"
    "CHR '','' \<notin> set tok"
proof -
  have da: "\<And>c. c \<in> set (decimal a) \<Longrightarrow> is_digit c"
    and db: "\<And>c. c \<in> set (decimal b) \<Longrightarrow> is_digit c"
    using decimal_digits by blast+
  have "\<forall>c\<in>set tok. \<not> is_space c"
  proof
    fix c assume "c \<in> set tok"
    then consider "c \<in> set (decimal a)" | "c = CHR ''-''" | "c \<in> set (decimal b)"
      unfolding tok_def by auto
    then show "\<not> is_space c"
      using da db is_digit_not_special dash_not_space by cases blast+
  qed
  then show "strip tok = tok" by (rule strip_no_space)
  show "CHR ''-'' \<in> set tok" by (simp add: tok_def)
  have na: "\<And>c. c \<in> set (decimal a) \<Longrightarrow> c \<noteq> CHR ''-''"
    using da is_digit_not_special by blast
  have "takeWhile (\<lambda>c. c \<noteq> CHR ''-'') tok = decimal a"
    unfolding tok_def using na by (simp add: takeWhile_append2)
  moreover have "dropWhile (\<lambda>c. c \<noteq> CHR ''-'') tok = ''-'' @ decimal b"
    unfolding tok_def using na by (simp add: dropWhile_append2)
  ultimately show "split_dash_once tok = (decimal a, decimal b)"
    by (simp add: split_dash_once_def)
  show "CHR '','' \<notin> set tok"
  proof
    assume "CHR '','' \<in> set tok"
    then consider "CHR '','' \<in> set (decimal a)" | "CHR '','' \<in> set (decimal b)"
      unfolding tok_def by auto
    then show False using da db is_digit_not_special by cases blast+
  qed
qed

section \<open>Day ranges written backwards\<close>

text \<open>
  Claim C10. In the loop that reads a day-range option (\<open>--vacation\<close>, \<open>--sick-days\<close>,
  \<open>--present-dates\<close>, and \<open>parse_day_ranges\<close> of the interactive shell), a token
  \<open>a-b\<close> whose two sides read as integers with \<open>a > b\<close> adds no day and raises no
  error: the loop goes on with the set of days it had.
\<close>

theorem reversed_range_adds_no_days:
  assumes "CHR ''-'' \<in> set (strip tok)"
    and "split_dash_once (strip tok) = (start, end)"
    and "py_int (strip start) = Some a"
    and "py_int (strip end) = Some b"
    and "a > b"
  shows "day_range_loop (tok # rest) days = day_range_loop rest days"
  using assms by (auto simp: Let_def)

theorem reversed_range_adds_no_days_witness:
  "parse_day_ranges ''12-8'' = Some {} \<and> parse_day_option (Some ''12-8'') = Some {}"
proof -
  have "day_range_loop (''12-8'' # []) {} = day_range_loop [] {}"
    by (rule reversed_range_adds_no_days [where start = "''12''" and ?end = "''8''"
          and a = 12 and b = 8])
      (simp_all add: strip_def is_space_def split_dash_once_def py_int_def int_strip_def
        int_space_def int_literal_def max_str_digits_def is_digit_def digits_value_def
        digit_val_def)
  then show ?thesis
    by (simp add: parse_day_ranges_def parse_day_option_def)
qed

text \<open>The same for every token made of two decimal numbers, the first the larger.\<close>

lemma reversed_decimal_range:
  fixes a b :: nat
  assumes "a > b" and "length (decimal a) \<le> 4300"
  shows "day_range_loop ((decimal a @ ''-'' @ decimal b) # rest) days = day_range_loop rest days"
proof -
  let ?tok = "decimal a @ ''-'' @ decimal b"
  have lb: "length (decimal b) \<le> length (decimal a)"
    using assms(1)
  proof (induction a arbitrary: b rule: decimal.induct)
    case (1 a)
    show ?case
    proof (cases "a < 10")
      case True
      with "1.prems" have "b < 10" by simp
      with True show ?thesis by (simp add: decimal.simps)
    next
      case False
      show ?thesis
      proof (cases "b < 10")
        case True
        then have "length (decimal b) = 1" by (simp add: decimal.simps)
        moreover have "decimal a \<noteq> []" by (rule decimal_nonempty)
        ultimately show ?thesis by (cases "decimal a") auto
      next
        case b: False
        have "b div 10 \<le> a div 10" using "1.prems" by (simp add: div_le_mono)
        then have "length (decimal (b div 10)) \<le> length (decimal (a div 10))"
        proof (cases "b div 10 = a div 10")
          case True
          then show ?thesis by simp
        next
          case ne: False
          with \<open>b div 10 \<le> a div 10\<close> have "b div 10 < a div 10" by simp
          with "1.IH" False show ?thesis by simp
        qed
        with False b show ?thesis by (simp add: decimal.simps [of a] decimal.simps [of b])
      qed
    qed
  qed
  have "strip ?tok \<noteq> []" using range_token_parts(1) [of a b] by simp
  moreover have "strip (decimal a) = decimal a" "strip (decimal b) = decimal b"
    using strip_no_space decimal_digits is_digit_not_special by metis+
  moreover have "py_int (decimal a) = Some (int a)" "py_int (decimal b) = Some (int b)"
    using py_int_decimal assms(2) lb by auto
  ultimately show ?thesis
    using assms(1) range_token_parts [of a b] by (simp add: Let_def)
qed

section \<open>Facts about traces\<close>

lemma selected_symbols_append:
  "selected_symbols (xs @ ys) = selected_symbols xs @ selected_symbols ys"
  by (induction xs rule: selected_symbols.induct) auto

lemma trace_log [simp]: "trace (log l m st) = trace st @ [Log l m]"
  by (simp add: log_def)

lemma trace_act [simp]: "trace (snd (act w a st)) = trace st @ [Act a]"
  by (simp add: act_def split: prod.splits)

lemma trace_say [simp]: "trace (snd (say l m st)) = trace st @ [Log l m]"
  by (simp add: say_def)

lemma trace_wait_idle [simp]: "trace (snd (wait_idle w st)) = trace st @ [Act WaitForLoadState]"
proof -
  obtain r st' where e: "act w WaitForLoadState st = (r, st')" by (cases "act w WaitForLoadState st")
  then have "trace st' = trace st @ [Act WaitForLoadState]"
    using trace_act [of w WaitForLoadState st] by simp
  then show ?thesis
    using e by (simp add: wait_idle_def split: option.splits exc.splits)
qed

lemma trace_dismiss_modal [simp]:
  "trace (dismiss_modal w st) = trace st @ [Act (Evaluate DismissScript)]"
  by (simp add: dismiss_modal_def)

lemma trace_dismiss [simp]:
  "trace (snd (dismiss w st)) = trace st @ [Act (Evaluate DismissScript)]"
  by (simp add: dismiss_def)

lemma trace_counts [simp]:
  "trace (succeeded st) = trace st" "trace (failed st) = trace st" "trace (skipped st) = trace st"
  by (simp_all add: succeeded_def failed_def skipped_def)

text \<open>A sequence of statements none of which selects a symbol selects none.\<close>

lemma run_steps_no_select:
  assumes "\<And>f st. f \<in> set fs \<Longrightarrow>
             selected_symbols (trace (snd (f st))) = selected_symbols (trace st)"
  shows "selected_symbols (trace (snd (run_steps fs st))) = selected_symbols (trace st)"
  using assms
proof (induction fs arbitrary: st)
  case Nil
  then show ?case by (simp add: run_steps.simps)
next
  case (Cons f fs)
  obtain r st' where e: "f st = (r, st')" by (cases "f st")
  have 1: "selected_symbols (trace st') = selected_symbols (trace st)"
    using Cons.prems [of f st] e by simp
  show ?case
  proof (cases r)
    case None
    have "selected_symbols (trace (snd (run_steps fs st'))) = selected_symbols (trace st')"
      using Cons.IH Cons.prems by simp
    with 1 None e show ?thesis by (simp add: run_steps.simps)
  next
    case (Some x)
    with 1 e show ?thesis by (simp add: run_steps.simps)
  qed
qed

lemma upload_no_select:
  "selected_symbols (trace (snd (upload_sick_file w i f st))) = selected_symbols (trace st)"
proof -
  let ?steps = "[act w (ChooseFile (upload_selector i) f),
                     wait_idle w,
                     dismiss w,
                     say INFO ''    Sick certificate uploaded: {sick_file}'']"
  obtain r st1 where e: "act w (QuerySelector (upload_selector i)) st = (r, st1)"
    by (cases "act w (QuerySelector (upload_selector i)) st")
  then have t1: "selected_symbols (trace st1) = selected_symbols (trace st)"
    using trace_act [of w "QuerySelector (upload_selector i)" st]
    by (simp add: selected_symbols_append)
  obtain r2 st2 where e2: "run_steps ?steps st1 = (r2, st2)"
    by (cases "run_steps ?steps st1")
  have "selected_symbols (trace (snd (run_steps ?steps st1))) = selected_symbols (trace st1)"
    by (rule run_steps_no_select) (auto simp: selected_symbols_append)
  then have rs: "selected_symbols (trace st2) = selected_symbols (trace st)"
    using e2 t1 by simp
  show ?thesis
    unfolding upload_sick_file_def
    using rs t1 by (simp add: e e2 selected_symbols_append split: option.splits)
qed

text \<open>
  A \<open>try\<close> that dismisses the modal, runs a script, selects a symbol and goes on
  without selecting anything else: when the script does not raise, the symbol is selected.
\<close>

lemma select_after_script:
  assumes ok: "fst (act w script (dismiss_modal w st)) = None"
    and ns: "selected_symbols [Act script] = []"
    and tail_steps: "\<And>f st. f \<in> set tail_steps \<Longrightarrow>
           selected_symbols (trace (snd (f st))) = selected_symbols (trace st)"
  shows "selected_symbols (trace (snd (run_steps
            (dismiss w # act w script # act w (SelectOption sel v) # tail_steps) st)))
         = selected_symbols (trace st) @ [v]"
proof -
  let ?st1 = "dismiss_modal w st"
  obtain st2 where c: "act w script ?st1 = (None, st2)"
    using ok by (cases "act w script ?st1") auto
  have t2: "selected_symbols (trace st2) = selected_symbols (trace st)"
    using trace_act [of w script ?st1] c ns by (simp add: selected_symbols_append)
  obtain r3 st3 where s: "act w (SelectOption sel v) st2 = (r3, st3)"
    by (cases "act w (SelectOption sel v) st2")
  have t3: "selected_symbols (trace st3) = selected_symbols (trace st) @ [v]"
    using trace_act [of w "SelectOption sel v" st2] s t2 by (simp add: selected_symbols_append)
  obtain r4 st4 where r: "run_steps tail_steps st3 = (r4, st4)"
    by (cases "run_steps tail_steps st3")
  have "selected_symbols (trace (snd (run_steps tail_steps st3))) = selected_symbols (trace st3)"
    by (rule run_steps_no_select) (erule tail_steps)
  then have t4: "selected_symbols (trace st4) = selected_symbols (trace st3)"
    using r by simp
  have "run_steps (dismiss w # act w script # act w (SelectOption sel v) # tail_steps) st
          = (case r3 of None \<Rightarrow> (r4, st4) | Some e \<Rightarrow> (Some e, st3))"
    by (simp add: run_steps.simps dismiss_def c s r split: option.splits)
  then show ?thesis using t3 t4 by (simp split: option.splits)
qed

lemma first_scan_sick_selects:
  assumes "hasSymbolSelect r" and "truthy (symbolSelectId r)"
    and "\<not> (currentSymbol r = sick_symbol (sick_days a) \<and> \<not> has_hours r)"
    and "fst (act w (Evaluate (ClearHoursAndProject (or_empty (entryInputId r))
                 (or_empty (exitInputId r)) (rowIndex r))) (dismiss_modal w st)) = None"
  shows "selected_symbols (trace (snd (first_scan_sick w a r st)))
           = selected_symbols (trace st) @ [sick_symbol (sick_days a)]"
proof -
  let ?v = "sick_symbol (sick_days a)"
  let ?script = "Evaluate (ClearHoursAndProject (or_empty (entryInputId r))
                              (or_empty (exitInputId r)) (rowIndex r))"
  define tail_steps where "tail_steps =
    [say INFO ''  {date_text}: Set to {sick_label.upper()}'', wait_idle w, dismiss w]
    @ (if ?v = ''6'' \<and> truthy (fill_sick_file a)
       then [upload_sick_file w (rowIndex r) (or_empty (fill_sick_file a))] else [])"
  let ?steps = "dismiss w # act w ?script # act w (SelectOption (select_selector r) ?v) # tail_steps"
  have m: "\<And>f st. f \<in> set tail_steps \<Longrightarrow>
           selected_symbols (trace (snd (f st))) = selected_symbols (trace st)"
    by (auto simp: tail_steps_def selected_symbols_append upload_no_select split: if_splits)
  have sel: "selected_symbols (trace (snd (run_steps ?steps st)))
               = selected_symbols (trace st) @ [?v]"
  proof (rule select_after_script)
    show "fst (act w ?script (dismiss_modal w st)) = None" by (rule assms(4))
    show "selected_symbols [Act ?script] = []" by simp
    fix f st' assume "f \<in> set tail_steps"
    then show "selected_symbols (trace (snd (f st'))) = selected_symbols (trace st')"
      by (rule m)
  qed
  obtain r2 st2 where e2: "run_steps ?steps st = (r2, st2)" by (cases "run_steps ?steps st")
  have "first_scan_sick w a r st =
     (case run_steps ?steps st of
        (None, st') \<Rightarrow> (Break, succeeded st')
      | (Some e, st') \<Rightarrow>
          (Next, failed (log ERROR ''  {date_text}: Error setting sick: {e}'' st')))"
    using assms(1,2) unfolding first_scan_sick_def Let_def tail_steps_def
    by (simp add: if_not_P [OF assms(3)])
  then show ?thesis
    using sel by (simp add: e2 selected_symbols_append split: option.splits)
qed

lemma rescan_absence_selects:
  assumes "hasSymbolSelect r" and "truthy (symbolSelectId r)"
    and "\<not> (currentSymbol r = v \<and> \<not> has_hours r)"
    and "fst (act w (Evaluate (ClearHours (or_empty (entryInputId r))
                 (or_empty (exitInputId r)))) (dismiss_modal w st)) = None"
  shows "selected_symbols (trace (snd (rescan_absence w r v m1 m2 st)))
           = selected_symbols (trace st) @ [v]"
proof -
  let ?script = "Evaluate (ClearHours (or_empty (entryInputId r)) (or_empty (exitInputId r)))"
  define tail_steps where "tail_steps = [say INFO m1, wait_idle w, dismiss w]"
  let ?steps = "dismiss w # act w ?script # act w (SelectOption (select_selector r) v) # tail_steps"
  have m: "\<And>f st. f \<in> set tail_steps \<Longrightarrow>
           selected_symbols (trace (snd (f st))) = selected_symbols (trace st)"
    by (auto simp: tail_steps_def selected_symbols_append)
  have sel: "selected_symbols (trace (snd (run_steps ?steps st)))
               = selected_symbols (trace st) @ [v]"
  proof (rule select_after_script)
    show "fst (act w ?script (dismiss_modal w st)) = None" by (rule assms(4))
    show "selected_symbols [Act ?script] = []" by simp
    fix f st' assume "f \<in> set tail_steps"
    then show "selected_symbols (trace (snd (f st'))) = selected_symbols (trace st')"
      by (rule m)
  qed
  obtain r2 st2 where e2: "run_steps ?steps st = (r2, st2)" by (cases "run_steps ?steps st")
  have "rescan_absence w r v m1 m2 st =
     (case run_steps ?steps st of
        (None, st') \<Rightarrow> (Break, succeeded st')
      | (Some e, st') \<Rightarrow> (Next, log ERROR m2 st'))"
    using assms(1,2) unfolding rescan_absence_def tail_steps_def
    by (simp add: if_not_P [OF assms(3)])
  then show ?thesis
    using sel by (simp add: e2 selected_symbols_append split: option.splits)
qed

text \<open>Deleting a row selects nothing.\<close>

lemma delete_steps_no_select:
  assumes "\<And>f st. f \<in> set confirmed \<Longrightarrow>
           selected_symbols (trace (snd (f st))) = selected_symbols (trace st)"
    and "f \<in> set (delete_steps w r confirmed)"
  shows "selected_symbols (trace (snd (f st))) = selected_symbols (trace st)"
proof -
  have c: "\<And>st. selected_symbols (trace (snd (run_steps (act w (Click ok_button) # confirmed) st)))
                = selected_symbols (trace st)"
    by (rule run_steps_no_select) (auto simp: selected_symbols_append assms(1))
  show ?thesis
    using assms(2) c by (auto simp: delete_steps_def selected_symbols_append)
qed

lemma first_scan_fri_sat_no_select:
  "selected_symbols (trace (snd (first_scan_fri_sat w r st))) = selected_symbols (trace st)"
proof -
  let ?steps = "delete_steps w r [say INFO ''  {date_text}: Confirmed delete in dialog'']
                 @ [say INFO ''  {date_text}: Deleted incorrect Fri/Sat row (was {current_sym})'']"
  have "selected_symbols (trace (snd (run_steps ?steps st))) = selected_symbols (trace st)"
  proof (rule run_steps_no_select)
    fix f st' assume "f \<in> set ?steps"
    then consider "f \<in> set (delete_steps w r [say INFO ''  {date_text}: Confirmed delete in dialog''])"
      | "f = say INFO ''  {date_text}: Deleted incorrect Fri/Sat row (was {current_sym})''"
      by auto
    then show "selected_symbols (trace (snd (f st'))) = selected_symbols (trace st')"
    proof cases
      case 1
      show ?thesis
        by (rule delete_steps_no_select [OF _ 1]) (auto simp: selected_symbols_append)
    next
      case 2
      then show ?thesis by (simp add: selected_symbols_append)
    qed
  qed
  moreover obtain r2 st2 where e2: "run_steps ?steps st = (r2, st2)"
    by (cases "run_steps ?steps st")
  ultimately show ?thesis
    unfolding first_scan_fri_sat_def Let_def
    by (simp add: e2 selected_symbols_append split: option.splits)
qed


text \<open>A \<open>try\<close> that dismisses the modal and selects a symbol, whether or not the selection raises.\<close>

lemma select_then:
  assumes tl_ok: "\<And>f st. f \<in> set tail_steps \<Longrightarrow>
           selected_symbols (trace (snd (f st))) = selected_symbols (trace st)"
  shows "selected_symbols (trace (snd (run_steps
            (dismiss w # act w (SelectOption sel v) # tail_steps) st)))
         = selected_symbols (trace st) @ [v]"
proof -
  let ?st1 = "dismiss_modal w st"
  obtain r3 st3 where s: "act w (SelectOption sel v) ?st1 = (r3, st3)"
    by (cases "act w (SelectOption sel v) ?st1")
  have t3: "selected_symbols (trace st3) = selected_symbols (trace st) @ [v]"
    using trace_act [of w "SelectOption sel v" ?st1] s by (simp add: selected_symbols_append)
  obtain r4 st4 where r: "run_steps tail_steps st3 = (r4, st4)"
    by (cases "run_steps tail_steps st3")
  have "selected_symbols (trace (snd (run_steps tail_steps st3))) = selected_symbols (trace st3)"
    by (rule run_steps_no_select) (erule tl_ok)
  then have t4: "selected_symbols (trace st4) = selected_symbols (trace st3)"
    using r by simp
  have "run_steps (dismiss w # act w (SelectOption sel v) # tail_steps) st
          = (case r3 of None \<Rightarrow> (r4, st4) | Some e \<Rightarrow> (Some e, st3))"
    by (simp add: run_steps.simps dismiss_def s r split: option.splits)
  then show ?thesis using t3 t4 by (simp split: option.splits)
qed

lemma change_symbol_selects:
  "selected_symbols (trace (snd (change_symbol w r v m1 m2 st)))
     = selected_symbols (trace st) @ [v]"
proof -
  let ?steps = "dismiss w # act w (SelectOption (select_selector r) v)
                  # [say INFO m1, wait_idle w, dismiss w]"
  have sel: "selected_symbols (trace (snd (run_steps ?steps st)))
               = selected_symbols (trace st) @ [v]"
    by (rule select_then) (auto simp: selected_symbols_append)
  obtain r2 st2 where e2: "run_steps ?steps st = (r2, st2)" by (cases "run_steps ?steps st")
  show ?thesis
    unfolding change_symbol_def
    using sel by (simp add: e2 selected_symbols_append split: option.splits)
qed


section \<open>The checks of the command line\<close>

lemma day_range_loop_finite:
  "day_range_loop parts days = Some ds \<Longrightarrow> finite days \<Longrightarrow> finite ds"
  by (induction parts arbitrary: days)
     (auto simp: Let_def split: if_splits option.splits prod.splits)

lemma parse_day_option_finite: "parse_day_option v = Some ds \<Longrightarrow> finite ds"
  by (auto simp: parse_day_option_def dest: day_range_loop_finite split: option.splits if_splits)

lemma parse_args_checks_late:
  assumes "valid_time (raw_start_time ns)" and "valid_time (raw_end_time ns)"
    and "(case raw_month ns of None \<Rightarrow> month now | Some x \<Rightarrow> x) = m"
    and "1 \<le> m" and "m \<le> 12"
    and "(case raw_year ns of None \<Rightarrow> year now | Some x \<Rightarrow> x) = y"
    and "2020 \<le> y" and "y \<le> 2030"
    and "parse_present_days (raw_present_days ns) = Inr pw"
    and "parse_day_option (raw_present_dates ns) = Some pd"
    and "parse_day_option (raw_sick_days ns) = Some sd"
  shows "parse_args_checks now exists ns =
     (if card sd > 2 \<and> \<not> truthy (raw_sick_file ns) then Inl SickFileRequired
      else if truthy (raw_sick_file ns) \<and> \<not> exists (the (raw_sick_file ns))
        then Inl (SickFileNotFound (the (raw_sick_file ns)))
      else
        (case parse_day_option (raw_vacation ns) of
           None \<Rightarrow> Inl VacationFormat
         | Some vd \<Rightarrow>
             if vd \<inter> sd \<noteq> {} then Inl (VacationSickOverlap (sorted_list_of_set (vd \<inter> sd)))
             else if pd \<inter> vd \<noteq> {} then Inl (PresentVacationOverlap (sorted_list_of_set (pd \<inter> vd)))
             else if pd \<inter> sd \<noteq> {} then Inl (PresentSickOverlap (sorted_list_of_set (pd \<inter> sd)))
             else
               Inr \<lparr>user = raw_user ns, password = raw_password ns,
                 start_time = raw_start_time ns, end_time = raw_end_time ns,
                 project = raw_project ns, present_weekdays = pw, present_dates = pd,
                 vacation_days = vd, sick_days_set = sd, sick_file = raw_sick_file ns,
                 arg_month = m, arg_year = y, headless = raw_headless ns,
                 dry_run = raw_dry_run ns, verbose = raw_verbose ns,
                 slow_mo = raw_slow_mo ns\<rparr>))"
proof -
  have ov: "\<And>A B :: int set. (A \<noteq> {} \<and> B \<noteq> {} \<and> A \<inter> B \<noteq> {}) = (A \<inter> B \<noteq> {})" by auto
  show ?thesis
    using assms unfolding parse_args_checks_def
    by (simp add: Let_def ov split: option.splits)
qed

lemma main_refused:
  "argparse argv = Inr ns \<Longrightarrow> parse_args_checks now exists ns = Inl e \<Longrightarrow> e \<noteq> HelpRequested \<Longrightarrow>
   main w hol now exists argv pg = (2, [])"
  by (simp add: main_def parse_args_def exit_status_def)

text \<open>
  Claim C4, as amended. \<open>parse_args\<close> builds three day sets (vacation, sick, present
  dates). Once the options have been read (the month and the year given or left to
  today's) and the sick-file check has passed: when two of
  the sets share a day, the command line is refused before any browser action (status 2,
  empty trace) with the error of the first overlapping pair, in the order vacation/sick,
  present/vacation, present/sick, and the error lists exactly the shared days in ascending
  order; when the three sets are pairwise disjoint, \<open>parse_args\<close> returns them.
\<close>

theorem overlap_check:
  assumes "valid_time (raw_start_time ns)" and "valid_time (raw_end_time ns)"
    and "(case raw_month ns of None \<Rightarrow> month now | Some x \<Rightarrow> x) = m"
    and "1 \<le> m" and "m \<le> 12"
    and "(case raw_year ns of None \<Rightarrow> year now | Some x \<Rightarrow> x) = y"
    and "2020 \<le> y" and "y \<le> 2030"
    and "parse_present_days (raw_present_days ns) = Inr pw"
    and "parse_day_option (raw_present_dates ns) = Some pd"
    and "parse_day_option (raw_sick_days ns) = Some sd"
    and "card sd \<le> 2 \<or> truthy (raw_sick_file ns)"
    and "truthy (raw_sick_file ns) \<longrightarrow> exists (the (raw_sick_file ns))"
    and "parse_day_option (raw_vacation ns) = Some vd"
    and "argparse argv = Inr ns"
  shows
    "(vd \<inter> sd \<noteq> {} \<longrightarrow>
        (\<exists>l. parse_args_checks now exists ns = Inl (VacationSickOverlap l)
             \<and> set l = vd \<inter> sd \<and> sorted l \<and> distinct l)
        \<and> main w hol now exists argv pg = (2, []))
     \<and> (vd \<inter> sd = {} \<and> pd \<inter> vd \<noteq> {} \<longrightarrow>
        (\<exists>l. parse_args_checks now exists ns = Inl (PresentVacationOverlap l)
             \<and> set l = pd \<inter> vd \<and> sorted l \<and> distinct l)
        \<and> main w hol now exists argv pg = (2, []))
     \<and> (vd \<inter> sd = {} \<and> pd \<inter> vd = {} \<and> pd \<inter> sd \<noteq> {} \<longrightarrow>
        (\<exists>l. parse_args_checks now exists ns = Inl (PresentSickOverlap l)
             \<and> set l = pd \<inter> sd \<and> sorted l \<and> distinct l)
        \<and> main w hol now exists argv pg = (2, []))
     \<and> (vd \<inter> sd = {} \<and> pd \<inter> vd = {} \<and> pd \<inter> sd = {} \<longrightarrow>
        (\<exists>a. parse_args_checks now exists ns = Inr a \<and> vacation_days a = vd
             \<and> sick_days_set a = sd \<and> present_dates a = pd))"
proof -
  note late = parse_args_checks_late [OF assms(1-11), of exists]
  have fin: "finite vd" "finite sd" "finite pd"
    using assms(10,11,14) parse_day_option_finite by blast+
  have pass: "\<not> (card sd > 2 \<and> \<not> truthy (raw_sick_file ns))"
    "\<not> (truthy (raw_sick_file ns) \<and> \<not> exists (the (raw_sick_file ns)))"
    using assms(12,13) by auto
  have res: "parse_args_checks now exists ns =
     (if vd \<inter> sd \<noteq> {} then Inl (VacationSickOverlap (sorted_list_of_set (vd \<inter> sd)))
      else if pd \<inter> vd \<noteq> {} then Inl (PresentVacationOverlap (sorted_list_of_set (pd \<inter> vd)))
      else if pd \<inter> sd \<noteq> {} then Inl (PresentSickOverlap (sorted_list_of_set (pd \<inter> sd)))
      else
        Inr \<lparr>user = raw_user ns, password = raw_password ns,
          start_time = raw_start_time ns, end_time = raw_end_time ns,
          project = raw_project ns, present_weekdays = pw, present_dates = pd,
          vacation_days = vd, sick_days_set = sd, sick_file = raw_sick_file ns,
          arg_month = m, arg_year = y, headless = raw_headless ns,
          dry_run = raw_dry_run ns, verbose = raw_verbose ns,
          slow_mo = raw_slow_mo ns\<rparr>)"
    unfolding late using pass assms(14) by simp
  have sl: "\<And>X :: int set. finite X \<Longrightarrow>
      set (sorted_list_of_set X) = X \<and> sorted (sorted_list_of_set X)
      \<and> distinct (sorted_list_of_set X)"
    by simp
  have c1: "vd \<inter> sd \<noteq> {} \<longrightarrow>
        (\<exists>l. parse_args_checks now exists ns = Inl (VacationSickOverlap l)
             \<and> set l = vd \<inter> sd \<and> sorted l \<and> distinct l)
        \<and> main w hol now exists argv pg = (2, [])"
  proof
    assume a: "vd \<inter> sd \<noteq> {}"
    then have r: "parse_args_checks now exists ns
                  = Inl (VacationSickOverlap (sorted_list_of_set (vd \<inter> sd)))"
      using res by simp
    have "main w hol now exists argv pg = (2, [])"
      by (rule main_refused [OF assms(15) r]) simp
    moreover have "finite (vd \<inter> sd)" using fin by simp
    ultimately show "(\<exists>l. parse_args_checks now exists ns = Inl (VacationSickOverlap l)
             \<and> set l = vd \<inter> sd \<and> sorted l \<and> distinct l)
        \<and> main w hol now exists argv pg = (2, [])"
      using r sl by blast
  qed
  have c2: "vd \<inter> sd = {} \<and> pd \<inter> vd \<noteq> {} \<longrightarrow>
        (\<exists>l. parse_args_checks now exists ns = Inl (PresentVacationOverlap l)
             \<and> set l = pd \<inter> vd \<and> sorted l \<and> distinct l)
        \<and> main w hol now exists argv pg = (2, [])"
  proof
    assume a: "vd \<inter> sd = {} \<and> pd \<inter> vd \<noteq> {}"
    then have r: "parse_args_checks now exists ns
                  = Inl (PresentVacationOverlap (sorted_list_of_set (pd \<inter> vd)))"
      using res by simp
    have "main w hol now exists argv pg = (2, [])"
      by (rule main_refused [OF assms(15) r]) simp
    moreover have "finite (pd \<inter> vd)" using fin by simp
    ultimately show "(\<exists>l. parse_args_checks now exists ns = Inl (PresentVacationOverlap l)
             \<and> set l = pd \<inter> vd \<and> sorted l \<and> distinct l)
        \<and> main w hol now exists argv pg = (2, [])"
      using r sl by blast
  qed
  have c3: "vd \<inter> sd = {} \<and> pd \<inter> vd = {} \<and> pd \<inter> sd \<noteq> {} \<longrightarrow>
        (\<exists>l. parse_args_checks now exists ns = Inl (PresentSickOverlap l)
             \<and> set l = pd \<inter> sd \<and> sorted l \<and> distinct l)
        \<and> main w hol now exists argv pg = (2, [])"
  proof
    assume a: "vd \<inter> sd = {} \<and> pd \<inter> vd = {} \<and> pd \<inter> sd \<noteq> {}"
    then have r: "parse_args_checks now exists ns
                  = Inl (PresentSickOverlap (sorted_list_of_set (pd \<inter> sd)))"
      using res by simp
    have "main w hol now exists argv pg = (2, [])"
      by (rule main_refused [OF assms(15) r]) simp
    moreover have "finite (pd \<inter> sd)" using fin by simp
    ultimately show "(\<exists>l. parse_args_checks now exists ns = Inl (PresentSickOverlap l)
             \<and> set l = pd \<inter> sd \<and> sorted l \<and> distinct l)
        \<and> main w hol now exists argv pg = (2, [])"
      using r sl by blast
  qed
  have c4: "vd \<inter> sd = {} \<and> pd \<inter> vd = {} \<and> pd \<inter> sd = {} \<longrightarrow>
        (\<exists>a. parse_args_checks now exists ns = Inr a \<and> vacation_days a = vd
             \<and> sick_days_set a = sd \<and> present_dates a = pd)"
    using res by simp
  show ?thesis using c1 c2 c3 c4 by (intro conjI)
qed


lemma overlap_inputs:
  "valid_time (raw_start_time overlap_namespace)" "valid_time (raw_end_time overlap_namespace)"
  "(case raw_month overlap_namespace of None \<Rightarrow> month feb10 | Some x \<Rightarrow> x) = 2"
  "(case raw_year overlap_namespace of None \<Rightarrow> year feb10 | Some x \<Rightarrow> x) = 2026"
  "raw_month overlap_namespace = None" "raw_year overlap_namespace = None"
  "parse_present_days (raw_present_days overlap_namespace) = Inr {}"
  "parse_day_option (raw_present_dates overlap_namespace) = Some {}"
  "parse_day_option (raw_sick_days overlap_namespace) = Some {1, 2}"
  "parse_day_option (raw_vacation overlap_namespace) = Some {2}"
  "\<not> truthy (raw_sick_file overlap_namespace)"
  "argparse overlap_argv = Inr overlap_namespace"
  by code_simp+

text \<open>The check at work: sick days 1-2 and vacation on day 2 are refused.\<close>

theorem overlap_check_witness:
  "raw_month overlap_namespace = None \<and> raw_year overlap_namespace = None
   \<and> main (still_world []) no_holidays feb10 no_file overlap_argv () = (2, [])"
proof -
  have c: "card {1, 2 :: int} \<le> 2 \<or> truthy (raw_sick_file overlap_namespace)" by simp
  have n: "{2} \<inter> {1, 2 :: int} \<noteq> {}" by simp
  have t: "truthy (raw_sick_file overlap_namespace)
            \<longrightarrow> no_file (the (raw_sick_file overlap_namespace))"
    using overlap_inputs(11) by simp
  have b: "(1::int) \<le> 2" "(2::int) \<le> 12" "(2020::int) \<le> 2026" "(2026::int) \<le> 2030"
    by simp_all
  note inst = overlap_check [where ns = overlap_namespace and m = 2 and y = 2026 and pw = "{}"
        and pd = "{}" and sd = "{1, 2}" and vd = "{2}" and exists = no_file
        and argv = overlap_argv and now = feb10 and w = "still_world []" and hol = no_holidays
        and pg = "()", OF overlap_inputs(1,2,3) b(1,2) overlap_inputs(4) b(3,4)
        overlap_inputs(7,8,9) c t overlap_inputs(10,12)]
  have "main (still_world []) no_holidays feb10 no_file overlap_argv () = (2, [])"
    using inst [THEN conjunct1] n by simp
  then show ?thesis using overlap_inputs(5,6) by simp
qed

text \<open>
  Claim C4 as the specification words it does not hold. With sick days 1-3, vacation on
  day 2 and no certificate, the two sets share day 2 but the error is the missing
  certificate, which is checked first and lists no day. And there is no reserve-duty set:
  \<open>--rd-days\<close> is an unknown option, so reserve duty and vacation on the same day are
  refused as unrecognized arguments.
\<close>

theorem overlap_check_counterexample:
  "the (parse_day_option (raw_vacation long_sick_namespace))
     \<inter> the (parse_day_option (raw_sick_days long_sick_namespace)) = {2}
   \<and> parse_args_checks feb10 no_file long_sick_namespace = Inl SickFileRequired
   \<and> argparse reserve_argv = Inl (Unrecognized [''--rd-days'', ''5'', ''--rd-file'', ''order.pdf''])"
  by code_simp

section \<open>Sick days\<close>

text \<open>What a successful \<open>parse_args\<close> says of the sick days.\<close>

lemma parse_args_checks_sick:
  assumes "valid_time (raw_start_time ns)" and "valid_time (raw_end_time ns)"
    and "(case raw_month ns of None \<Rightarrow> month now | Some x \<Rightarrow> x) = m"
    and "1 \<le> m" and "m \<le> 12"
    and "(case raw_year ns of None \<Rightarrow> year now | Some x \<Rightarrow> x) = y"
    and "2020 \<le> y" and "y \<le> 2030"
    and "parse_present_days (raw_present_days ns) = Inr pw"
    and "parse_day_option (raw_present_dates ns) = Some pd"
    and "parse_day_option (raw_sick_days ns) = Some sd"
    and "parse_args_checks now exists ns = Inr a"
  shows "sick_days_set a = sd \<and> vacation_days a \<inter> sd = {}"
proof -
  note late = parse_args_checks_late [OF assms(1-11), of exists]
  show ?thesis
    using assms(12) unfolding late
    by (auto split: if_splits option.splits)
qed

text \<open>The row of a sick workday goes to the sick branch of both scans.\<close>

lemma sick_row_branch:
  assumes "date_parts r = d # rest" and "\<not> is_fri_sat r" and "d \<in> workday_dates fa"
    and "day_num_of d = Some n" and "n \<notin> fill_vacation_days fa" and "n \<in> sick_days fa"
  shows "first_scan_row w fa r st = first_scan_sick w fa r st"
    and "rescan_row w fa r st =
           rescan_absence w r (sick_symbol (sick_days fa))
             ''  {date_text}: Set to SICK (rescan)''
             ''  {date_text}: Error setting sick (rescan): {e}'' st"
  using assms by (simp_all add: first_scan_row_def rescan_row_def)

lemma off_row_untouched:
  assumes "is_fri_sat r \<or> date_parts r = [] \<or> hd (date_parts r) \<notin> workday_dates fa"
  shows "selected_symbols (trace (snd (first_scan_row w fa r st))) = selected_symbols (trace st)"
    and "rescan_row w fa r st = (Next, st)"
  using assms first_scan_fri_sat_no_select [of w r st]
  by (auto simp: first_scan_row_def rescan_row_def split: list.splits)

lemma two_sick_inputs:
  "valid_time (raw_start_time two_sick_namespace)" "valid_time (raw_end_time two_sick_namespace)"
  "(case raw_month two_sick_namespace of None \<Rightarrow> month feb10 | Some x \<Rightarrow> x) = 2"
  "(case raw_year two_sick_namespace of None \<Rightarrow> year feb10 | Some x \<Rightarrow> x) = 2026"
  "parse_present_days (raw_present_days two_sick_namespace) = Inr {}"
  "parse_day_option (raw_present_dates two_sick_namespace) = Some {}"
  "parse_day_option (raw_sick_days two_sick_namespace) = Some {8, 9}"
  "argparse two_sick_argv = Inr two_sick_namespace"
  "parse_args_checks feb10 no_file two_sick_namespace = Inr two_sick_args"
  by code_simp+

lemma three_sick_inputs:
  "valid_time (raw_start_time three_sick_namespace)" "valid_time (raw_end_time three_sick_namespace)"
  "(case raw_month three_sick_namespace of None \<Rightarrow> month feb10 | Some x \<Rightarrow> x) = 2"
  "(case raw_year three_sick_namespace of None \<Rightarrow> year feb10 | Some x \<Rightarrow> x) = 2026"
  "parse_present_days (raw_present_days three_sick_namespace) = Inr {}"
  "parse_day_option (raw_present_dates three_sick_namespace) = Some {}"
  "parse_day_option (raw_sick_days three_sick_namespace) = Some {8, 9, 10}"
  "argparse three_sick_argv = Inr three_sick_namespace"
  "\<not> truthy (raw_sick_file three_sick_namespace)"
  by code_simp+

lemma certified_inputs:
  "valid_time (raw_start_time certified_namespace)" "valid_time (raw_end_time certified_namespace)"
  "(case raw_month certified_namespace of None \<Rightarrow> month feb10 | Some x \<Rightarrow> x) = 2"
  "(case raw_year certified_namespace of None \<Rightarrow> year feb10 | Some x \<Rightarrow> x) = 2026"
  "parse_present_days (raw_present_days certified_namespace) = Inr {}"
  "parse_day_option (raw_present_dates certified_namespace) = Some {}"
  "parse_day_option (raw_sick_days certified_namespace) = Some {8, 9, 10}"
  "argparse certified_argv = Inr certified_namespace"
  "parse_args_checks feb10 any_file certified_namespace = Inr three_sick_args"
  by code_simp+

lemma sick_row_facts:
  "date_parts sick_row = [''08/02'', ''Sun'']" "\<not> is_fri_sat sick_row"
  "day_num_of ''08/02'' = Some 8" "hasSymbolSelect sick_row" "truthy (symbolSelectId sick_row)"
  "currentSymbol sick_row = ''15''"
  "''08/02'' \<in> set (map ddmm feb_workdays)"
  "''08/02'' \<notin> set (map ddmm holiday_workdays)"
  by code_simp+

lemma monday_row_facts:
  "date_parts monday_row = [''09/02'', ''Mon'']" "\<not> is_fri_sat monday_row"
  "day_num_of ''09/02'' = Some 9" "hasSymbolSelect monday_row" "truthy (symbolSelectId monday_row)"
  "currentSymbol monday_row = ''15''"
  "''09/02'' \<in> set (map ddmm feb_workdays)"
  by code_simp+

lemma friday_row_facts: "is_fri_sat friday_row"
  by code_simp

text \<open>The page that never changes never raises.\<close>

lemma still_world_act: "fst (act (still_world rows) a st) = None"
  by (simp add: act_def still_world_def)

text \<open>
  Claim C8, as amended. When the options read before the sick days are valid (times, the
  month and the year given or left to today's, present days and dates): with more than
  two sick days and no certificate path the command line is refused with the error that
  names the missing \<open>--sick-file\<close>, before any browser action (status 2, empty trace);
  with at most two sick days that error is never raised, and when the day sets are
  disjoint \<open>parse_args\<close> returns the sick days with no certificate asked for.

  After a successful \<open>parse_args\<close>, the row of a sick day that is a workday of the month
  (Sunday to Thursday, not a holiday) is handled by the first scan and by a rescan as
  follows. When the row has a status selector and does not already show the sick symbol
  without hours, and the script that clears the hours does not raise, exactly one value is
  selected on it: 5 when the whole set of sick days has at most two days, 6 otherwise,
  whatever the day. A row that already shows that symbol without hours is left as it is;
  a row without a selector is counted as failed by the first scan and selects nothing.

  A row of a Friday or a Saturday, and a row whose date is not a workday of the month, is
  never given a symbol by either scan, whether or not its day is in the set of sick days.
\<close>

theorem sick_threshold:
  assumes "valid_time (raw_start_time ns)" and "valid_time (raw_end_time ns)"
    and "(case raw_month ns of None \<Rightarrow> month now | Some x \<Rightarrow> x) = m"
    and "1 \<le> m" and "m \<le> 12"
    and "(case raw_year ns of None \<Rightarrow> year now | Some x \<Rightarrow> x) = y"
    and "2020 \<le> y" and "y \<le> 2030"
    and "parse_present_days (raw_present_days ns) = Inr pw"
    and "parse_day_option (raw_present_dates ns) = Some pd"
    and "parse_day_option (raw_sick_days ns) = Some sd"
    and "argparse argv = Inr ns"
  shows
    "(card sd > 2 \<and> \<not> truthy (raw_sick_file ns) \<longrightarrow>
        parse_args_checks now exists ns = Inl SickFileRequired
        \<and> main w hol now exists argv pg = (2, []))
     \<and> (card sd \<le> 2 \<longrightarrow> parse_args_checks now exists ns \<noteq> Inl SickFileRequired)
     \<and> (card sd \<le> 2 \<and> \<not> truthy (raw_sick_file ns)
          \<and> parse_day_option (raw_vacation ns) = Some vd
          \<and> vd \<inter> sd = {} \<and> pd \<inter> vd = {} \<and> pd \<inter> sd = {} \<longrightarrow>
        (\<exists>a. parse_args_checks now exists ns = Inr a \<and> sick_days_set a = sd
             \<and> sick_file a = raw_sick_file ns))
     \<and> (parse_args_checks now exists ns = Inr a
          \<and> date_parts r = d # rest \<and> \<not> is_fri_sat r
          \<and> d \<in> workday_dates (fill_args_of a wds now)
          \<and> day_num_of d = Some n \<and> n \<in> sd \<longrightarrow>
        (hasSymbolSelect r \<and> truthy (symbolSelectId r)
           \<and> \<not> (currentSymbol r = (if card sd \<le> 2 then ''5'' else ''6'') \<and> \<not> has_hours r)
           \<and> fst (act w (Evaluate (ClearHoursAndProject (or_empty (entryInputId r))
                    (or_empty (exitInputId r)) (rowIndex r))) (dismiss_modal w st)) = None \<longrightarrow>
         selected_symbols (trace (snd (first_scan_row w (fill_args_of a wds now) r st)))
           = selected_symbols (trace st) @ [if card sd \<le> 2 then ''5'' else ''6''])
        \<and> (hasSymbolSelect r \<and> truthy (symbolSelectId r)
           \<and> \<not> (currentSymbol r = (if card sd \<le> 2 then ''5'' else ''6'') \<and> \<not> has_hours r)
           \<and> fst (act w (Evaluate (ClearHours (or_empty (entryInputId r))
                    (or_empty (exitInputId r)))) (dismiss_modal w st)) = None \<longrightarrow>
         selected_symbols (trace (snd (rescan_row w (fill_args_of a wds now) r st)))
           = selected_symbols (trace st) @ [if card sd \<le> 2 then ''5'' else ''6''])
        \<and> (currentSymbol r = (if card sd \<le> 2 then ''5'' else ''6'') \<and> \<not> has_hours r \<longrightarrow>
         first_scan_row w (fill_args_of a wds now) r st
           = (Next, skipped (log INFO ''  {date_text}: Already set to {sick_label}, skipping'' st))
         \<and> rescan_row w (fill_args_of a wds now) r st = (Next, st))
        \<and> (\<not> (hasSymbolSelect r \<and> truthy (symbolSelectId r))
           \<and> \<not> (currentSymbol r = (if card sd \<le> 2 then ''5'' else ''6'') \<and> \<not> has_hours r) \<longrightarrow>
         first_scan_row w (fill_args_of a wds now) r st
           = (Next, failed (log WARNING ''  {date_text}: No symbol dropdown for sick'' st))
         \<and> rescan_row w (fill_args_of a wds now) r st = (Next, st)))
     \<and> (is_fri_sat r \<or> date_parts r = [] \<or> hd (date_parts r) \<notin> workday_dates fa \<longrightarrow>
        selected_symbols (trace (snd (first_scan_row w fa r st))) = selected_symbols (trace st)
        \<and> rescan_row w fa r st = (Next, st))"
proof -
  note late = parse_args_checks_late [OF assms(1-11), of exists]
  let ?v = "if card sd \<le> 2 then ''5'' else ''6''"
  let ?fa = "fill_args_of a wds now"
  have c1: "card sd > 2 \<and> \<not> truthy (raw_sick_file ns) \<longrightarrow>
        parse_args_checks now exists ns = Inl SickFileRequired
        \<and> main w hol now exists argv pg = (2, [])"
  proof
    assume a: "card sd > 2 \<and> \<not> truthy (raw_sick_file ns)"
    then have r: "parse_args_checks now exists ns = Inl SickFileRequired"
      unfolding late by simp
    have "main w hol now exists argv pg = (2, [])"
      by (rule main_refused [OF assms(12) r]) simp
    with r show "parse_args_checks now exists ns = Inl SickFileRequired
        \<and> main w hol now exists argv pg = (2, [])" by simp
  qed
  have c2: "card sd \<le> 2 \<longrightarrow> parse_args_checks now exists ns \<noteq> Inl SickFileRequired"
    unfolding late by (simp split: option.splits)
  have c3: "card sd \<le> 2 \<and> \<not> truthy (raw_sick_file ns)
          \<and> parse_day_option (raw_vacation ns) = Some vd
          \<and> vd \<inter> sd = {} \<and> pd \<inter> vd = {} \<and> pd \<inter> sd = {} \<longrightarrow>
        (\<exists>a. parse_args_checks now exists ns = Inr a \<and> sick_days_set a = sd
             \<and> sick_file a = raw_sick_file ns)"
    unfolding late by simp
  have c4: "parse_args_checks now exists ns = Inr a
          \<and> date_parts r = d # rest \<and> \<not> is_fri_sat r
          \<and> d \<in> workday_dates ?fa \<and> day_num_of d = Some n \<and> n \<in> sd \<longrightarrow>
        (hasSymbolSelect r \<and> truthy (symbolSelectId r)
           \<and> \<not> (currentSymbol r = ?v \<and> \<not> has_hours r)
           \<and> fst (act w (Evaluate (ClearHoursAndProject (or_empty (entryInputId r))
                    (or_empty (exitInputId r)) (rowIndex r))) (dismiss_modal w st)) = None \<longrightarrow>
         selected_symbols (trace (snd (first_scan_row w ?fa r st)))
           = selected_symbols (trace st) @ [?v])
        \<and> (hasSymbolSelect r \<and> truthy (symbolSelectId r)
           \<and> \<not> (currentSymbol r = ?v \<and> \<not> has_hours r)
           \<and> fst (act w (Evaluate (ClearHours (or_empty (entryInputId r))
                    (or_empty (exitInputId r)))) (dismiss_modal w st)) = None \<longrightarrow>
         selected_symbols (trace (snd (rescan_row w ?fa r st)))
           = selected_symbols (trace st) @ [?v])
        \<and> (currentSymbol r = ?v \<and> \<not> has_hours r \<longrightarrow>
         first_scan_row w ?fa r st
           = (Next, skipped (log INFO ''  {date_text}: Already set to {sick_label}, skipping'' st))
         \<and> rescan_row w ?fa r st = (Next, st))
        \<and> (\<not> (hasSymbolSelect r \<and> truthy (symbolSelectId r))
           \<and> \<not> (currentSymbol r = ?v \<and> \<not> has_hours r) \<longrightarrow>
         first_scan_row w ?fa r st
           = (Next, failed (log WARNING ''  {date_text}: No symbol dropdown for sick'' st))
         \<and> rescan_row w ?fa r st = (Next, st))"
  proof
    assume h: "parse_args_checks now exists ns = Inr a
          \<and> date_parts r = d # rest \<and> \<not> is_fri_sat r
          \<and> d \<in> workday_dates ?fa \<and> day_num_of d = Some n \<and> n \<in> sd"
    note sets = parse_args_checks_sick [OF assms(1-11), of exists a]
    have sd: "sick_days ?fa = sd" and vac: "n \<notin> fill_vacation_days ?fa"
      using h sets by (auto simp: fill_args_of_def)
    have sym: "sick_symbol (sick_days ?fa) = ?v"
      unfolding sd by (simp add: sick_symbol_def)
    have ins: "n \<in> sick_days ?fa" using h sd by simp
    have h1: "date_parts r = d # rest" and h2: "\<not> is_fri_sat r"
      and h3: "d \<in> workday_dates ?fa" and h4: "day_num_of d = Some n"
      using h by simp_all
    note br = sick_row_branch [OF h1 h2 h3 h4 vac ins, of w st]
    have p1: "hasSymbolSelect r \<and> truthy (symbolSelectId r)
           \<and> \<not> (currentSymbol r = ?v \<and> \<not> has_hours r)
           \<and> fst (act w (Evaluate (ClearHoursAndProject (or_empty (entryInputId r))
                    (or_empty (exitInputId r)) (rowIndex r))) (dismiss_modal w st)) = None \<longrightarrow>
         selected_symbols (trace (snd (first_scan_row w ?fa r st)))
           = selected_symbols (trace st) @ [?v]"
    proof
      assume g: "hasSymbolSelect r \<and> truthy (symbolSelectId r)
           \<and> \<not> (currentSymbol r = ?v \<and> \<not> has_hours r)
           \<and> fst (act w (Evaluate (ClearHoursAndProject (or_empty (entryInputId r))
                    (or_empty (exitInputId r)) (rowIndex r))) (dismiss_modal w st)) = None"
      have g3: "\<not> (currentSymbol r = sick_symbol (sick_days ?fa) \<and> \<not> has_hours r)"
        unfolding sym using g by simp
      have "selected_symbols (trace (snd (first_scan_sick w ?fa r st)))
              = selected_symbols (trace st) @ [sick_symbol (sick_days ?fa)]"
        by (rule first_scan_sick_selects [OF _ _ g3]) (use g in simp_all)
      then show "selected_symbols (trace (snd (first_scan_row w ?fa r st)))
           = selected_symbols (trace st) @ [?v]"
        unfolding br(1) sym .
    qed
    have p2: "hasSymbolSelect r \<and> truthy (symbolSelectId r)
           \<and> \<not> (currentSymbol r = ?v \<and> \<not> has_hours r)
           \<and> fst (act w (Evaluate (ClearHours (or_empty (entryInputId r))
                    (or_empty (exitInputId r)))) (dismiss_modal w st)) = None \<longrightarrow>
         selected_symbols (trace (snd (rescan_row w ?fa r st)))
           = selected_symbols (trace st) @ [?v]"
    proof
      assume g: "hasSymbolSelect r \<and> truthy (symbolSelectId r)
           \<and> \<not> (currentSymbol r = ?v \<and> \<not> has_hours r)
           \<and> fst (act w (Evaluate (ClearHours (or_empty (entryInputId r))
                    (or_empty (exitInputId r)))) (dismiss_modal w st)) = None"
      have g3: "\<not> (currentSymbol r = ?v \<and> \<not> has_hours r)"
        using g by simp
      have "selected_symbols (trace (snd (rescan_absence w r ?v
                ''  {date_text}: Set to SICK (rescan)''
                ''  {date_text}: Error setting sick (rescan): {e}'' st)))
              = selected_symbols (trace st) @ [?v]"
        by (rule rescan_absence_selects [OF _ _ g3]) (use g in simp_all)
      then show "selected_symbols (trace (snd (rescan_row w ?fa r st)))
           = selected_symbols (trace st) @ [?v]"
        unfolding br(2) sym .
    qed
    have p3: "currentSymbol r = ?v \<and> \<not> has_hours r \<longrightarrow>
         first_scan_row w ?fa r st
           = (Next, skipped (log INFO ''  {date_text}: Already set to {sick_label}, skipping'' st))
         \<and> rescan_row w ?fa r st = (Next, st)"
      unfolding br first_scan_sick_def rescan_absence_def Let_def sym by simp
    have p4: "\<not> (hasSymbolSelect r \<and> truthy (symbolSelectId r))
           \<and> \<not> (currentSymbol r = ?v \<and> \<not> has_hours r) \<longrightarrow>
         first_scan_row w ?fa r st
           = (Next, failed (log WARNING ''  {date_text}: No symbol dropdown for sick'' st))
         \<and> rescan_row w ?fa r st = (Next, st)"
      unfolding br first_scan_sick_def rescan_absence_def Let_def sym by auto
    show "(hasSymbolSelect r \<and> truthy (symbolSelectId r)
           \<and> \<not> (currentSymbol r = ?v \<and> \<not> has_hours r)
           \<and> fst (act w (Evaluate (ClearHoursAndProject (or_empty (entryInputId r))
                    (or_empty (exitInputId r)) (rowIndex r))) (dismiss_modal w st)) = None \<longrightarrow>
         selected_symbols (trace (snd (first_scan_row w ?fa r st)))
           = selected_symbols (trace st) @ [?v])
        \<and> (hasSymbolSelect r \<and> truthy (symbolSelectId r)
           \<and> \<not> (currentSymbol r = ?v \<and> \<not> has_hours r)
           \<and> fst (act w (Evaluate (ClearHours (or_empty (entryInputId r))
                    (or_empty (exitInputId r)))) (dismiss_modal w st)) = None \<longrightarrow>
         selected_symbols (trace (snd (rescan_row w ?fa r st)))
           = selected_symbols (trace st) @ [?v])
        \<and> (currentSymbol r = ?v \<and> \<not> has_hours r \<longrightarrow>
         first_scan_row w ?fa r st
           = (Next, skipped (log INFO ''  {date_text}: Already set to {sick_label}, skipping'' st))
         \<and> rescan_row w ?fa r st = (Next, st))
        \<and> (\<not> (hasSymbolSelect r \<and> truthy (symbolSelectId r))
           \<and> \<not> (currentSymbol r = ?v \<and> \<not> has_hours r) \<longrightarrow>
         first_scan_row w ?fa r st
           = (Next, failed (log WARNING ''  {date_text}: No symbol dropdown for sick'' st))
         \<and> rescan_row w ?fa r st = (Next, st))"
      using p1 p2 p3 p4 by (intro conjI)
  qed
  have c5: "is_fri_sat r \<or> date_parts r = [] \<or> hd (date_parts r) \<notin> workday_dates fa \<longrightarrow>
        selected_symbols (trace (snd (first_scan_row w fa r st))) = selected_symbols (trace st)
        \<and> rescan_row w fa r st = (Next, st)"
    using off_row_untouched [of r fa w st] by blast
  show ?thesis
    using c1 c2 c3 c4 c5 by (intro conjI)
qed


text \<open>
  The threshold at work in February 2026: days 8-10 without a certificate are refused;
  with days 8 and 9 the row of Sunday the 8th is given 5 by the first scan and by a
  rescan; with days 8-10 and a certificate the row of Monday the 9th is given 6; the row
  of Friday the 6th is given nothing, nor is the row of Sunday the 8th when that day is a
  holiday.
\<close>

theorem sick_threshold_witness:
  "main (still_world [friday_row]) no_holidays feb10 no_file three_sick_argv () = (2, [])
   \<and> selected_symbols (trace (snd (first_scan_row (still_world [sick_row])
         (fill_args_of two_sick_args feb_workdays feb10) sick_row (initial_state ())))) = [''5'']
   \<and> selected_symbols (trace (snd (rescan_row (still_world [sick_row])
         (fill_args_of two_sick_args feb_workdays feb10) sick_row (initial_state ())))) = [''5'']
   \<and> selected_symbols (trace (snd (first_scan_row (still_world [monday_row])
         (fill_args_of three_sick_args feb_workdays feb10) monday_row (initial_state ())))) = [''6'']
   \<and> selected_symbols (trace (snd (rescan_row (still_world [monday_row])
         (fill_args_of three_sick_args feb_workdays feb10) monday_row (initial_state ())))) = [''6'']
   \<and> selected_symbols (trace (snd (first_scan_row (still_world [friday_row])
         friday_sick_args friday_row (initial_state ())))) = []
   \<and> selected_symbols (trace (snd (first_scan_row (still_world [sick_row])
         (fill_args_of two_sick_args holiday_workdays feb10) sick_row (initial_state ())))) = []"
proof -
  have b: "(1::int) \<le> 2" "(2::int) \<le> 12" "(2020::int) \<le> 2026" "(2026::int) \<le> 2030"
    by simp_all
  have e: "selected_symbols (trace (initial_state ())) = []"
    by (simp add: initial_state_def)
  note t2 = sick_threshold [where ns = two_sick_namespace and m = 2 and y = 2026 and pw = "{}"
        and pd = "{}" and sd = "{8, 9}" and exists = no_file
        and argv = two_sick_argv and now = feb10 and w = "still_world [sick_row]"
        and a = two_sick_args and r = sick_row and d = "''08/02''" and rest = "[''Sun'']"
        and wds = feb_workdays and n = 8 and st = "initial_state ()"
        and fa = "fill_args_of two_sick_args holiday_workdays feb10",
        OF two_sick_inputs(1,2,3) b(1,2) two_sick_inputs(4) b(3,4) two_sick_inputs(5,6,7,8)]
  note t3 = sick_threshold [where ns = three_sick_namespace and m = 2 and y = 2026 and pw = "{}"
        and pd = "{}" and sd = "{8, 9, 10}" and exists = no_file
        and argv = three_sick_argv and now = feb10 and w = "still_world [friday_row]"
        and hol = no_holidays and pg = "()"
        and r = friday_row and st = "initial_state ()" and fa = friday_sick_args,
        OF three_sick_inputs(1,2,3) b(1,2) three_sick_inputs(4) b(3,4) three_sick_inputs(5,6,7,8)]
  note t6 = sick_threshold [where ns = certified_namespace and m = 2 and y = 2026 and pw = "{}"
        and pd = "{}" and sd = "{8, 9, 10}" and exists = any_file
        and argv = certified_argv and now = feb10 and w = "still_world [monday_row]"
        and a = three_sick_args and r = monday_row and d = "''09/02''" and rest = "[''Mon'']"
        and wds = feb_workdays and n = 9 and st = "initial_state ()",
        OF certified_inputs(1,2,3) b(1,2) certified_inputs(4) b(3,4) certified_inputs(5,6,7,8)]
  have refused: "main (still_world [friday_row]) no_holidays feb10 no_file three_sick_argv () = (2, [])"
    using t3 [THEN conjunct1] three_sick_inputs(9) by simp
  have h2: "parse_args_checks feb10 no_file two_sick_namespace = Inr two_sick_args
          \<and> date_parts sick_row = ''08/02'' # [''Sun''] \<and> \<not> is_fri_sat sick_row
          \<and> ''08/02'' \<in> workday_dates (fill_args_of two_sick_args feb_workdays feb10)
          \<and> day_num_of ''08/02'' = Some 8 \<and> (8::int) \<in> {8, 9}"
    using two_sick_inputs(9) sick_row_facts(1,2,3,7)
    by (simp add: workday_dates_def fill_args_of_def)
  note row2 = t2 [THEN conjunct2, THEN conjunct2, THEN conjunct2, THEN conjunct1, THEN mp, OF h2]
  have five1: "selected_symbols (trace (snd (first_scan_row (still_world [sick_row])
         (fill_args_of two_sick_args feb_workdays feb10) sick_row (initial_state ())))) = [''5'']"
    using row2 [THEN conjunct1] sick_row_facts(4,5,6) e
    by (simp add: still_world_act)
  have five2: "selected_symbols (trace (snd (rescan_row (still_world [sick_row])
         (fill_args_of two_sick_args feb_workdays feb10) sick_row (initial_state ())))) = [''5'']"
    using row2 [THEN conjunct2, THEN conjunct1] sick_row_facts(4,5,6) e
    by (simp add: still_world_act)
  have h6: "parse_args_checks feb10 any_file certified_namespace = Inr three_sick_args
          \<and> date_parts monday_row = ''09/02'' # [''Mon''] \<and> \<not> is_fri_sat monday_row
          \<and> ''09/02'' \<in> workday_dates (fill_args_of three_sick_args feb_workdays feb10)
          \<and> day_num_of ''09/02'' = Some 9 \<and> (9::int) \<in> {8, 9, 10}"
    using certified_inputs(9) monday_row_facts(1,2,3,7)
    by (simp add: workday_dates_def fill_args_of_def)
  note row6 = t6 [THEN conjunct2, THEN conjunct2, THEN conjunct2, THEN conjunct1, THEN mp, OF h6]
  have six1: "selected_symbols (trace (snd (first_scan_row (still_world [monday_row])
         (fill_args_of three_sick_args feb_workdays feb10) monday_row (initial_state ())))) = [''6'']"
    using row6 [THEN conjunct1] monday_row_facts(4,5,6) e
    by (simp add: still_world_act)
  have six2: "selected_symbols (trace (snd (rescan_row (still_world [monday_row])
         (fill_args_of three_sick_args feb_workdays feb10) monday_row (initial_state ())))) = [''6'']"
    using row6 [THEN conjunct2, THEN conjunct1] monday_row_facts(4,5,6) e
    by (simp add: still_world_act)
  have friday: "selected_symbols (trace (snd (first_scan_row (still_world [friday_row])
         friday_sick_args friday_row (initial_state ())))) = []"
    using t3 [THEN conjunct2, THEN conjunct2, THEN conjunct2, THEN conjunct2]
      friday_row_facts e
    by simp
  have hol: "hd (date_parts sick_row)
      \<notin> workday_dates (fill_args_of two_sick_args holiday_workdays feb10)"
    using sick_row_facts(1,8) by (simp add: workday_dates_def fill_args_of_def)
  have holiday: "selected_symbols (trace (snd (first_scan_row (still_world [sick_row])
         (fill_args_of two_sick_args holiday_workdays feb10) sick_row (initial_state ())))) = []"
    using t2 [THEN conjunct2, THEN conjunct2, THEN conjunct2, THEN conjunct2] hol e
    by simp
  show ?thesis
    using refused five1 five2 six1 six2 friday holiday by (intro conjI)
qed

text \<open>
  Claim C8 as the specification words it does not hold for every sick day and every
  command line. With sick day 6, a Friday, the row of that day is passed over by the first
  scan, by the rescans and by the second pass: no symbol is selected on it. And with three
  sick days, no certificate and \<open>--month 13\<close> the command line is refused for its
  month, which is checked first, not for the missing certificate.
\<close>

theorem sick_threshold_counterexample:
  "6 \<in> sick_days friday_sick_args
   \<and> first_scan_row (still_world [friday_row]) friday_sick_args friday_row (initial_state ())
       = (Next, initial_state ())
   \<and> rescan_row (still_world [friday_row]) friday_sick_args friday_row (initial_state ())
       = (Next, initial_state ())
   \<and> pass2_row (still_world [friday_row]) friday_sick_args friday_row (initial_state ())
       = (Next, initial_state ())
   \<and> parse_args_checks feb10 no_file month13_namespace = Inl MonthRange"
  by code_simp

section \<open>Rows without a symbol\<close>

text \<open>A date among the workdays is the date of the workday the scans look up.\<close>

lemma matching_wd_found:
  "d \<in> workday_dates a \<Longrightarrow>
   \<exists>wd. matching_wd a d = Some wd \<and> wd \<in> set (workdays a) \<and> ddmm wd = d"
proof -
  assume "d \<in> workday_dates a"
  then have ex: "\<exists>wd \<in> set (workdays a). ddmm wd = d"
    by (auto simp: workday_dates_def)
  then obtain wd where f: "find (\<lambda>wd. ddmm wd = d) (workdays a) = Some wd"
    by (cases "find (\<lambda>wd. ddmm wd = d) (workdays a)") (auto simp: find_None_iff)
  then have "wd \<in> set (workdays a) \<and> ddmm wd = d"
    by (auto simp: find_Some_iff)
  with f show ?thesis by (simp add: matching_wd_def)
qed

lemma unset_row_facts:
  "date_parts unset_row = [''03/02'', ''Tue'']" "\<not> is_fri_sat unset_row"
  "day_num_of ''03/02'' = Some 3" "currentSymbol unset_row = []"
  "''03/02'' \<in> set (map ddmm feb_workdays)"
  "hasSymbolSelect unset_row"
  by code_simp+

lemma stubborn_row_facts:
  "date_parts stubborn_row = [''01/02'', ''Sun'']" "\<not> is_fri_sat stubborn_row"
  "day_num_of ''01/02'' = Some 1" "currentSymbol stubborn_row = ''0''"
  "''01/02'' \<in> set (map ddmm feb_workdays)"
  "hasSymbolSelect stubborn_row"
  "matching_wd plain_args ''01/02'' = Some \<lparr>year = 2026, month = 2, day = 1\<rparr>"
  "expected_symbol plain_args \<lparr>year = 2026, month = 2, day = 1\<rparr> = ''15''"
  by code_simp+

text \<open>
  Claim C9. In Pass 1 (the first scan and every rescan), the row of a workday that is not
  a Friday or Saturday row, not a vacation day and not a sick day, and whose current symbol
  is the empty string, is passed over: the scan goes on to the next row with the state
  unchanged, so nothing is selected on it. Only a row with a selector whose current symbol
  is non-empty and differs from the expected one (0 for a present day, 15 otherwise) is
  given the expected symbol (a row showing an absence symbol is deleted instead); one whose
  symbol is already the expected one is passed over too.
\<close>

theorem empty_symbol_kept:
  assumes "date_parts r = d # rest" and "\<not> is_fri_sat r" and "d \<in> workday_dates a"
    and "day_num_of d = Some n" and "n \<notin> fill_vacation_days a" and "n \<notin> sick_days a"
  shows
    "(currentSymbol r = [] \<longrightarrow>
        first_scan_row w a r st = (Next, st) \<and> rescan_row w a r st = (Next, st))
     \<and> (hasSymbolSelect r \<and> currentSymbol r \<noteq> [] \<and> currentSymbol r \<notin> absence_symbols \<longrightarrow>
        (\<exists>wd. matching_wd a d = Some wd \<and> wd \<in> set (workdays a) \<and> ddmm wd = d
           \<and> (currentSymbol r \<noteq> expected_symbol a wd \<longrightarrow>
                selected_symbols (trace (snd (first_scan_row w a r st)))
                  = selected_symbols (trace st) @ [expected_symbol a wd]
                \<and> selected_symbols (trace (snd (rescan_row w a r st)))
                  = selected_symbols (trace st) @ [expected_symbol a wd])
           \<and> (currentSymbol r = expected_symbol a wd \<longrightarrow>
                first_scan_row w a r st = (Next, st) \<and> rescan_row w a r st = (Next, st))))"
proof -
  have f: "first_scan_row w a r st =
             (if hasSymbolSelect r then first_scan_symbol w a d r st else (Next, st))"
    and g: "rescan_row w a r st =
             (if hasSymbolSelect r then rescan_symbol w a d r st else (Next, st))"
    using assms by (simp_all add: first_scan_row_def rescan_row_def)
  obtain wd where m: "matching_wd a d = Some wd" and wd: "wd \<in> set (workdays a)" "ddmm wd = d"
    using matching_wd_found [OF assms(3)] by blast
  have c1: "currentSymbol r = [] \<longrightarrow>
        first_scan_row w a r st = (Next, st) \<and> rescan_row w a r st = (Next, st)"
    unfolding f g
    by (simp add: first_scan_symbol_def rescan_symbol_def absence_symbols_def m Let_def)
  have c2: "hasSymbolSelect r \<and> currentSymbol r \<noteq> [] \<and> currentSymbol r \<notin> absence_symbols \<longrightarrow>
        (\<exists>wd. matching_wd a d = Some wd \<and> wd \<in> set (workdays a) \<and> ddmm wd = d
           \<and> (currentSymbol r \<noteq> expected_symbol a wd \<longrightarrow>
                selected_symbols (trace (snd (first_scan_row w a r st)))
                  = selected_symbols (trace st) @ [expected_symbol a wd]
                \<and> selected_symbols (trace (snd (rescan_row w a r st)))
                  = selected_symbols (trace st) @ [expected_symbol a wd])
           \<and> (currentSymbol r = expected_symbol a wd \<longrightarrow>
                first_scan_row w a r st = (Next, st) \<and> rescan_row w a r st = (Next, st)))"
  proof
    assume h: "hasSymbolSelect r \<and> currentSymbol r \<noteq> [] \<and> currentSymbol r \<notin> absence_symbols"
    have d1: "currentSymbol r \<noteq> expected_symbol a wd \<longrightarrow>
                selected_symbols (trace (snd (first_scan_row w a r st)))
                  = selected_symbols (trace st) @ [expected_symbol a wd]
                \<and> selected_symbols (trace (snd (rescan_row w a r st)))
                  = selected_symbols (trace st) @ [expected_symbol a wd]"
      unfolding f g using h
      by (simp add: first_scan_symbol_def rescan_symbol_def m Let_def change_symbol_selects)
    have d2: "currentSymbol r = expected_symbol a wd \<longrightarrow>
                first_scan_row w a r st = (Next, st) \<and> rescan_row w a r st = (Next, st)"
    proof
      assume "currentSymbol r = expected_symbol a wd"
      then have eq: "expected_symbol a wd = currentSymbol r" by simp
      have h1: "hasSymbolSelect r" and h3: "currentSymbol r \<notin> absence_symbols"
        using h by simp_all
      show "first_scan_row w a r st = (Next, st) \<and> rescan_row w a r st = (Next, st)"
        unfolding f g
        by (simp add: first_scan_symbol_def rescan_symbol_def m Let_def eq h1 h3)
    qed
    show "\<exists>wd. matching_wd a d = Some wd \<and> wd \<in> set (workdays a) \<and> ddmm wd = d
           \<and> (currentSymbol r \<noteq> expected_symbol a wd \<longrightarrow>
                selected_symbols (trace (snd (first_scan_row w a r st)))
                  = selected_symbols (trace st) @ [expected_symbol a wd]
                \<and> selected_symbols (trace (snd (rescan_row w a r st)))
                  = selected_symbols (trace st) @ [expected_symbol a wd])
           \<and> (currentSymbol r = expected_symbol a wd \<longrightarrow>
                first_scan_row w a r st = (Next, st) \<and> rescan_row w a r st = (Next, st))"
      using m wd d1 d2 by (intro exI [of _ wd] conjI)
  qed
  show ?thesis using c1 c2 by (intro conjI)
qed

text \<open>
  February 2026, no present days: Tuesday the 3rd with no symbol is passed over; Sunday
  the 1st, shown as office presence, is given 15.
\<close>

theorem empty_symbol_kept_witness:
  "first_scan_row (still_world [unset_row]) plain_args unset_row (initial_state ())
     = (Next, initial_state ())
   \<and> rescan_row (still_world [unset_row]) plain_args unset_row (initial_state ())
     = (Next, initial_state ())
   \<and> selected_symbols (trace (snd (first_scan_row (still_world [stubborn_row]) plain_args
        stubborn_row (initial_state ())))) = [''15'']
   \<and> selected_symbols (trace (snd (rescan_row (still_world [stubborn_row]) plain_args
        stubborn_row (initial_state ())))) = [''15'']"
proof -
  have e: "selected_symbols (trace (initial_state ())) = []"
    by (simp add: initial_state_def)
  have p: "fill_vacation_days plain_args = {}" "sick_days plain_args = {}"
    "workday_dates plain_args = set (map ddmm feb_workdays)"
    by (simp_all add: plain_args_def workday_dates_def)
  have n3: "3 \<notin> fill_vacation_days plain_args" "3 \<notin> sick_days plain_args"
    and n1: "1 \<notin> fill_vacation_days plain_args" "1 \<notin> sick_days plain_args"
    unfolding p by simp_all
  have w3: "''03/02'' \<in> workday_dates plain_args" and w1: "''01/02'' \<in> workday_dates plain_args"
    unfolding p using unset_row_facts(5) stubborn_row_facts(5) by simp_all
  have dp3: "date_parts unset_row = ''03/02'' # [''Tue'']"
    and dp1: "date_parts stubborn_row = ''01/02'' # [''Sun'']"
    using unset_row_facts(1) stubborn_row_facts(1) by simp_all
  note t3 = empty_symbol_kept [OF dp3 unset_row_facts(2) w3 unset_row_facts(3) n3,
      of "still_world [unset_row]" "initial_state ()"]
  note t1 = empty_symbol_kept [OF dp1 stubborn_row_facts(2) w1 stubborn_row_facts(3) n1,
      of "still_world [stubborn_row]" "initial_state ()"]
  have a: "first_scan_row (still_world [unset_row]) plain_args unset_row (initial_state ())
             = (Next, initial_state ())
           \<and> rescan_row (still_world [unset_row]) plain_args unset_row (initial_state ())
             = (Next, initial_state ())"
    using t3 [THEN conjunct1] unset_row_facts(4) by simp
  have na: "hasSymbolSelect stubborn_row \<and> currentSymbol stubborn_row \<noteq> []
              \<and> currentSymbol stubborn_row \<notin> absence_symbols"
    using stubborn_row_facts(4,6) by (simp add: absence_symbols_def)
  have b: "selected_symbols (trace (snd (first_scan_row (still_world [stubborn_row]) plain_args
             stubborn_row (initial_state ())))) = [''15'']
           \<and> selected_symbols (trace (snd (rescan_row (still_world [stubborn_row]) plain_args
             stubborn_row (initial_state ())))) = [''15'']"
    using t1 [THEN conjunct2, THEN mp, OF na] stubborn_row_facts(4,7,8) e by simp
  show ?thesis using a b by simp
qed

section \<open>Rows of future days\<close>


lemma total_steps [simp]:
  "fst (dismiss w st) = None" "fst (say l m st) = None"
  by (simp_all add: dismiss_def say_def)


lemma project_step_total [simp]: "fst (project_step w r p st) = None"
  by (simp add: project_step_def split: prod.splits bool.splits)








section \<open>The cap on the rescans\<close>

text \<open>
  The loop when every rescan reads the grid and ends in a postback: \<open>h\<close> is the re-read,
  \<open>g\<close> one whole rescan.
\<close>

lemma rescan_loop_iter:
  assumes body: "\<And>st. run_steps
             [say INFO [],
              say INFO ''--- Re-reading grid after postback operations (rescan {_rescan_count}) ---'',
              act w (Evaluate ReadGrid)] st = (None, h st)
           \<and> grid w (page (h st)) \<noteq> []
           \<and> for_rows (rescan_row w a) (grid w (page (h st))) (h st) = (Break, g st)"
  shows "k \<le> 50 \<Longrightarrow> rescan_loop w a k st = Proceed ((g ^^ (50 - k)) st)"
proof (induction "50 - k" arbitrary: k st)
  case 0
  then have "k = 50" by simp
  then show ?case by (simp add: rescan_loop.simps)
next
  case (Suc n)
  then have lt: "k < 50" and n: "n = 50 - (k + 1)" and le: "k + 1 \<le> 50" by simp_all
  have step: "rescan_loop w a k st = rescan_loop w a (k + 1) (g st)"
    by (subst rescan_loop.simps) (simp add: lt body)
  have "rescan_loop w a (k + 1) (g st) = Proceed ((g ^^ (50 - (k + 1))) (g st))"
    by (rule Suc.hyps(1) [OF n le])
  moreover have "50 - k = Suc (50 - (k + 1))" using lt by simp
  ultimately show ?case
    unfolding step by (simp add: funpow_swap1)
qed

lemma funpow_keeps:
  assumes "\<And>st. f (g st) = f st"
  shows "f ((g ^^ n) st) = f st"
  by (induction n) (simp_all add: assms)

lemma funpow_counts:
  fixes f :: "'s \<Rightarrow> nat"
  assumes "\<And>st. f (g st) = f st + 1"
  shows "f ((g ^^ n) st) = f st + n"
  by (induction n) (simp_all add: assms)

lemma stubborn_facts:
  "date_parts stubborn_row = [''01/02'', ''Sun'']" "\<not> is_fri_sat stubborn_row"
  "day_num_of ''01/02'' = Some 1" "currentSymbol stubborn_row = ''0''"
  "''01/02'' \<in> workday_dates plain_args"
  "hasSymbolSelect stubborn_row"
  "matching_wd plain_args ''01/02'' = Some \<lparr>year = 2026, month = 2, day = 1\<rparr>"
  "expected_symbol plain_args \<lparr>year = 2026, month = 2, day = 1\<rparr> = ''15''"
  "hasEntryInput stubborn_row" "hasExitInput stubborn_row"
  "\<not> hours_need_fill plain_args ''01/02'' stubborn_row"
  "\<not> project_needs_fill plain_args stubborn_row"
  by code_simp+

lemma plain_facts:
  "fill_vacation_days plain_args = {}" "sick_days plain_args = {}"
  "truthy (fill_project plain_args)" "fill_present_dates plain_args = {}"
  by (simp_all add: plain_args_def truthy_def)

lemmas still_defs = run_steps.simps dismiss_def dismiss_modal_def act_def still_world_def
  say_def wait_idle_def log_def succeeded_def skipped_def failed_def try_screenshot_def

lemma stubborn_rescan:
  "for_rows (rescan_row (still_world rows) plain_args) [stubborn_row] st =
     (Break, st\<lparr>page := (),
        trace := trace st @
          [Act (Evaluate DismissScript),
           Act (SelectOption (select_selector stubborn_row) ''15''),
           Log INFO ''  {date_text}: Reporting Type set to: {symbol_label} (rescan)'',
           Act WaitForLoadState, Act (Evaluate DismissScript)],
        success_count := Suc (success_count st)\<rparr>)"
  by (simp add: rescan_row_def rescan_symbol_def change_symbol_def absence_symbols_def
        stubborn_facts plain_facts Let_def still_defs)

lemma stubborn_first_scan:
  "fill_all_hours (still_world [stubborn_row]) plain_args st =
     after_postback (still_world [stubborn_row]) plain_args
       (st\<lparr>page := (),
          trace := trace st @
            [Act (Evaluate ReadGrid),
             Act (Screenshot ''07_grid_before_fill''),
             Log INFO ''Filling hours for workdays...'',
             Log INFO ''Project: {project}'',
             Log INFO ''Looking for dates: {workday_dates}'',
             Log INFO ''------------------------------------------------------------'',
             Log INFO ''--- Pass 1: Postback operations (vacation, sick, delete, symbol changes) ---'',
             Act (Evaluate DismissScript),
             Act (SelectOption (select_selector stubborn_row) ''15''),
             Log INFO ''  {date_text}: Reporting Type set to: {symbol_label}'',
             Act WaitForLoadState, Act (Evaluate DismissScript)],
          success_count := Suc (success_count st)\<rparr>)"
proof -
  have w: "after_postback (still_world [stubborn_row]) = after_postback
       \<lparr>perform = \<lambda>a. Pair None, grid = \<lambda>p. [stubborn_row],
          found = \<lambda>s p. s = sel_save_button, is_closed = \<lambda>p. False,
          current_url =
            \<lambda>p. ''https://nvidia.net.hilan.co.il/Hilannetv2/ng/management/home'',
          autocomplete_ok = \<lambda>p. True, post_save_messages = \<lambda>p. False\<rparr>"
    by (simp add: still_world_def)
  show ?thesis
    unfolding w
    by (simp add: fill_all_hours_def announce_def first_scan_row_def first_scan_symbol_def
        change_symbol_def absence_symbols_def stubborn_facts plain_facts Let_def still_defs)
qed

lemma stubborn_pass2:
  "success_count st > 0 \<Longrightarrow> rows_needing_project_retry st = [] \<Longrightarrow>
   pass2_and_save (still_world rows) plain_args [stubborn_row] st =
     (Inr (success_count st, failure_count st),
      st\<lparr>skipped_count := Suc (skipped_count st), page := (),
         trace := trace st @
           [Log INFO [],
            Log INFO ''--- Pass 2: Fill hours and projects ---'',
            Log INFO ''  {date_text}: Already correct ({row[currentEntry]}-{row[currentExit]}), skipping'',
            Log INFO [], Log INFO ''Saving all entries...'',
            Act (Screenshot ''08_before_save''),
            Act (QuerySelector sel_save_button),
            Act (Click sel_save_button), Act WaitForLoadState,
            Act (Screenshot ''09_after_save''),
            Act (Evaluate PostSaveCheck),
            Log INFO ''Save completed!'',
            Log INFO ''  ({skipped_count} rows skipped - already filled or no inputs)'']\<rparr>)"
  by (simp add: pass2_and_save_def pass2_row_def fill_row_def stubborn_facts plain_facts
      retry_projects_def save_all_def click_save_def result_of_def Let_def still_defs)

text \<open>
  Claim C5, as amended. Take a page on which reading the grid never raises and always
  shows rows, and on which every rescan still finds something to change: each scan of the
  rows ends in a postback, without a warning or an error of its own. Then the loop is
  ended by its cap: after exactly 50 rescans (50 reads of the grid) it goes on, raising
  nothing and logging no warning and no error, and the run continues with the final
  re-read of the grid and Pass 2 on the rows read last.
\<close>

theorem rescan_cap_silent:
  assumes rd: "\<And>p. fst (perform w (Evaluate ReadGrid) p) = None"
    and ne: "\<And>p. grid w p \<noteq> []"
    and busy: "\<And>st. \<exists>st'. for_rows (rescan_row w a) (grid w (page st)) st = (Break, st')
                 \<and> filter alarm (trace st') = filter alarm (trace st)
                 \<and> filter reads_grid (trace st') = filter reads_grid (trace st)"
  shows "\<exists>st1 st2. rescan_loop w a 0 st = Proceed st1
           \<and> filter alarm (trace st1) = filter alarm (trace st)
           \<and> length (filter reads_grid (trace st1)) = length (filter reads_grid (trace st)) + 50
           \<and> after_postback w a st = pass2_and_save w a (grid w (page st2)) st2
           \<and> trace st2 = trace st1 @ [Log INFO [], Log INFO ''--- Final grid re-read for Pass 2 ---'',
                                        Act (Evaluate ReadGrid)]"
proof -
  define h :: "'a fill_state \<Rightarrow> 'a fill_state" where
    "h = (\<lambda>st. snd (act w (Evaluate ReadGrid)
       (log INFO ''--- Re-reading grid after postback operations (rescan {_rescan_count}) ---''
          (log INFO [] st))))"
  define h' :: "'a fill_state \<Rightarrow> 'a fill_state" where
    "h' = (\<lambda>st. snd (act w (Evaluate ReadGrid)
       (log INFO ''--- Final grid re-read for Pass 2 ---'' (log INFO [] st))))"
  have actrd: "fst (act w (Evaluate ReadGrid) st) = None" for st
    using rd [of "page st"] by (auto simp: act_def split: prod.splits)
  have hrun: "run_steps
             [say INFO [],
              say INFO ''--- Re-reading grid after postback operations (rescan {_rescan_count}) ---'',
              act w (Evaluate ReadGrid)] st = (None, h st)" for st
  proof -
    let ?s = "log INFO ''--- Re-reading grid after postback operations (rescan {_rescan_count}) ---''
                (log INFO [] st)"
    obtain r s' where e: "act w (Evaluate ReadGrid) ?s = (r, s')"
      by (cases "act w (Evaluate ReadGrid) ?s")
    then have "r = None" using actrd [of ?s] by simp
    then show ?thesis
      unfolding h_def by (simp add: run_steps.simps say_def e)
  qed
  have hrun': "run_steps
             [say INFO [], say INFO ''--- Final grid re-read for Pass 2 ---'',
              act w (Evaluate ReadGrid)] st = (None, h' st)" for st
  proof -
    let ?s = "log INFO ''--- Final grid re-read for Pass 2 ---'' (log INFO [] st)"
    obtain r s' where e: "act w (Evaluate ReadGrid) ?s = (r, s')"
      by (cases "act w (Evaluate ReadGrid) ?s")
    then have "r = None" using actrd [of ?s] by simp
    then show ?thesis
      unfolding h'_def by (simp add: run_steps.simps say_def e)
  qed
  from busy have "\<forall>st. \<exists>st'. for_rows (rescan_row w a) (grid w (page st)) st = (Break, st')
                 \<and> filter alarm (trace st') = filter alarm (trace st)
                 \<and> filter reads_grid (trace st') = filter reads_grid (trace st)"
    by blast
  then obtain s where s: "\<And>st. for_rows (rescan_row w a) (grid w (page st)) st = (Break, s st)
                 \<and> filter alarm (trace (s st)) = filter alarm (trace st)
                 \<and> filter reads_grid (trace (s st)) = filter reads_grid (trace st)"
    by metis
  define g where "g = (\<lambda>st. s (h st))"
  have body: "\<And>st. run_steps
             [say INFO [],
              say INFO ''--- Re-reading grid after postback operations (rescan {_rescan_count}) ---'',
              act w (Evaluate ReadGrid)] st = (None, h st)
           \<and> grid w (page (h st)) \<noteq> []
           \<and> for_rows (rescan_row w a) (grid w (page (h st))) (h st) = (Break, g st)"
    using hrun ne s by (simp add: g_def)
  have loop: "rescan_loop w a 0 st = Proceed ((g ^^ 50) st)"
    using rescan_loop_iter [of w h a g 0 st, OF body] by simp
  have th: "\<And>st. trace (h st) = trace st @ [Log INFO [],
       Log INFO ''--- Re-reading grid after postback operations (rescan {_rescan_count}) ---'',
       Act (Evaluate ReadGrid)]"
    by (simp add: h_def)
  have th': "\<And>st. trace (h' st) = trace st @ [Log INFO [],
       Log INFO ''--- Final grid re-read for Pass 2 ---'', Act (Evaluate ReadGrid)]"
    by (simp add: h'_def)
  have ga: "\<And>st. filter alarm (trace (g st)) = filter alarm (trace st)"
    using s th by (simp add: g_def)
  have gr: "\<And>st. length (filter reads_grid (trace (g st)))
                = length (filter reads_grid (trace st)) + 1"
    using s th by (simp add: g_def)
  have a50: "filter alarm (trace ((g ^^ 50) st)) = filter alarm (trace st)"
    by (rule funpow_keeps [where f = "\<lambda>st. filter alarm (trace st)"]) (rule ga)
  have r50: "length (filter reads_grid (trace ((g ^^ 50) st)))
               = length (filter reads_grid (trace st)) + 50"
    by (rule funpow_counts [where f = "\<lambda>st. length (filter reads_grid (trace st))"]) (rule gr)
  have ap: "after_postback w a st
              = pass2_and_save w a (grid w (page (h' ((g ^^ 50) st)))) (h' ((g ^^ 50) st))"
    unfolding after_postback_def loop by (simp add: hrun' ne)
  show ?thesis
    using loop a50 r50 ap th' by blast
qed


text \<open>
  The page that never changes, with Sunday the 1st shown as office presence while the run
  asks for remote work: every rescan selects remote work again.
\<close>

theorem rescan_cap_silent_witness:
  "\<exists>st1. rescan_loop (still_world [stubborn_row]) plain_args 0 (initial_state ()) = Proceed st1
     \<and> filter alarm (trace st1) = []
     \<and> length (filter reads_grid (trace st1)) = 50"
proof -
  have rd: "\<And>p. fst (perform (still_world [stubborn_row]) (Evaluate ReadGrid) p) = None"
    and ne: "\<And>p. grid (still_world [stubborn_row]) p \<noteq> []"
    by (simp_all add: still_world_def)
  have g: "\<And>p. grid (still_world [stubborn_row]) p = [stubborn_row]"
    by (simp add: still_world_def)
  have busy: "\<And>st. \<exists>st'. for_rows (rescan_row (still_world [stubborn_row]) plain_args)
                   (grid (still_world [stubborn_row]) (page st)) st = (Break, st')
                 \<and> filter alarm (trace st') = filter alarm (trace st)
                 \<and> filter reads_grid (trace st') = filter reads_grid (trace st)"
    unfolding g stubborn_rescan by simp
  have e: "trace (initial_state ()) = []" by (simp add: initial_state_def)
  show ?thesis
    using rescan_cap_silent [of "still_world [stubborn_row]" plain_args "initial_state ()",
        OF rd ne busy]
    unfolding e by auto
qed

text \<open>
  Claim C5 as the specification words it does not hold: on that page the first scan and
  each of the 50 rescans select a symbol, the cap ends the loop, and the run returns
  normally with 51 successes and no failure, having read the grid 52 times and logged no
  warning and no error.
\<close>

theorem rescan_cap_counterexample:
  "fst (fill_all_hours (still_world [stubborn_row]) plain_args (initial_state ())) = Inr (51, 0)
   \<and> filter alarm (trace (snd (fill_all_hours (still_world [stubborn_row]) plain_args
        (initial_state ())))) = []
   \<and> length (filter reads_grid (trace (snd (fill_all_hours (still_world [stubborn_row])
        plain_args (initial_state ()))))) = 52"
proof -
  let ?w = "still_world [stubborn_row]"
  define h :: "unit fill_state \<Rightarrow> unit fill_state" where
    "h = (\<lambda>st. st\<lparr>page := (), trace := trace st @ [Log INFO [],
       Log INFO ''--- Re-reading grid after postback operations (rescan {_rescan_count}) ---'',
       Act (Evaluate ReadGrid)]\<rparr>)"
  define g :: "unit fill_state \<Rightarrow> unit fill_state" where
    "g = (\<lambda>st. st\<lparr>page := (), trace := trace st @ [Log INFO [],
       Log INFO ''--- Re-reading grid after postback operations (rescan {_rescan_count}) ---'',
       Act (Evaluate ReadGrid),
       Act (Evaluate DismissScript),
       Act (SelectOption (select_selector stubborn_row) ''15''),
       Log INFO ''  {date_text}: Reporting Type set to: {symbol_label} (rescan)'',
       Act WaitForLoadState, Act (Evaluate DismissScript)],
       success_count := Suc (success_count st)\<rparr>)"
  define s1 :: "unit fill_state" where
    "s1 = (initial_state ())\<lparr>page := (),
          trace := trace (initial_state ()) @
            [Act (Evaluate ReadGrid),
             Act (Screenshot ''07_grid_before_fill''),
             Log INFO ''Filling hours for workdays...'',
             Log INFO ''Project: {project}'',
             Log INFO ''Looking for dates: {workday_dates}'',
             Log INFO ''------------------------------------------------------------'',
             Log INFO ''--- Pass 1: Postback operations (vacation, sick, delete, symbol changes) ---'',
             Act (Evaluate DismissScript),
             Act (SelectOption (select_selector stubborn_row) ''15''),
             Log INFO ''  {date_text}: Reporting Type set to: {symbol_label}'',
             Act WaitForLoadState, Act (Evaluate DismissScript)],
          success_count := Suc (success_count (initial_state ()))\<rparr>"
  define s2 where "s2 = (g ^^ 50) s1"
  define s3 :: "unit fill_state" where
    "s3 = s2\<lparr>page := (), trace := trace s2 @ [Log INFO [],
       Log INFO ''--- Final grid re-read for Pass 2 ---'', Act (Evaluate ReadGrid)]\<rparr>"
  have body: "\<And>st. run_steps
             [say INFO [],
              say INFO ''--- Re-reading grid after postback operations (rescan {_rescan_count}) ---'',
              act ?w (Evaluate ReadGrid)] st = (None, h st)
           \<and> grid ?w (page (h st)) \<noteq> []
           \<and> for_rows (rescan_row ?w plain_args) (grid ?w (page (h st))) (h st) = (Break, g st)"
  proof -
    fix st :: "unit fill_state"
    have gr: "grid ?w (page (h st)) = [stubborn_row]" by (simp add: still_world_def)
    show "run_steps
             [say INFO [],
              say INFO ''--- Re-reading grid after postback operations (rescan {_rescan_count}) ---'',
              act ?w (Evaluate ReadGrid)] st = (None, h st)
           \<and> grid ?w (page (h st)) \<noteq> []
           \<and> for_rows (rescan_row ?w plain_args) (grid ?w (page (h st))) (h st) = (Break, g st)"
      unfolding gr stubborn_rescan
      by (simp add: h_def g_def still_defs)
  qed
  have loop: "rescan_loop ?w plain_args 0 s1 = Proceed s2"
    unfolding s2_def using rescan_loop_iter [of ?w h plain_args g 0 s1, OF body] by simp
  have sc: "success_count s2 = success_count s1 + 50"
    unfolding s2_def
    by (rule funpow_counts [where f = success_count]) (simp add: g_def)
  have fc: "failure_count s2 = failure_count s1"
    unfolding s2_def
    by (rule funpow_keeps [where f = failure_count]) (simp add: g_def)
  have rr: "rows_needing_project_retry s2 = rows_needing_project_retry s1"
    unfolding s2_def
    by (rule funpow_keeps [where f = rows_needing_project_retry]) (simp add: g_def)
  have al: "filter alarm (trace s2) = filter alarm (trace s1)"
    unfolding s2_def
    by (rule funpow_keeps [where f = "\<lambda>st. filter alarm (trace st)"]) (simp add: g_def)
  have rg: "length (filter reads_grid (trace s2)) = length (filter reads_grid (trace s1)) + 50"
    unfolding s2_def
    by (rule funpow_counts [where f = "\<lambda>st. length (filter reads_grid (trace st))"])
       (simp add: g_def)
  have first: "fill_all_hours ?w plain_args (initial_state ()) = after_postback ?w plain_args s1"
    unfolding s1_def by (rule stubborn_first_scan)
  have ap: "after_postback ?w plain_args s1 = pass2_and_save ?w plain_args [stubborn_row] s3"
    unfolding after_postback_def loop s3_def
    by (simp add: still_defs)
  have i1: "success_count s1 = 1" "failure_count s1 = 0" "rows_needing_project_retry s1 = []"
    "filter alarm (trace s1) = []" "length (filter reads_grid (trace s1)) = 1"
    by (simp_all add: s1_def initial_state_def)
  have i3: "success_count s3 = 51" "failure_count s3 = 0" "rows_needing_project_retry s3 = []"
    "filter alarm (trace s3) = []" "length (filter reads_grid (trace s3)) = 52"
    using sc fc rr al rg i1 by (simp_all add: s3_def)
  have pos: "success_count s3 > 0" using i3(1) by simp
  note p2 = stubborn_pass2 [OF pos i3(3), of "[stubborn_row]"]
  show ?thesis
    unfolding first ap p2 using i3 by simp
qed

section \<open>Row indices after a postback\<close>

lemma sick_args_facts:
  "fill_vacation_days sick_args = {}" "sick_days sick_args = {8, 9, 10}"
  "fill_sick_file sick_args = Some ''cert.pdf''" "truthy (fill_sick_file sick_args)"
  "truthy (fill_project sick_args)" "fill_present_dates sick_args = {}"
  "sick_symbol {8, 9, 10} = ''6''"
  "''08/02'' \<in> workday_dates sick_args"
  "day_num_of ''08/02'' = Some 8"
  by (simp_all add: sick_args_def plain_args_def truthy_def sick_symbol_def) code_simp+

lemma reload_rows_facts:
  "date_parts sick_row = [''08/02'', ''Sun'']" "\<not> is_fri_sat sick_row"
  "hasSymbolSelect sick_row" "truthy (symbolSelectId sick_row)"
  "currentSymbol sick_row = ''15''" "has_hours sick_row" "rowIndex sick_row = 0"
  "or_empty (entryInputId sick_row) = ''entry_0''" "or_empty (exitInputId sick_row) = ''exit_0''"
  "date_parts filed_row = [''08/02'', ''Sun'']" "\<not> is_fri_sat filed_row"
  "currentSymbol filed_row = ''6''" "\<not> has_hours filed_row"
  by code_simp+

lemma cert: "truthy (Some ''cert.pdf'')" "or_empty (Some ''cert.pdf'') = ''cert.pdf''"
  by (simp_all add: truthy_def or_empty_def)

lemmas reload_defs = run_steps.simps dismiss_def dismiss_modal_def act_def reloading_world_def
  say_def wait_idle_def log_def succeeded_def skipped_def failed_def try_screenshot_def

text \<open>
  Claim C7 does not hold of the branch that sets a sick day with a certificate. With sick
  days 8-10 and the certificate \<open>cert.pdf\<close>, on a page that shows Sunday the 8th as
  remote work with hours: the first scan selects symbol 6 on the row, which posts the page
  back, and then, before the grid is read again, looks up the upload link of row 0, the
  index read before the postback, and hands the file to it. The run ends normally with
  one success.
\<close>

theorem stale_row_index_used:
  "fst (fill_all_hours reloading_world sick_args (initial_state False)) = Inr (1, 0)
   \<and> take 19 (trace (snd (fill_all_hours reloading_world sick_args (initial_state False)))) =
       [Act (Evaluate ReadGrid), Act (Screenshot ''07_grid_before_fill''),
        Log INFO ''Filling hours for workdays...'',
        Log INFO ''Project: {project}'',
        Log INFO ''Sick days: {sorted(sick_days)} ({sick_type})'',
        Log INFO ''Looking for dates: {workday_dates}'',
        Log INFO ''------------------------------------------------------------'',
        Log INFO ''--- Pass 1: Postback operations (vacation, sick, delete, symbol changes) ---'',
        Act (Evaluate DismissScript),
        Act (Evaluate (ClearHoursAndProject ''entry_0'' ''exit_0'' 0)),
        Act (SelectOption (select_selector sick_row) ''6''),
        Log INFO ''  {date_text}: Set to {sick_label.upper()}'',
        Act WaitForLoadState, Act (Evaluate DismissScript),
        Act (QuerySelector (upload_selector 0)),
        Act (ChooseFile (upload_selector 0) ''cert.pdf''),
        Act WaitForLoadState, Act (Evaluate DismissScript),
        Log INFO ''    Sick certificate uploaded: {sick_file}'']
   \<and> \<not> stale_free False
         (trace (snd (fill_all_hours reloading_world sick_args (initial_state False))))"
  by (simp add: fill_all_hours_def announce_def first_scan_row_def first_scan_sick_def
       upload_sick_file_def after_postback_def rescan_loop.simps rescan_row_def rescan_absence_def
       pass2_and_save_def pass2_row_def retry_projects_def save_all_def click_save_def result_of_def
       sick_args_facts reload_rows_facts initial_state_def Let_def reload_defs
       is_upload_selector_def upload_selector_def decimal.simps cert)

section \<open>The exit status\<close>


lemma handle_logs: "Log ERROR ''Error: {e}'' \<in> set (snd (handle w e st))
    \<or> Log ERROR ''Timeout error: {e}'' \<in> set (snd (handle w e st))
    \<or> Log ERROR ''Unexpected error: {e}'' \<in> set (snd (handle w e st))"
  by (simp add: handle_def try_screenshot_def)















section \<open>Reserve duty\<close>

text \<open>
  Claim C3 (the code falls short of it). The interactive shell collects reserve-duty days
  and the order file and passes them as \<open>--rd-days\<close> and \<open>--rd-file\<close>; \<open>parse_args\<close>
  declares neither option, so the command line built by \<open>build_command\<close> is refused
  with status 2 before any browser action, and no day is ever given the reserve-duty
  symbol.
\<close>

theorem reserve_duty_refused:
  "build_command ''python'' ''hilan_filler.py'' reserve_params =
     [''python'', ''hilan_filler.py'', ''-u'', ''12345'', ''-p'', ''secret'',
      ''--project'', ''12086'', ''--month'', ''2'', ''--year'', ''2026'',
      ''--start-time'', ''09:00'', ''--end-time'', ''18:00'', ''--present-days'', ''2,4'',
      ''--rd-days'', ''5-7'', ''--rd-file'', ''order.pdf'']
   \<and> classify ''--rd-days'' = Unknown \<and> classify ''--rd-file'' = Unknown
   \<and> parse_args feb10 no_file (argv_of (build_command ''python'' ''hilan_filler.py'' reserve_params))
       = Inl (Unrecognized [''--rd-days'', ''5-7'', ''--rd-file'', ''order.pdf''])
   \<and> main (still_world []) no_holidays feb10 no_file
        (argv_of (build_command ''python'' ''hilan_filler.py'' reserve_params)) () = (2, [])"
  by code_simp


section \<open>The workdays of a month\<close>

lemma workdays_loop_filter:
  assumes "1 \<le> y" "y \<le> 9999" "1 \<le> m" "m \<le> 12"
    and "\<forall>n\<in>set ns. 1 \<le> n \<and> n \<le> days_in_month y m"
  shows "workdays_loop H y m ns acc =
     Some (acc @ filter (\<lambda>d. is_workday d \<and> d \<notin> H)
                   (map (\<lambda>n. \<lparr>year = y, month = m, day = n\<rparr>) ns))"
  using assms(5)
proof (induction ns arbitrary: acc)
  case Nil
  then show ?case by simp
next
  case (Cons n ns)
  have "mk_date y m n = Some \<lparr>year = y, month = m, day = n\<rparr>"
    using assms(1-4) Cons.prems by (simp add: mk_date_def)
  then show ?case using Cons by simp
qed

lemma friday_in_first_week:
  "\<exists>n. 1 \<le> n \<and> n \<le> 7 \<and> weekday \<lparr>year = y, month = m, day = n\<rparr> = 4"
proof -
  define k where "k = days_before_year y + days_before_month y m"
  define n where "n = (if (5 - k) mod 7 = 0 then 7 else (5 - k) mod 7)"
  have "1 \<le> n" "n \<le> 7" unfolding n_def by auto
  moreover have "(k + n + 6) mod 7 = 4" unfolding n_def by presburger
  ultimately have "1 \<le> n \<and> n \<le> 7 \<and> weekday \<lparr>year = y, month = m, day = n\<rparr> = 4"
    by (simp add: weekday_def toordinal_def k_def)
  then show ?thesis by (rule exI)
qed

lemma days_in_month_bounds: "28 \<le> days_in_month y m \<and> days_in_month y m \<le> 31"
  by (simp add: days_in_month_def)

text \<open>
  Claim C2, as amended. For a month 1..12 of a year 1..9999, \<open>get_workdays\<close> returns
  the days 1..N of the month (N the number of days of the month) whose weekday in the
  proleptic Gregorian calendar is Sunday to Thursday and which are not holidays, in
  ascending order and each once. It never returns all N days: one of the first seven days
  is a Friday.
\<close>

theorem get_workdays_filters:
  assumes "1 \<le> y" and "y \<le> 9999" and "1 \<le> m" and "m \<le> 12"
  shows "\<exists>wds. get_workdays h y m = Inr wds
     \<and> wds = filter (\<lambda>d. is_workday d \<and> d \<notin> h y)
               (map (\<lambda>n. \<lparr>year = y, month = m, day = n\<rparr>) [1..days_in_month y m])
     \<and> distinct wds
     \<and> sorted (map day wds)
     \<and> (\<forall>d\<in>set wds. year d = y \<and> month d = m \<and> 1 \<le> day d \<and> day d \<le> days_in_month y m
                      \<and> weekday d \<in> {6, 0, 1, 2, 3} \<and> d \<notin> h y)
     \<and> int (length wds) < days_in_month y m"
proof -
  define mk where "mk = (\<lambda>n. \<lparr>year = y, month = m, day = n\<rparr>)"
  define P where "P = (\<lambda>d. is_workday d \<and> d \<notin> h y)"
  define N where "N = days_in_month y m"
  define all where "all = map mk [1..N]"
  define wds where "wds = filter P all"
  have N: "28 \<le> N" "N \<le> 31" using days_in_month_bounds [of y m] by (simp_all add: N_def)
  have g: "get_workdays h y m = Inr wds"
    using assms workdays_loop_filter [OF assms, of "[1..days_in_month y m]" "h y" "[]"]
    by (simp add: get_workdays_def wds_def all_def P_def mk_def N_def)
  have "inj_on mk (set [1..N])" by (auto simp: inj_on_def mk_def)
  then have "distinct all" by (simp add: all_def distinct_map)
  then have d: "distinct wds" by (simp add: wds_def)
  have "map day all = [1..N]" by (simp add: all_def mk_def comp_def)
  then have "sorted (map day all)" by simp
  then have s: "sorted (map day wds)"
    unfolding wds_def by (simp add: sorted_wrt_map sorted_wrt_filter)
  have p: "\<forall>d\<in>set wds. year d = y \<and> month d = m \<and> 1 \<le> day d \<and> day d \<le> days_in_month y m
                      \<and> weekday d \<in> {6, 0, 1, 2, 3} \<and> d \<notin> h y"
  proof
    fix d assume "d \<in> set wds"
    then have "P d" and "d \<in> set all" by (simp_all add: wds_def)
    then obtain n where "d = mk n" "1 \<le> n" "n \<le> N" by (auto simp: all_def)
    with \<open>P d\<close> show "year d = y \<and> month d = m \<and> 1 \<le> day d \<and> day d \<le> days_in_month y m
                      \<and> weekday d \<in> {6, 0, 1, 2, 3} \<and> d \<notin> h y"
      by (simp add: P_def mk_def N_def is_workday_def)
  qed
  obtain n where n: "1 \<le> n" "n \<le> 7" "weekday (mk n) = 4"
    using friday_in_first_week [of y m] unfolding mk_def by blast
  have "n \<le> N" using n(2) N(1) by linarith
  then have a: "mk n \<in> set all" using n(1) by (simp add: all_def)
  have b: "\<not> P (mk n)" using n(3) by (simp add: P_def is_workday_def)
  have c: "length wds < length all"
    unfolding wds_def by (rule length_filter_less [where P = P and x = "mk n" and xs = all, OF a b])
  have "int (length all) = N" using N(1) by (simp add: all_def)
  then have l: "int (length wds) < N" using c by linarith
  have "get_workdays h y m = Inr wds \<and> wds = filter P all \<and> distinct wds \<and> sorted (map day wds)
     \<and> (\<forall>d\<in>set wds. year d = y \<and> month d = m \<and> 1 \<le> day d \<and> day d \<le> days_in_month y m
                      \<and> weekday d \<in> {6, 0, 1, 2, 3} \<and> d \<notin> h y)
     \<and> int (length wds) < N"
    using g wds_def d s p l by (intro conjI)
  then show ?thesis unfolding P_def all_def mk_def N_def by (rule exI)
qed

text \<open>February 2024, a leap year, without holidays.\<close>

theorem get_workdays_filters_witness:
  "distinct (projr (get_workdays no_holidays 2024 2))
   \<and> int (length (projr (get_workdays no_holidays 2024 2))) < days_in_month 2024 2"
proof -
  have h: "(1::int) \<le> 2024" "(2024::int) \<le> 9999" "(1::int) \<le> 2" "(2::int) \<le> 12"
    by simp_all
  from get_workdays_filters [OF h, of no_holidays]
  obtain wds where w: "get_workdays no_holidays 2024 2 = Inr wds
     \<and> wds = filter (\<lambda>d. is_workday d \<and> d \<notin> no_holidays 2024)
               (map (\<lambda>n. \<lparr>year = 2024, month = 2, day = n\<rparr>) [1..days_in_month 2024 2])
     \<and> distinct wds
     \<and> sorted (map day wds)
     \<and> (\<forall>d\<in>set wds. year d = 2024 \<and> month d = 2 \<and> 1 \<le> day d
                      \<and> day d \<le> days_in_month 2024 2
                      \<and> weekday d \<in> {6, 0, 1, 2, 3} \<and> d \<notin> no_holidays 2024)
     \<and> int (length wds) < days_in_month 2024 2"
    by (rule exE)
  note g = w [THEN conjunct1]
  note d = w [THEN conjunct2, THEN conjunct2, THEN conjunct1]
  note l = w [THEN conjunct2, THEN conjunct2, THEN conjunct2, THEN conjunct2, THEN conjunct2]
  have "projr (get_workdays no_holidays 2024 2) = wds" unfolding g by simp
  then show ?thesis using d l by (simp only:)
qed

text \<open>
  Claim C2 as the specification words it does not hold: February 2024 has 29 days and
  \<open>get_workdays\<close> returns 21 of them; Friday the 2nd is not among them.
\<close>

theorem get_workdays_counterexample:
  "length (projr (get_workdays no_holidays 2024 2)) = 21 \<and> days_in_month 2024 2 = 29
   \<and> weekday \<lparr>year = 2024, month = 2, day = 2\<rparr> = 4
   \<and> \<lparr>year = 2024, month = 2, day = 2\<rparr> \<notin> set (projr (get_workdays no_holidays 2024 2))"
  by code_simp


end
